theory Spec2Isabelle
  imports Main
begin

section \<open>Kernel IR scalars and the expression builders\<close>

text \<open>
  The halo analysis of \<^verbatim>\<open>lower_shift.cpp\<close> works on kernel-IR scalars
  (\<^verbatim>\<open>kir::Val\<close>, \<^verbatim>\<open>kir::Int\<close>, \<^verbatim>\<open>kir::Bool\<close>). They are heap nodes: two pointers
  are equal when they name the same node, so every node of the model carries its address.
  A node is a literal (it has a value and no definition), a runtime scalar (neither) or
  the result of an expression (a definition and no value).
\<close>

type_synonym addr = nat

datatype DataType = DInt | DBool

datatype Scalar = IntV int | BoolV bool

datatype UnaryOpType = UNeg | UNot | USet

datatype BinaryOpType = BAdd | BSub | BMul | BMax | BGE | BLT | BAnd

text \<open>
  Modelled from the spec: the node types of the symbolic integer expression layer
  (\<^verbatim>\<open>kernel_ir.h\<close> is not among the sources). \<open>Lit\<close> is a \<^verbatim>\<open>kir::Int\<close> or
  \<^verbatim>\<open>kir::Bool\<close> built from a value, \<open>Sym\<close> a scalar known only at run time, \<open>Res\<close> the
  output of a unary or binary operation.
\<close>

datatype Val =
    Lit addr Scalar
  | Sym addr DataType
  | Res addr DataType Expr
and Expr =
    UnaryOp UnaryOpType Val
  | BinaryOp BinaryOpType Val Val

fun addr_of :: "Val \<Rightarrow> addr" where
  "addr_of (Lit a s) = a"
| "addr_of (Sym a t) = a"
| "addr_of (Res a t e) = a"

fun dtype :: "Val \<Rightarrow> DataType" where
  "dtype (Lit a (IntV v)) = DInt"
| "dtype (Lit a (BoolV b)) = DBool"
| "dtype (Sym a t) = t"
| "dtype (Res a t e) = t"

text \<open>\<^verbatim>\<open>kir::Int::value()\<close>: the literal of an integer node, if it has one.\<close>

fun int_value :: "Val \<Rightarrow> int option" where
  "int_value (Lit a (IntV v)) = Some v"
| "int_value x = None"

text \<open>\<^verbatim>\<open>kir::Bool::value()\<close>.\<close>

fun bool_value :: "Val \<Rightarrow> bool option" where
  "bool_value (Lit a (BoolV b)) = Some b"
| "bool_value x = None"

text \<open>\<^verbatim>\<open>Val::definition()\<close>: the expression a node is the output of, or null.\<close>

fun definition_of :: "Val \<Rightarrow> Expr option" where
  "definition_of (Res a t e) = Some e"
| "definition_of x = None"

definition isZeroInt :: "Val \<Rightarrow> bool" where
  "isZeroInt x = (int_value x = Some 0)"

definition isOneInt :: "Val \<Rightarrow> bool" where
  "isOneInt x = (int_value x = Some 1)"

text \<open>\<^verbatim>\<open>dynamic_cast<kir::Int*>\<close> succeeds on the integer nodes.\<close>

definition isInt :: "Val \<Rightarrow> bool" where
  "isInt x = (dtype x = DInt)"

text \<open>
  The meaning of a scalar under an assignment of the runtime scalars (by address).
  Booleans read as 0 and 1. It is used to state what a built expression computes.
\<close>

fun eval :: "(addr \<Rightarrow> int) \<Rightarrow> Val \<Rightarrow> int"
  and eval_expr :: "(addr \<Rightarrow> int) \<Rightarrow> Expr \<Rightarrow> int" where
  "eval env (Lit a (IntV v)) = v"
| "eval env (Lit a (BoolV b)) = (if b then 1 else 0)"
| "eval env (Sym a t) = env a"
| "eval env (Res a t e) = eval_expr env e"
| "eval_expr env (UnaryOp UNeg x) = - eval env x"
| "eval_expr env (UnaryOp UNot x) = (if eval env x = 0 then 1 else 0)"
| "eval_expr env (UnaryOp USet x) = eval env x"
| "eval_expr env (BinaryOp BAdd x y) = eval env x + eval env y"
| "eval_expr env (BinaryOp BSub x y) = eval env x - eval env y"
| "eval_expr env (BinaryOp BMul x y) = eval env x * eval env y"
| "eval_expr env (BinaryOp BMax x y) = max (eval env x) (eval env y)"
| "eval_expr env (BinaryOp BGE x y) = (if eval env y \<le> eval env x then 1 else 0)"
| "eval_expr env (BinaryOp BLT x y) = (if eval env x < eval env y then 1 else 0)"
| "eval_expr env (BinaryOp BAnd x y) =
     (if eval env x \<noteq> 0 \<and> eval env y \<noteq> 0 then 1 else 0)"

subsection \<open>\<^verbatim>\<open>kir::IrBuilder\<close>\<close>

text \<open>
  Modelled from the spec: the expression builder (\<^verbatim>\<open>kernel_ir_builder.cpp\<close> is not among
  the sources). Creating a node takes the next free address; the builder state is that
  address. The kernel keeps one node each for zero, false and true.
\<close>

definition zeroVal :: Val where
  "zeroVal = Lit 0 (IntV 0)"

definition falseVal :: Val where
  "falseVal = Lit 2 (BoolV False)"

definition trueVal :: Val where
  "trueVal = Lit 3 (BoolV True)"

definition create_Int :: "int \<Rightarrow> addr \<Rightarrow> Val \<times> addr" where
  "create_Int v n = (Lit n (IntV v), Suc n)"

definition create_Bool :: "bool \<Rightarrow> addr \<Rightarrow> Val \<times> addr" where
  "create_Bool b n = (Lit n (BoolV b), Suc n)"

text \<open>The plain builder makes a node for every operation and folds nothing.\<close>

definition newArithmeticExpr :: "BinaryOpType \<Rightarrow> Val \<Rightarrow> Val \<Rightarrow> addr \<Rightarrow> Val \<times> addr" where
  "newArithmeticExpr op lhs rhs n = (Res n (dtype lhs) (BinaryOp op lhs rhs), Suc n)"

definition newLogicExpr :: "BinaryOpType \<Rightarrow> Val \<Rightarrow> Val \<Rightarrow> addr \<Rightarrow> Val \<times> addr" where
  "newLogicExpr op lhs rhs n = (Res n DBool (BinaryOp op lhs rhs), Suc n)"

definition IrBuilder_addExpr :: "Val \<Rightarrow> Val \<Rightarrow> addr \<Rightarrow> Val \<times> addr" where
  "IrBuilder_addExpr = newArithmeticExpr BAdd"

definition IrBuilder_subExpr :: "Val \<Rightarrow> Val \<Rightarrow> addr \<Rightarrow> Val \<times> addr" where
  "IrBuilder_subExpr = newArithmeticExpr BSub"

definition IrBuilder_mulExpr :: "Val \<Rightarrow> Val \<Rightarrow> addr \<Rightarrow> Val \<times> addr" where
  "IrBuilder_mulExpr = newArithmeticExpr BMul"

definition IrBuilder_maxExpr :: "Val \<Rightarrow> Val \<Rightarrow> addr \<Rightarrow> Val \<times> addr" where
  "IrBuilder_maxExpr = newArithmeticExpr BMax"

subsection \<open>\<^verbatim>\<open>kir::SimplifyingIrBuilder\<close>\<close>

text \<open>
  Modelled from the spec: the builder "with automatic constant folding (adding a
  known-zero collapses, multiplying or comparing known constants folds to a literal)".
  \<open>addExpr_scalar\<close> is the overload that adds a plain integer to a \<^verbatim>\<open>kir::Int\<close>.
\<close>

definition addExpr_scalar :: "Val \<Rightarrow> int \<Rightarrow> addr \<Rightarrow> Val \<times> addr" where
  "addExpr_scalar lhs rhs n =
     (if rhs = 0 then (lhs, n)
      else case int_value lhs of
        Some v \<Rightarrow> create_Int (v + rhs) n
      | None \<Rightarrow>
          if rhs > 0 then
            (let (c, n1) = create_Int rhs n in IrBuilder_addExpr lhs c n1)
          else
            (let (c, n1) = create_Int (- rhs) n in IrBuilder_subExpr lhs c n1))"

definition addExpr :: "Val \<Rightarrow> Val \<Rightarrow> addr \<Rightarrow> Val \<times> addr" where
  "addExpr lhs rhs n =
     (if isZeroInt lhs then (rhs, n)
      else if isZeroInt rhs then (lhs, n)
      else case (int_value lhs, int_value rhs) of
        (Some a, Some b) \<Rightarrow> create_Int (a + b) n
      | _ \<Rightarrow> IrBuilder_addExpr lhs rhs n)"

definition subExpr :: "Val \<Rightarrow> Val \<Rightarrow> addr \<Rightarrow> Val \<times> addr" where
  "subExpr lhs rhs n =
     (if isZeroInt rhs then (lhs, n)
      else case (int_value lhs, int_value rhs) of
        (Some a, Some b) \<Rightarrow> create_Int (a - b) n
      | _ \<Rightarrow> IrBuilder_subExpr lhs rhs n)"

definition geExpr :: "Val \<Rightarrow> Val \<Rightarrow> addr \<Rightarrow> Val \<times> addr" where
  "geExpr lhs rhs n =
     (case (int_value lhs, int_value rhs) of
        (Some a, Some b) \<Rightarrow> create_Bool (b \<le> a) n
      | _ \<Rightarrow> newLogicExpr BGE lhs rhs n)"

definition ltExpr :: "Val \<Rightarrow> Val \<Rightarrow> addr \<Rightarrow> Val \<times> addr" where
  "ltExpr lhs rhs n =
     (case (int_value lhs, int_value rhs) of
        (Some a, Some b) \<Rightarrow> create_Bool (a < b) n
      | _ \<Rightarrow> newLogicExpr BLT lhs rhs n)"

text \<open>
  The conjunction takes a predicate that may still be null (the loop of
  \<^verbatim>\<open>getPredicate\<close> starts from \<^verbatim>\<open>nullptr\<close>): a null side gives the other side, a
  known-false side gives false, a known-true side is dropped.
\<close>

definition andExpr :: "Val option \<Rightarrow> Val \<Rightarrow> addr \<Rightarrow> Val \<times> addr" where
  "andExpr lhs rhs n =
     (case lhs of
        None \<Rightarrow> (rhs, n)
      | Some l \<Rightarrow>
          if bool_value l = Some True \<and> bool_value rhs = Some True then (trueVal, n)
          else if bool_value l = Some False \<or> bool_value rhs = Some False then (falseVal, n)
          else if bool_value l = Some True then (rhs, n)
          else if bool_value rhs = Some True then (l, n)
          else newLogicExpr BAnd l rhs n)"

section \<open>Axis halo widths\<close>

datatype error =
    AssertFailed
  | OutOfRange
  | InvalidIterDomain
  | RootAxisInfoNotFound
  | InvalidDomain
  | SplitOfHaloMerge
  | UnsupportedExpr
  | ExtentMismatch
  | UnsupportedParallelType
  | NotOnSharedMemory
  | BlockParallelHalo
  | NotLoopMapped
  | InvalidComparison

text \<open>
  \<^verbatim>\<open>AxisHaloInfo\<close> holds \<^verbatim>\<open>std::array<kir::Int*, 2> widths_\<close>: position 0 is the halo at
  offset zero of the axis (low side), position 1 the halo past its end (high side). The
  constructor sets both to the kernel's zero node.
\<close>

record AxisHaloInfo =
  width0 :: Val
  width1 :: Val

definition AxisHaloInfo_new :: AxisHaloInfo where
  "AxisHaloInfo_new = \<lparr> width0 = zeroVal, width1 = zeroVal \<rparr>"

text \<open>\<^verbatim>\<open>width(int pos)\<close> and \<^verbatim>\<open>setWidth\<close> assert \<^verbatim>\<open>pos >= 0 && pos < 2\<close>.\<close>

definition width_at :: "AxisHaloInfo \<Rightarrow> nat \<Rightarrow> error + Val" where
  "width_at info pos =
     (if pos < 2 then Inr (if pos = 0 then width0 info else width1 info)
      else Inl AssertFailed)"

definition setWidth :: "nat \<Rightarrow> Val \<Rightarrow> AxisHaloInfo \<Rightarrow> error + AxisHaloInfo" where
  "setWidth pos w info =
     (if pos < 2 then Inr (if pos = 0 then info\<lparr>width0 := w\<rparr> else info\<lparr>width1 := w\<rparr>)
      else Inl AssertFailed)"

text \<open>\<^verbatim>\<open>AxisHaloInfo::width()\<close>: the combined width, built by the simplifying builder.\<close>

definition width_sum :: "AxisHaloInfo \<Rightarrow> addr \<Rightarrow> Val \<times> addr" where
  "width_sum info n = addExpr (width0 info) (width1 info) n"

text \<open>
  The new width of \<^verbatim>\<open>AxisHaloInfo::merge(int pos, kir::Int* other)\<close>, lines 357 to 366:
  two literals give a new literal of their maximum; a known zero gives the other
  operand itself; otherwise a max node is built by the plain builder.
\<close>

definition merge_width :: "Val \<Rightarrow> Val \<Rightarrow> addr \<Rightarrow> Val \<times> addr" where
  "merge_width cur other n =
     (case (int_value cur, int_value other) of
        (Some a, Some b) \<Rightarrow> create_Int (max a b) n
      | _ \<Rightarrow>
          if isZeroInt cur then (other, n)
          else if isZeroInt other then (cur, n)
          else IrBuilder_maxExpr cur other n)"

definition AxisHaloInfo_merge_pos ::
  "nat \<Rightarrow> Val \<Rightarrow> AxisHaloInfo \<Rightarrow> addr \<Rightarrow> error + (AxisHaloInfo \<times> addr)" where
  "AxisHaloInfo_merge_pos pos other info n =
     (case width_at info pos of
        Inl e \<Rightarrow> Inl e
      | Inr cur \<Rightarrow>
          (let (new_width, n1) = merge_width cur other n in
           case setWidth pos new_width info of
             Inl e \<Rightarrow> Inl e
           | Inr info1 \<Rightarrow> Inr (info1, n1)))"

text \<open>
  \<^verbatim>\<open>AxisHaloInfo::merge(const AxisHaloInfo& other)\<close>: both positions in turn, each with
  the width of \<open>other\<close> at that position.
\<close>

definition AxisHaloInfo_merge ::
  "AxisHaloInfo \<Rightarrow> AxisHaloInfo \<Rightarrow> addr \<Rightarrow> error + (AxisHaloInfo \<times> addr)" where
  "AxisHaloInfo_merge info other n =
     (case width_at other 0 of
        Inl e \<Rightarrow> Inl e
      | Inr w0 \<Rightarrow>
          (case AxisHaloInfo_merge_pos 0 w0 info n of
             Inl e \<Rightarrow> Inl e
           | Inr (info1, n1) \<Rightarrow>
               (case width_at other 1 of
                  Inl e \<Rightarrow> Inl e
                | Inr w1 \<Rightarrow> AxisHaloInfo_merge_pos 1 w1 info1 n1)))"

text \<open>\<^verbatim>\<open>hasHalo\<close>: some width is not a known zero.\<close>

definition hasHalo :: "AxisHaloInfo \<Rightarrow> bool" where
  "hasHalo info = (\<not> isZeroInt (width0 info) \<or> \<not> isZeroInt (width1 info))"

section \<open>Axes, operations and the halo tables\<close>

text \<open>Sequencing of steps that can fail: the first failure is the result.\<close>

fun bind_res :: "error + 'a \<Rightarrow> ('a \<Rightarrow> error + 'b) \<Rightarrow> error + 'b" where
  "bind_res (Inl e) f = Inl e"
| "bind_res (Inr x) f = f x"

lemma bind_res_Inr: "bind_res m f = Inr y \<longleftrightarrow> (\<exists>x. m = Inr x \<and> f x = Inr y)"
  by (cases m) simp_all

datatype ParallelType =
  BIDz | BIDy | BIDx | TIDz | TIDy | TIDx | Vectorize | MisalignedVectorize | Unroll
  | Unswitch | Serial

datatype MemoryType = Local | Shared | Global

text \<open>
  Modelled from the spec: the classification of parallel types (\<^verbatim>\<open>type.cpp\<close> is not among
  the sources): "warp/thread-level" are the TID dimensions, "block-level" the BID
  dimensions, and "thread-indexed" is either.
\<close>

definition isParallelTypeThreadDim :: "ParallelType \<Rightarrow> bool" where
  "isParallelTypeThreadDim p = (p = TIDx \<or> p = TIDy \<or> p = TIDz)"

definition isParallelTypeBlockDim :: "ParallelType \<Rightarrow> bool" where
  "isParallelTypeBlockDim p = (p = BIDx \<or> p = BIDy \<or> p = BIDz)"

definition isParallelTypeThread :: "ParallelType \<Rightarrow> bool" where
  "isParallelTypeThread p = (isParallelTypeBlockDim p \<or> isParallelTypeThreadDim p)"

text \<open>
  An \<^verbatim>\<open>IterDomain\<close> with what this file reads of it. \<open>id_of\<close> is the identity of the axis
  (the pointer); the logical axis and its lowered \<^verbatim>\<open>kir::IterDomain\<close> share it, and
  \<open>extent\<close>, \<open>start\<close> and \<open>stop\<close> are the lowered scalars. \<open>iter_definition\<close> is the
  expression the axis is an output of: none for a root axis, a split of an input axis, or
  a merge of an outer and an inner axis.
\<close>

datatype IterDomain =
  IterDomain (id_of: nat) (extent: Val) (start: Val) (stop: Val) (isBroadcast: bool)
    (isReduction: bool) (isRFactorProduct: bool) (getParallelType: ParallelType)
    (iter_definition: IterDef)
and IterDef =
    NoDef
  | SplitOf IterDomain
  | MergeOf IterDomain IterDomain

text \<open>
  The operation that defines a tensor, as far as the halo analysis tells operations
  apart. A shift has one offset per root axis and a padding flag; a gather has one window
  size per root axis, the padding widths of each axis (left, right) and the position of
  the window axis that belongs to a root axis.
\<close>

datatype FusionExpr =
    ShiftOp (offsets: "int list") (pad: bool)
  | GatherOp (windowShape: "Val list") (padWidth: "Val list list") (gatherAxis: "nat \<Rightarrow> nat")
  | OtherOp

definition at_index :: "'a list \<Rightarrow> nat \<Rightarrow> error + 'a" where
  "at_index xs i = (if i < length xs then Inr (xs ! i) else Inl OutOfRange)"

record HaloInfo =
  root_axis_map :: "nat \<rightharpoonup> AxisHaloInfo"
  kir_root_axis_map :: "nat \<rightharpoonup> AxisHaloInfo"
  kir_extent_map :: "nat \<rightharpoonup> Val"
  halo_width_map :: "nat \<rightharpoonup> Val"

definition is_root_axis :: "IterDomain \<Rightarrow> bool" where
  "is_root_axis d = (iter_definition d = NoDef \<or> isRFactorProduct d)"

definition getRootAxisInfo :: "HaloInfo \<Rightarrow> IterDomain \<Rightarrow> error + AxisHaloInfo" where
  "getRootAxisInfo h d =
     (if \<not> is_root_axis d then Inl InvalidIterDomain
      else case root_axis_map h (id_of d) of
        None \<Rightarrow> Inl RootAxisInfoNotFound
      | Some info \<Rightarrow> Inr info)"

definition setRootAxisInfo :: "IterDomain \<Rightarrow> AxisHaloInfo \<Rightarrow> HaloInfo \<Rightarrow> error + HaloInfo" where
  "setRootAxisInfo d info h =
     (if \<not> is_root_axis d then Inl InvalidIterDomain
      else Inr (h\<lparr> root_axis_map := (root_axis_map h)(id_of d \<mapsto> info),
                  kir_root_axis_map := (kir_root_axis_map h)(id_of d \<mapsto> info) \<rparr>))"

definition getExtent :: "HaloInfo \<Rightarrow> IterDomain \<Rightarrow> Val option" where
  "getExtent h d = kir_extent_map h (id_of d)"

definition hasHaloWidth :: "HaloInfo \<Rightarrow> IterDomain \<Rightarrow> bool" where
  "hasHaloWidth h d = (halo_width_map h (id_of d) \<noteq> None)"

definition getHaloWidth :: "HaloInfo \<Rightarrow> IterDomain \<Rightarrow> error + Val" where
  "getHaloWidth h d =
     (case halo_width_map h (id_of d) of None \<Rightarrow> Inl AssertFailed | Some w \<Rightarrow> Inr w)"

section \<open>Backward propagation of root-axis halo\<close>

text \<open>
  The body of the loop of \<^verbatim>\<open>HaloInfo::propagateRootAxisInfo(producer, consumer, expr)\<close>
  for the consumer root axis \<open>c_id\<close> at position \<open>i\<close>. \<open>c2p\<close> is the consumer-to-producer
  map of root axes (\<^verbatim>\<open>PairwiseRootDomainMap\<close>, an interface this file consumes).
  \<open>p_info\<close> is a copy of the producer's entry; it reaches the table only through
  \<open>setRootAxisInfo\<close>. The branch of a gather with a window of one merges into the copy and
  then leaves through \<^verbatim>\<open>continue\<close>, before the store at the end of the body.
\<close>

definition propagate_axis ::
  "(nat \<rightharpoonup> IterDomain) \<Rightarrow> FusionExpr \<Rightarrow> nat \<Rightarrow> IterDomain \<Rightarrow> HaloInfo \<times> addr
     \<Rightarrow> error + (HaloInfo \<times> addr)" where
  "propagate_axis c2p expr i c_id s =
     (let (h, n) = s in
      case c2p (id_of c_id) of
        None \<Rightarrow> Inr (h, n)
      | Some p_id \<Rightarrow>
          bind_res (getRootAxisInfo h p_id) (\<lambda>p_info.
          bind_res (getRootAxisInfo h c_id) (\<lambda>c_info.
            if isBroadcast c_id then
              (if hasHalo c_info then Inl AssertFailed
               else
                 bind_res (AxisHaloInfo_merge p_info c_info n) (\<lambda>(p1, n1).
                 bind_res (setRootAxisInfo p_id p1 h) (\<lambda>h1. Inr (h1, n1))))
            else
              (case expr of
                 ShiftOp offs pd \<Rightarrow>
                   bind_res (at_index offs i) (\<lambda>offset.
                   bind_res
                     (if offset = 0 then AxisHaloInfo_merge p_info c_info n
                      else
                        (let pos = (if offset > 0 then 0 else 1) in
                         bind_res (width_at c_info pos) (\<lambda>cw.
                           (let (w, n1) = addExpr_scalar cw \<bar>offset\<bar> n in
                            AxisHaloInfo_merge_pos pos w p_info n1))))
                     (\<lambda>(p1, n1).
                   bind_res (setRootAxisInfo p_id p1 h) (\<lambda>h1. Inr (h1, n1))))
               | GatherOp ws pads ga \<Rightarrow>
                   bind_res (at_index ws i) (\<lambda>window_dim.
                     if isOneInt window_dim then
                       bind_res (AxisHaloInfo_merge p_info c_info n) (\<lambda>(p1, n1). Inr (h, n1))
                     else
                       bind_res (at_index pads i) (\<lambda>pad_dim.
                       bind_res (at_index pad_dim 0) (\<lambda>pad_dim0.
                       bind_res (width_at c_info 0) (\<lambda>cw0.
                         (let (lo, n1) = addExpr cw0 pad_dim0 n in
                          bind_res (AxisHaloInfo_merge_pos 0 lo p_info n1) (\<lambda>(p1, n2).
                          bind_res (width_at c_info 1) (\<lambda>cw1.
                            (let (a, n3) = addExpr cw1 window_dim n2;
                                 (b, n4) = addExpr_scalar pad_dim0 1 n3;
                                 (hi, n5) = subExpr a b n4 in
                             bind_res (AxisHaloInfo_merge_pos 1 hi p1 n5) (\<lambda>(p2, n6).
                             bind_res (setRootAxisInfo p_id p2 h) (\<lambda>h1. Inr (h1, n6)))))))))))
               | OtherOp \<Rightarrow>
                   bind_res (AxisHaloInfo_merge p_info c_info n) (\<lambda>(p1, n1).
                   bind_res (setRootAxisInfo p_id p1 h) (\<lambda>h1. Inr (h1, n1)))))))"

fun propagate_axes ::
  "(nat \<rightharpoonup> IterDomain) \<Rightarrow> FusionExpr \<Rightarrow> nat \<Rightarrow> IterDomain list \<Rightarrow> HaloInfo \<times> addr
     \<Rightarrow> error + (HaloInfo \<times> addr)" where
  "propagate_axes c2p expr i [] s = Inr s"
| "propagate_axes c2p expr i (c_id # rest) s =
     bind_res (propagate_axis c2p expr i c_id s) (propagate_axes c2p expr (Suc i) rest)"

text \<open>
  \<^verbatim>\<open>propagateRootAxisInfo(producer, consumer, expr)\<close>: nothing is done for a producer that
  is a fusion input; otherwise every consumer root axis is visited in order.
\<close>

definition propagateRootAxisInfo ::
  "bool \<Rightarrow> (nat \<rightharpoonup> IterDomain) \<Rightarrow> IterDomain list \<Rightarrow> FusionExpr \<Rightarrow> HaloInfo \<times> addr
     \<Rightarrow> error + (HaloInfo \<times> addr)" where
  "propagateRootAxisInfo producer_isFusionInput c2p c_root expr s =
     (if producer_isFusionInput then Inr s
      else propagate_axes c2p expr 0 c_root s)"

section \<open>Forward propagation to the leaf axes\<close>

text \<open>
  The expressions of a tensor domain (\<^verbatim>\<open>ExprSort::getExprs\<close>, in topological order): a
  split of \<open>split_in\<close> into an outer and an inner axis, a merge of an outer and an inner
  axis into \<open>merge_out\<close>, or anything else.
\<close>

datatype DomainExpr =
    Split (split_in: IterDomain) (split_outer: IterDomain) (split_inner: IterDomain)
  | Merge (merge_outer: IterDomain) (merge_inner: IterDomain) (merge_out: IterDomain)
  | OtherExpr

record TensorDomain =
  getRootDomain :: "IterDomain list"
  td_domain :: "IterDomain list"
  td_exprs :: "DomainExpr list"

text \<open>\<^verbatim>\<open>std::unordered_map::insert\<close> keeps the entry of a key that is already there.\<close>

definition map_insert :: "(nat \<rightharpoonup> 'v) \<Rightarrow> nat \<Rightarrow> 'v \<Rightarrow> (nat \<rightharpoonup> 'v)" where
  "map_insert m k v = (case m k of None \<Rightarrow> m(k \<mapsto> v) | Some old \<Rightarrow> m)"

text \<open>The first loop of \<^verbatim>\<open>HaloInfo::build(TensorDomain*)\<close>, lines 587 to 616, for one root axis.\<close>

definition build_root :: "IterDomain \<Rightarrow> HaloInfo \<times> addr \<Rightarrow> error + (HaloInfo \<times> addr)" where
  "build_root root_axis s =
     (let (h, n) = s in
      bind_res (getRootAxisInfo h root_axis) (\<lambda>halo_info.
        (let (halo_width, n1) = width_sum halo_info n in
         if halo_width_map h (id_of root_axis) \<noteq> None then Inl InvalidDomain
         else if \<not> hasHalo halo_info then
           Inr (h\<lparr> halo_width_map := map_insert (halo_width_map h) (id_of root_axis) zeroVal \<rparr>, n1)
         else
           (let (expanded_extent, n2) = IrBuilder_addExpr (extent root_axis) halo_width n1 in
            Inr (h\<lparr> kir_extent_map :=
                       map_insert (kir_extent_map h) (id_of root_axis) expanded_extent,
                     halo_width_map :=
                       map_insert (halo_width_map h) (id_of root_axis) halo_width \<rparr>, n2)))))"

fun build_roots :: "IterDomain list \<Rightarrow> HaloInfo \<times> addr \<Rightarrow> error + (HaloInfo \<times> addr)" where
  "build_roots [] s = Inr s"
| "build_roots (r # rs) s = bind_res (build_root r s) (build_roots rs)"

text \<open>
  The second loop, lines 654 to 714, for one expression. The state carries
  \<^verbatim>\<open>merged_shifted_ids\<close>, the outputs of merges of halo-extended axes.
\<close>

definition build_expr ::
  "DomainExpr \<Rightarrow> HaloInfo \<times> nat set \<times> addr \<Rightarrow> error + (HaloInfo \<times> nat set \<times> addr)" where
  "build_expr expr s =
     (let (h, merged_shifted_ids, n) = s in
      case expr of
        Split in_id outer inner \<Rightarrow>
          if id_of in_id \<in> merged_shifted_ids then Inl SplitOfHaloMerge
          else
            (case halo_width_map h (id_of in_id) of
               None \<Rightarrow> Inl AssertFailed
             | Some halo_width \<Rightarrow>
                 if isZeroInt halo_width then
                   Inr (h\<lparr> halo_width_map :=
                              map_insert (map_insert (halo_width_map h) (id_of outer) halo_width)
                                (id_of inner) halo_width \<rparr>,
                        merged_shifted_ids, n)
                 else
                   (let (expanded_extent, n1) = IrBuilder_addExpr (extent inner) halo_width n in
                    Inr (h\<lparr> kir_extent_map :=
                               map_insert (kir_extent_map h) (id_of inner) expanded_extent,
                             halo_width_map :=
                               map_insert (map_insert (halo_width_map h) (id_of outer) zeroVal)
                                 (id_of inner) halo_width \<rparr>,
                         merged_shifted_ids, n1)))
      | Merge outer inner out \<Rightarrow>
          (let inner_extent = getExtent h inner;
               outer_extent = getExtent h outer in
           if inner_extent \<noteq> None \<or> outer_extent \<noteq> None then
             (let ie = (case inner_extent of None \<Rightarrow> extent inner | Some e \<Rightarrow> e);
                  oe = (case outer_extent of None \<Rightarrow> extent outer | Some e \<Rightarrow> e);
                  (expanded_extent, n1) = IrBuilder_mulExpr oe ie n in
              Inr (h\<lparr> kir_extent_map :=
                         map_insert (kir_extent_map h) (id_of out) expanded_extent \<rparr>,
                   insert (id_of out) merged_shifted_ids, n1))
           else
             Inr (h\<lparr> halo_width_map := map_insert (halo_width_map h) (id_of out) zeroVal \<rparr>,
                  merged_shifted_ids, n))
      | OtherExpr \<Rightarrow> Inl UnsupportedExpr)"

fun build_exprs ::
  "DomainExpr list \<Rightarrow> HaloInfo \<times> nat set \<times> addr \<Rightarrow> error + (HaloInfo \<times> nat set \<times> addr)" where
  "build_exprs [] s = Inr s"
| "build_exprs (e # es) s = bind_res (build_expr e s) (build_exprs es)"

definition build_td :: "TensorDomain \<Rightarrow> HaloInfo \<times> addr \<Rightarrow> error + (HaloInfo \<times> addr)" where
  "build_td td s =
     bind_res (build_roots (getRootDomain td) s) (\<lambda>(h, n).
     bind_res (build_exprs (td_exprs td) (h, {}, n)) (\<lambda>(h1, merged_shifted_ids, n1).
       Inr (h1, n1)))"

section \<open>Extent comparison\<close>

lemma size_merge_operands:
  "iter_definition d = MergeOf outer inner \<Longrightarrow> size inner < size d \<and> size outer < size d"
  by (cases d) simp

text \<open>
  \<^verbatim>\<open>extentCompare\<close>, lines 861 to 901. \<open>areMapped\<close> is the loop map of the lowering
  (\<^verbatim>\<open>caLoopMap().areMapped\<close>), an interface this file consumes; \<open>cmp\<close> compares two halo
  widths. Both recursive calls are made before their results are combined.
\<close>

function extentCompare ::
  "(nat \<Rightarrow> nat \<Rightarrow> bool) \<Rightarrow> HaloInfo \<Rightarrow> (Val \<Rightarrow> Val \<Rightarrow> error + bool) \<Rightarrow> IterDomain \<Rightarrow> IterDomain
     \<Rightarrow> error + bool" where
  "extentCompare areMapped h cmp id1 id2 =
     (if \<not> areMapped (id_of id1) (id_of id2) then Inl NotLoopMapped
      else if hasHaloWidth h id1 then
        (if \<not> hasHaloWidth h id2 then Inl InvalidComparison
         else
           bind_res (getHaloWidth h id1) (\<lambda>w1.
           bind_res (getHaloWidth h id2) (\<lambda>w2. cmp w1 w2)))
      else if hasHaloWidth h id2 then Inl InvalidComparison
      else
        (case iter_definition id1 of
           MergeOf outer1 inner1 \<Rightarrow>
             (case iter_definition id2 of
                MergeOf outer2 inner2 \<Rightarrow>
                  bind_res (extentCompare areMapped h cmp inner1 inner2) (\<lambda>inner_le.
                  bind_res (extentCompare areMapped h cmp outer1 outer2) (\<lambda>outer_le.
                    Inr (inner_le \<and> outer_le)))
              | _ \<Rightarrow> Inl InvalidComparison)
         | _ \<Rightarrow> Inl InvalidComparison))"
  by pat_completeness auto
termination
  by (relation "measure (\<lambda>(areMapped, h, cmp, id1, id2). size id1)")
    (auto dest: size_merge_operands)

declare extentCompare.simps [simp del]

text \<open>The comparison of \<^verbatim>\<open>extentLessEqual\<close>, lines 906 to 913.\<close>

definition cmp_less_equal :: "Val \<Rightarrow> Val \<Rightarrow> error + bool" where
  "cmp_less_equal x y =
     (if addr_of x = addr_of y then Inr True
      else case (int_value x, int_value y) of
        (Some xv, Some yv) \<Rightarrow> Inr (xv \<le> yv)
      | _ \<Rightarrow> Inr False)"

definition extentLessEqual ::
  "(nat \<Rightarrow> nat \<Rightarrow> bool) \<Rightarrow> HaloInfo \<Rightarrow> IterDomain \<Rightarrow> IterDomain \<Rightarrow> error + bool" where
  "extentLessEqual areMapped h id1 id2 = extentCompare areMapped h cmp_less_equal id1 id2"

lemma size_definition_inputs:
  "Some (UnaryOp uop a) = definition_of x \<Longrightarrow> size a < size x"
  "Some (BinaryOp bop a b) = definition_of x \<Longrightarrow> size a < size x"
  "Some (BinaryOp bop a b) = definition_of x \<Longrightarrow> size b < size x"
  by (cases x; auto)+

text \<open>
  The comparison of \<^verbatim>\<open>extentEqual\<close>, lines 925 to 961: the same node, or two equal
  literals, or two results of the same kind of operation whose inputs compare equal in
  order. Every input looked at must be a \<^verbatim>\<open>kir::Int\<close>; the loop over the inputs stops at
  the first pair that does not compare equal.
\<close>

function cmp_equal :: "Val \<Rightarrow> Val \<Rightarrow> error + bool" where
  "cmp_equal x y =
     (if addr_of x = addr_of y then Inr True
      else if (case (int_value x, int_value y) of
                 (Some xv, Some yv) \<Rightarrow> xv = yv
               | _ \<Rightarrow> False) then Inr True
      else
        (case (definition_of x, definition_of y) of
           (Some (UnaryOp xop xa), Some (UnaryOp yop ya)) \<Rightarrow>
             if xop = yop then
               (if \<not> (isInt xa \<and> isInt ya) then Inl AssertFailed
                else bind_res (cmp_equal xa ya) (\<lambda>r. if \<not> r then Inr False else Inr True))
             else Inr False
         | (Some (BinaryOp xop xa xb), Some (BinaryOp yop ya yb)) \<Rightarrow>
             if xop = yop then
               (if \<not> (isInt xa \<and> isInt ya) then Inl AssertFailed
                else
                  bind_res (cmp_equal xa ya) (\<lambda>r.
                    if \<not> r then Inr False
                    else if \<not> (isInt xb \<and> isInt yb) then Inl AssertFailed
                    else
                      bind_res (cmp_equal xb yb) (\<lambda>r2.
                        if \<not> r2 then Inr False else Inr True)))
             else Inr False
         | _ \<Rightarrow> Inr False))"
  by pat_completeness auto
termination
  by (relation "measure (\<lambda>(x, y). size x)") (auto dest: size_definition_inputs)

declare cmp_equal.simps [simp del]

definition extentEqual ::
  "(nat \<Rightarrow> nat \<Rightarrow> bool) \<Rightarrow> HaloInfo \<Rightarrow> IterDomain \<Rightarrow> IterDomain \<Rightarrow> error + bool" where
  "extentEqual areMapped h id1 id2 = extentCompare areMapped h cmp_equal id1 id2"

section \<open>Validation of parallelised halo axes\<close>

text \<open>
  A use of a tensor: whether it is a tensor operation (\<^verbatim>\<open>ir_utils::isTVOp\<close>), the
  operation, and the axes of the domain of its output tensor.
\<close>

record TvUse =
  isTVOp :: bool
  use_expr :: FusionExpr
  use_consumer_axes :: "IterDomain list"

record TensorView =
  getMemoryType :: MemoryType
  tv_axes :: "IterDomain list"
  uses :: "TvUse list"

definition is_shift_or_gather :: "FusionExpr \<Rightarrow> bool" where
  "is_shift_or_gather e = (case e of ShiftOp offs pd \<Rightarrow> True | GatherOp ws pads ga \<Rightarrow> True
     | OtherOp \<Rightarrow> False)"

text \<open>
  The loop over the uses, lines 773 to 797, which computes \<^verbatim>\<open>shared_mem_needed\<close> for
  \<open>axis\<close>.
\<close>

fun shared_mem_needed ::
  "(nat \<Rightarrow> nat \<Rightarrow> bool) \<Rightarrow> HaloInfo \<Rightarrow> IterDomain \<Rightarrow> TvUse list \<Rightarrow> error + bool" where
  "shared_mem_needed areMapped h axis [] = Inr False"
| "shared_mem_needed areMapped h axis (u # us) =
     (if \<not> isTVOp u then shared_mem_needed areMapped h axis us
      else if is_shift_or_gather (use_expr u) then Inr True
      else
        (case find (\<lambda>consumer_axis. areMapped (id_of axis) (id_of consumer_axis))
                (use_consumer_axes u) of
           None \<Rightarrow> shared_mem_needed areMapped h axis us
         | Some consumer_axis \<Rightarrow>
             bind_res (extentEqual areMapped h axis consumer_axis) (\<lambda>eq.
               if \<not> eq then Inr True else shared_mem_needed areMapped h axis us)))"

text \<open>
  The body of the loop of \<^verbatim>\<open>HaloInfo::validate\<close> for one axis, lines 741 to 820.
  \<open>getConcreteMappedID\<close> is the parallel map of the lowering
  (\<^verbatim>\<open>caParallelMap().getConcreteMappedID\<close>), an interface this file consumes.
\<close>

definition validate_axis ::
  "(nat \<Rightarrow> nat \<Rightarrow> bool) \<Rightarrow> (IterDomain \<Rightarrow> IterDomain) \<Rightarrow> HaloInfo \<Rightarrow> TensorView \<Rightarrow> IterDomain
     \<Rightarrow> error + unit" where
  "validate_axis areMapped getConcreteMappedID h tv axis =
     (let concrete_id = getConcreteMappedID axis in
      bind_res (extentEqual areMapped h axis concrete_id) (\<lambda>eq.
        if \<not> eq then Inl ExtentMismatch
        else
          (case getExtent h axis of
             None \<Rightarrow> Inr ()
           | Some halo_extent \<Rightarrow>
               (let ptype = getParallelType concrete_id in
                if ptype = Serial then Inr ()
                else if \<not> isParallelTypeThread ptype then Inl UnsupportedParallelType
                else
                  bind_res (shared_mem_needed areMapped h axis (uses tv)) (\<lambda>needed.
                    if \<not> needed then Inr ()
                    else if isParallelTypeThreadDim ptype then
                      (if getMemoryType tv = Shared then Inr () else Inl NotOnSharedMemory)
                    else if isParallelTypeBlockDim ptype then Inl BlockParallelHalo
                    else Inr ())))))"

fun validate_axes ::
  "(nat \<Rightarrow> nat \<Rightarrow> bool) \<Rightarrow> (IterDomain \<Rightarrow> IterDomain) \<Rightarrow> HaloInfo \<Rightarrow> TensorView
     \<Rightarrow> IterDomain list \<Rightarrow> error + unit" where
  "validate_axes areMapped getConcreteMappedID h tv [] = Inr ()"
| "validate_axes areMapped getConcreteMappedID h tv (axis # rest) =
     bind_res (validate_axis areMapped getConcreteMappedID h tv axis)
       (\<lambda>u. validate_axes areMapped getConcreteMappedID h tv rest)"

definition validate ::
  "(nat \<Rightarrow> nat \<Rightarrow> bool) \<Rightarrow> (IterDomain \<Rightarrow> IterDomain) \<Rightarrow> HaloInfo \<Rightarrow> TensorView \<Rightarrow> error + unit" where
  "validate areMapped getConcreteMappedID h tv =
     validate_axes areMapped getConcreteMappedID h tv (tv_axes tv)"

section \<open>Shift and padding predicates\<close>

text \<open>
  \<^verbatim>\<open>HaloInfo::needsShiftPredicate(Expr*)\<close>, lines 991 to 1007, for the definition \<open>expr\<close>
  of a tensor with root domain \<open>root_domain\<close>. The conditions of one axis are tried from
  left to right, so the offset or the window of an axis is read only when the axis has no
  halo.
\<close>

definition axis_needs_predicate ::
  "HaloInfo \<Rightarrow> FusionExpr \<Rightarrow> nat \<Rightarrow> IterDomain \<Rightarrow> error + bool" where
  "axis_needs_predicate h expr i consumer_id =
     bind_res (getRootAxisInfo h consumer_id) (\<lambda>consumer_halo_info.
       if hasHalo consumer_halo_info then Inr True
       else
         (case expr of
            ShiftOp offs pd \<Rightarrow>
              bind_res (at_index offs i) (\<lambda>offset.
                Inr (offset \<noteq> 0 \<and> \<not> isBroadcast consumer_id))
          | GatherOp ws pads ga \<Rightarrow>
              bind_res (at_index ws i) (\<lambda>window_dim.
                Inr (\<not> isOneInt window_dim \<and> \<not> isBroadcast consumer_id))
          | OtherOp \<Rightarrow> Inr False))"

fun needs_predicate_axes ::
  "HaloInfo \<Rightarrow> FusionExpr \<Rightarrow> nat \<Rightarrow> IterDomain list \<Rightarrow> error + bool" where
  "needs_predicate_axes h expr i [] = Inr False"
| "needs_predicate_axes h expr i (consumer_id # rest) =
     bind_res (axis_needs_predicate h expr i consumer_id) (\<lambda>b.
       if b then Inr True else needs_predicate_axes h expr (Suc i) rest)"

definition needsShiftPredicate :: "HaloInfo \<Rightarrow> FusionExpr \<Rightarrow> IterDomain list \<Rightarrow> error + bool" where
  "needsShiftPredicate h expr root_domain = needs_predicate_axes h expr 0 root_domain"

text \<open>
  Offsets are C++ \<^verbatim>\<open>int\<close>s of 32 bits. \<^verbatim>\<open>-shift_offset\<close> is computed on that type: the
  least value has no negative there, the negation overflows and gives the least value
  back on the two's complement targets of the code.
\<close>

definition negate_int :: "int \<Rightarrow> int" where
  "negate_int x = (if x = - 2147483648 then - 2147483648 else - x)"

text \<open>\<^verbatim>\<open>getShiftProducerIndex\<close>, lines 87 to 102.\<close>

definition getShiftProducerIndex ::
  "nat \<Rightarrow> Val \<Rightarrow> FusionExpr \<Rightarrow> addr \<Rightarrow> error + (Val \<times> addr)" where
  "getShiftProducerIndex consumer_root_axis consumer_index shift_expr n =
     bind_res
       (case shift_expr of
          ShiftOp offs pd \<Rightarrow> at_index offs consumer_root_axis
        | _ \<Rightarrow> Inr 0)
       (\<lambda>shift_offset.
          if shift_offset = 0 then Inr (consumer_index, n)
          else Inr (addExpr_scalar consumer_index (negate_int shift_offset) n))"

text \<open>
  \<^verbatim>\<open>create<kir::Int>(pad_size)\<close> on a padding width of the gather: a new node with
  the value of the given one, if it has a value.
\<close>

definition create_Int_of :: "Val \<Rightarrow> addr \<Rightarrow> Val \<times> addr" where
  "create_Int_of node n =
     (case int_value node of
        Some v \<Rightarrow> (Lit n (IntV v), Suc n)
      | None \<Rightarrow> (Sym n DInt, Suc n))"

text \<open>\<^verbatim>\<open>getGatherProducerIndex\<close>, lines 106 to 135; it builds with the plain builder.\<close>

definition getGatherProducerIndex ::
  "nat \<Rightarrow> Val \<Rightarrow> FusionExpr \<Rightarrow> Val list \<Rightarrow> addr \<Rightarrow> error + (Val \<times> addr)" where
  "getGatherProducerIndex consumer_root_axis consumer_index gather_expr indices n =
     (case gather_expr of
        GatherOp ws pads ga \<Rightarrow>
          if consumer_root_axis \<ge> length ws \<or> isOneInt (ws ! consumer_root_axis) then
            Inr (consumer_index, n)
          else
            (let window_axis = ga consumer_root_axis in
             if \<not> window_axis < length indices then Inl AssertFailed
             else
               (let window_idx = indices ! window_axis in
                bind_res (at_index pads consumer_root_axis) (\<lambda>pad_dim.
                bind_res (at_index pad_dim 0) (\<lambda>pad_size.
                  (let (sum, n1) = IrBuilder_addExpr consumer_index window_idx n;
                       (pad_node, n2) = create_Int_of pad_size n1 in
                   Inr (IrBuilder_subExpr sum pad_node n2))))))
      | _ \<Rightarrow> Inr (consumer_index, n))"

text \<open>The lower-limit part of the shift predicate of one axis, lines 239 to 274.\<close>

definition lower_limit_predicate ::
  "FusionExpr \<Rightarrow> nat \<Rightarrow> Val \<Rightarrow> Val \<Rightarrow> Val \<Rightarrow> Val option \<times> addr
     \<Rightarrow> error + (Val option \<times> addr)" where
  "lower_limit_predicate expr i consumer_index producer_index left_limit s =
     (let (predicate, n) = s;
          other_axis =
            (if \<not> isZeroInt left_limit then
               (let (c, n1) = geExpr consumer_index left_limit n;
                    (p, n2) = andExpr predicate c n1 in
                Inr (Some p, n2))
             else Inr (predicate, n)) in
      case expr of
        ShiftOp offs pd \<Rightarrow>
          bind_res (at_index offs i) (\<lambda>offset.
            if offset > 0 then
              (let pred_index = (if pd then producer_index else consumer_index);
                   (c, n1) = geExpr pred_index left_limit n;
                   (p, n2) = andExpr predicate c n1 in
               Inr (Some p, n2))
            else other_axis)
      | GatherOp ws pads ga \<Rightarrow>
          (let (c, n1) = geExpr consumer_index left_limit n;
               (p, n2) = andExpr predicate c n1 in
           if addr_of consumer_index \<noteq> addr_of producer_index then
             (let (c2, n3) = geExpr producer_index left_limit n2;
                  (p2, n4) = andExpr (Some p) c2 n3 in
              Inr (Some p2, n4))
           else Inr (Some p, n2))
      | OtherOp \<Rightarrow> other_axis)"

text \<open>The upper-limit part, lines 276 to 304.\<close>

definition upper_limit_predicate ::
  "FusionExpr \<Rightarrow> nat \<Rightarrow> Val \<Rightarrow> Val \<Rightarrow> Val \<Rightarrow> Val option \<times> addr
     \<Rightarrow> error + (Val option \<times> addr)" where
  "upper_limit_predicate expr i consumer_index producer_index right_limit s =
     (let (predicate, n) = s;
          other_axis =
            (let (c, n1) = ltExpr consumer_index right_limit n;
                 (p, n2) = andExpr predicate c n1 in
             Inr (Some p, n2)) in
      case expr of
        ShiftOp offs pd \<Rightarrow>
          bind_res (at_index offs i) (\<lambda>offset.
            if offset < 0 then
              (let pred_index = (if pd then producer_index else consumer_index);
                   (c, n1) = ltExpr pred_index right_limit n;
                   (p, n2) = andExpr predicate c n1 in
               Inr (Some p, n2))
            else other_axis)
      | GatherOp ws pads ga \<Rightarrow>
          (let (c, n1) = ltExpr consumer_index right_limit n;
               (p, n2) = andExpr predicate c n1 in
           if addr_of consumer_index \<noteq> addr_of producer_index then
             (let (c2, n3) = ltExpr producer_index right_limit n2;
                  (p2, n4) = andExpr (Some p) c2 n3 in
              Inr (Some p2, n4))
           else Inr (Some p, n2))
      | OtherOp \<Rightarrow> other_axis)"

text \<open>
  The shift predicate of one axis, lines 203 to 304. Both limits add \<^verbatim>\<open>width(0)\<close>, the
  halo at offset zero: the consumer axis is laid out as left halo, extent, right halo, so
  the left limit is the left halo and the right limit is the left halo plus the extent.
\<close>

definition shift_axis_predicate ::
  "FusionExpr \<Rightarrow> Val list \<Rightarrow> nat \<Rightarrow> IterDomain \<Rightarrow> AxisHaloInfo \<Rightarrow> Val \<Rightarrow> Val option \<times> addr
     \<Rightarrow> error + (Val option \<times> addr)" where
  "shift_axis_predicate expr indices i root_id halo_info consumer_index s =
     (let (predicate, n) = s in
      bind_res (width_at halo_info 0) (\<lambda>w_left.
        (let (left_limit, n1) = addExpr w_left (start root_id) n in
         bind_res (width_at halo_info 0) (\<lambda>w_right.
           (let (right_limit, n2) = addExpr (stop root_id) w_right n1 in
            bind_res
              (case expr of
                 ShiftOp offs pd \<Rightarrow> getShiftProducerIndex i consumer_index expr n2
               | GatherOp ws pads ga \<Rightarrow> getGatherProducerIndex i consumer_index expr indices n2
               | OtherOp \<Rightarrow> bind_res (at_index indices i) (\<lambda>v. Inr (v, n2)))
              (\<lambda>(producer_index, n3).
            bind_res
              (lower_limit_predicate expr i consumer_index producer_index left_limit
                 (predicate, n3))
              (upper_limit_predicate expr i consumer_index producer_index right_limit)))))))"

text \<open>The padding predicate of one axis, lines 306 to 313.\<close>

definition padding_axis_predicate ::
  "IterDomain \<Rightarrow> AxisHaloInfo \<Rightarrow> Val \<Rightarrow> Val option \<times> addr \<Rightarrow> error + (Val option \<times> addr)" where
  "padding_axis_predicate root_id halo_info consumer_index s =
     (let (predicate, n) = s;
          (halo_width, n1) = width_sum halo_info n;
          (padding_max_offset, n2) = addExpr (extent root_id) halo_width n1;
          (c, n3) = ltExpr consumer_index padding_max_offset n2;
          (p, n4) = andExpr predicate c n3 in
      Inr (Some p, n4))"

text \<open>
  The body of the loop over the root axes, lines 190 to 315. \<open>isDerived\<close> is
  \<^verbatim>\<open>trivialReductionInfo().isDerived\<close>, an interface this file consumes.
\<close>

definition skipped_axis :: "(IterDomain \<Rightarrow> bool) \<Rightarrow> bool \<Rightarrow> IterDomain \<Rightarrow> bool" where
  "skipped_axis isDerived buffer_init root_id =
     (isBroadcast root_id \<or> (buffer_init \<and> isReduction root_id) \<or> isDerived root_id)"

definition predicate_axis ::
  "(IterDomain \<Rightarrow> bool) \<Rightarrow> HaloInfo \<Rightarrow> FusionExpr \<Rightarrow> Val list \<Rightarrow> bool \<Rightarrow> bool \<Rightarrow> nat
     \<Rightarrow> IterDomain \<Rightarrow> Val option \<times> addr \<Rightarrow> error + (Val option \<times> addr)" where
  "predicate_axis isDerived h expr indices buffer_init isShiftPredicate i root_id s =
     (if skipped_axis isDerived buffer_init root_id then Inr s
      else
        bind_res (getRootAxisInfo h root_id) (\<lambda>halo_info.
        bind_res (at_index indices i) (\<lambda>consumer_index.
          if isShiftPredicate then
            shift_axis_predicate expr indices i root_id halo_info consumer_index s
          else padding_axis_predicate root_id halo_info consumer_index s)))"

fun predicate_axes ::
  "(IterDomain \<Rightarrow> bool) \<Rightarrow> HaloInfo \<Rightarrow> FusionExpr \<Rightarrow> Val list \<Rightarrow> bool \<Rightarrow> bool \<Rightarrow> nat
     \<Rightarrow> IterDomain list \<Rightarrow> Val option \<times> addr \<Rightarrow> error + (Val option \<times> addr)" where
  "predicate_axes isDerived h expr indices buffer_init isShiftPredicate i [] s = Inr s"
| "predicate_axes isDerived h expr indices buffer_init isShiftPredicate i (root_id # rest) s =
     bind_res (predicate_axis isDerived h expr indices buffer_init isShiftPredicate i root_id s)
       (predicate_axes isDerived h expr indices buffer_init isShiftPredicate (Suc i) rest)"

text \<open>
  The end of \<^verbatim>\<open>getPredicate\<close>, lines 317 to 323: the thread predicate is merged into
  what the loop built. A known-false thread predicate gives a new false node, a
  known-true one leaves the predicate as it is, anything else is conjoined.
\<close>

definition merge_thread_predicate :: "Val option \<Rightarrow> Val \<Rightarrow> addr \<Rightarrow> Val option \<times> addr" where
  "merge_thread_predicate predicate thread_pred n =
     (case bool_value thread_pred of
        Some b \<Rightarrow>
          if \<not> b then (let (f, n1) = create_Bool False n in (Some f, n1))
          else (predicate, n)
      | None \<Rightarrow> (let (p, n1) = andExpr predicate thread_pred n in (Some p, n1)))"

text \<open>
  The padding predicate is only needed for a padded shift and for a gather
  (the condition of lines 162 to 164).
\<close>

definition padding_not_needed :: "FusionExpr \<Rightarrow> bool" where
  "padding_not_needed expr =
     (case expr of ShiftOp offs pd \<Rightarrow> \<not> pd | GatherOp ws pads ga \<Rightarrow> False | OtherOp \<Rightarrow> True)"

text \<open>
  \<^verbatim>\<open>ShiftPredicateInserter::getPredicate\<close>, lines 139 to 326. \<open>expr\<close> is the definition of
  the output tensor and \<open>root_domain\<close> its root domain; \<open>indices\<close> and \<open>buffer_init\<close> are
  what \<^verbatim>\<open>Index::getConsumerRootPredIndices\<close> returns (an interface this file consumes);
  \<open>mem\<close> is the memory type of the output tensor. The result is the predicate, which is
  null when no axis contributed and the thread predicate is known to be true.
\<close>

definition getPredicate ::
  "(IterDomain \<Rightarrow> bool) \<Rightarrow> HaloInfo \<Rightarrow> FusionExpr \<Rightarrow> IterDomain list \<Rightarrow> Val list \<Rightarrow> bool
     \<Rightarrow> MemoryType \<Rightarrow> Val \<Rightarrow> bool \<Rightarrow> addr \<Rightarrow> error + (Val option \<times> addr)" where
  "getPredicate isDerived h expr root_domain indices buffer_init mem thread_pred
       isShiftPredicate n =
     bind_res (needsShiftPredicate h expr root_domain) (\<lambda>needs_shift_predicate.
       if \<not> needs_shift_predicate then Inl AssertFailed
       else if \<not> isShiftPredicate \<and> padding_not_needed expr then Inr (Some falseVal, n)
       else if mem = Local \<and> buffer_init then Inr (Some trueVal, n)
       else if length indices \<noteq> length root_domain then Inl AssertFailed
       else
         bind_res
           (predicate_axes isDerived h expr indices buffer_init isShiftPredicate 0 root_domain
              (None, n))
           (\<lambda>(predicate, n1). Inr (merge_thread_predicate predicate thread_pred n1)))"

section \<open>Properties of the width merge\<close>

text \<open>
  Two widths are the same width when they are literals of one value, or one and the same
  symbolic node. A width is non-negative when it is not a negative literal; the widths
  of the tables are of this kind, since they start at zero and only change through
  \<open>merge_width\<close>.
\<close>

definition same_width :: "Val \<Rightarrow> Val \<Rightarrow> bool" where
  "same_width x y =
     (case (int_value x, int_value y) of
        (Some a, Some b) \<Rightarrow> a = b
      | (None, None) \<Rightarrow> x = y
      | _ \<Rightarrow> False)"

definition nonneg_width :: "Val \<Rightarrow> bool" where
  "nonneg_width x = (case int_value x of Some v \<Rightarrow> 0 \<le> v | None \<Rightarrow> True)"

lemma merge_pos_0:
  "AxisHaloInfo_merge_pos 0 other info n =
     Inr (info\<lparr>width0 := fst (merge_width (width0 info) other n)\<rparr>,
          snd (merge_width (width0 info) other n))"
  by (simp add: AxisHaloInfo_merge_pos_def width_at_def setWidth_def split_def Let_def)

lemma merge_pos_1:
  "AxisHaloInfo_merge_pos (Suc 0) other info n =
     Inr (info\<lparr>width1 := fst (merge_width (width1 info) other n)\<rparr>,
          snd (merge_width (width1 info) other n))"
  by (simp add: AxisHaloInfo_merge_pos_def width_at_def setWidth_def split_def Let_def)

lemma merge_pos_range:
  "2 \<le> pos \<Longrightarrow> AxisHaloInfo_merge_pos pos other info n = Inl AssertFailed"
  by (simp add: AxisHaloInfo_merge_pos_def width_at_def)

lemma merge_info:
  "AxisHaloInfo_merge info other n =
     Inr (\<lparr>width0 = fst (merge_width (width0 info) (width0 other) n),
           width1 = fst (merge_width (width1 info) (width1 other)
                      (snd (merge_width (width0 info) (width0 other) n)))\<rparr>,
          snd (merge_width (width1 info) (width1 other)
                      (snd (merge_width (width0 info) (width0 other) n))))"
  by (simp add: AxisHaloInfo_merge_def merge_pos_0 merge_pos_1 width_at_def)

lemma merge_width_zero:
  "isZeroInt other \<Longrightarrow> nonneg_width cur \<Longrightarrow> same_width (fst (merge_width cur other n)) cur"
  by (auto simp: merge_width_def isZeroInt_def nonneg_width_def same_width_def create_Int_def
      split: option.splits)

lemma merge_width_comm:
  "eval env (fst (merge_width x y n)) = eval env (fst (merge_width y x m))"
  by (auto simp: merge_width_def isZeroInt_def create_Int_def IrBuilder_maxExpr_def
      newArithmeticExpr_def max.commute split: option.splits)

lemma merge_width_const:
  "int_value x = Some a \<Longrightarrow> int_value y = Some b \<Longrightarrow>
   int_value (fst (merge_width x y n)) = Some (max a b)"
  by (simp add: merge_width_def create_Int_def)

lemma merge_width_nonneg:
  "nonneg_width cur \<Longrightarrow> nonneg_width (fst (merge_width cur other n))"
  by (auto simp: merge_width_def isZeroInt_def nonneg_width_def create_Int_def
      IrBuilder_maxExpr_def newArithmeticExpr_def split: option.splits)

lemma eval_int_value: "int_value x = Some v \<Longrightarrow> eval env x = v"
  by (cases x rule: int_value.cases) simp_all

lemma merge_width_max:
  "0 \<le> eval env cur \<Longrightarrow> 0 \<le> eval env other \<Longrightarrow>
   eval env (fst (merge_width cur other n)) = max (eval env cur) (eval env other)"
  by (auto simp: merge_width_def isZeroInt_def create_Int_def IrBuilder_maxExpr_def
      newArithmeticExpr_def eval_int_value split: option.splits)

lemma merge_width_ge_cur:
  "0 \<le> eval env other \<Longrightarrow> eval env cur \<le> eval env (fst (merge_width cur other n))"
  by (auto simp: merge_width_def isZeroInt_def create_Int_def IrBuilder_maxExpr_def
      newArithmeticExpr_def eval_int_value split: option.splits)

lemma merge_width_ge_other:
  "0 \<le> eval env cur \<Longrightarrow> eval env other \<le> eval env (fst (merge_width cur other n))"
  by (auto simp: merge_width_def isZeroInt_def create_Int_def IrBuilder_maxExpr_def
      newArithmeticExpr_def eval_int_value split: option.splits)

lemma merge_width_max_node:
  "\<not> isZeroInt cur \<Longrightarrow> \<not> isZeroInt other \<Longrightarrow> int_value cur = None \<or> int_value other = None \<Longrightarrow>
   definition_of (fst (merge_width cur other n)) = Some (BinaryOp BMax cur other)"
  by (auto simp: merge_width_def IrBuilder_maxExpr_def newArithmeticExpr_def
      split: option.splits)

lemma AxisHaloInfo_new_nonneg:
  "nonneg_width (width0 AxisHaloInfo_new) \<and> nonneg_width (width1 AxisHaloInfo_new)"
  by (simp add: AxisHaloInfo_new_def zeroVal_def nonneg_width_def)

lemma AxisHaloInfo_merge_pos_nonneg:
  assumes "AxisHaloInfo_merge_pos pos other info n = Inr (info', n')"
    "nonneg_width (width0 info)" "nonneg_width (width1 info)"
  shows "nonneg_width (width0 info') \<and> nonneg_width (width1 info')"
proof -
  from assms(1) have "pos = 0 \<or> pos = Suc 0"
    by (auto simp add: AxisHaloInfo_merge_pos_def width_at_def split: if_splits)
  then show ?thesis
    using assms by (auto simp add: merge_pos_0 merge_pos_1 merge_width_nonneg)
qed

lemma AxisHaloInfo_merge_nonneg:
  assumes "AxisHaloInfo_merge info other n = Inr (info', n')"
    "nonneg_width (width0 info)" "nonneg_width (width1 info)"
  shows "nonneg_width (width0 info') \<and> nonneg_width (width1 info')"
  using assms by (auto simp add: merge_info merge_width_nonneg)

text \<open>
  Claim C8. \<^verbatim>\<open>AxisHaloInfo::merge\<close> never fails, and on each side (low and high):
  merging a known-zero width into a non-negative width leaves that width the same;
  merging \<open>a\<close> into \<open>b\<close> and \<open>b\<close> into \<open>a\<close> give widths of the same value under every
  assignment of the runtime scalars; when both widths are literals the result is the
  literal of their maximum, so it is below neither. Widths never decrease: under an
  assignment that gives the merged-in width a non-negative value, the value of the result
  is at least the value of the width merged into, and likewise with the two exchanged;
  when both values are non-negative the value of the result is their maximum. Where
  neither width is a known zero and one of them is not a literal, the result is the max
  node of the two.
\<close>

theorem AxisHaloInfo_merge_monotone:
  "\<exists>ab n1 ba m1.
     AxisHaloInfo_merge a b n = Inr (ab, n1) \<and>
     AxisHaloInfo_merge b a m = Inr (ba, m1) \<and>
     (isZeroInt (width0 b) \<and> nonneg_width (width0 a) \<longrightarrow> same_width (width0 ab) (width0 a)) \<and>
     (isZeroInt (width1 b) \<and> nonneg_width (width1 a) \<longrightarrow> same_width (width1 ab) (width1 a)) \<and>
     eval env (width0 ab) = eval env (width0 ba) \<and>
     eval env (width1 ab) = eval env (width1 ba) \<and>
     (\<forall>x y. int_value (width0 a) = Some x \<and> int_value (width0 b) = Some y \<longrightarrow>
        int_value (width0 ab) = Some (max x y) \<and> x \<le> max x y \<and> y \<le> max x y) \<and>
     (\<forall>x y. int_value (width1 a) = Some x \<and> int_value (width1 b) = Some y \<longrightarrow>
        int_value (width1 ab) = Some (max x y) \<and> x \<le> max x y \<and> y \<le> max x y) \<and>
     (0 \<le> eval env (width0 b) \<longrightarrow> eval env (width0 a) \<le> eval env (width0 ab)) \<and>
     (0 \<le> eval env (width1 b) \<longrightarrow> eval env (width1 a) \<le> eval env (width1 ab)) \<and>
     (0 \<le> eval env (width0 a) \<longrightarrow> eval env (width0 b) \<le> eval env (width0 ab)) \<and>
     (0 \<le> eval env (width1 a) \<longrightarrow> eval env (width1 b) \<le> eval env (width1 ab)) \<and>
     (0 \<le> eval env (width0 a) \<and> 0 \<le> eval env (width0 b) \<longrightarrow>
        eval env (width0 ab) = max (eval env (width0 a)) (eval env (width0 b))) \<and>
     (0 \<le> eval env (width1 a) \<and> 0 \<le> eval env (width1 b) \<longrightarrow>
        eval env (width1 ab) = max (eval env (width1 a)) (eval env (width1 b))) \<and>
     (\<not> isZeroInt (width0 a) \<and> \<not> isZeroInt (width0 b) \<and>
      (int_value (width0 a) = None \<or> int_value (width0 b) = None) \<longrightarrow>
        definition_of (width0 ab) = Some (BinaryOp BMax (width0 a) (width0 b))) \<and>
     (\<not> isZeroInt (width1 a) \<and> \<not> isZeroInt (width1 b) \<and>
      (int_value (width1 a) = None \<or> int_value (width1 b) = None) \<longrightarrow>
        definition_of (width1 ab) = Some (BinaryOp BMax (width1 a) (width1 b)))"
proof -
  have zero0: "isZeroInt (width0 b) \<and> nonneg_width (width0 a) \<longrightarrow>
      same_width (fst (merge_width (width0 a) (width0 b) n)) (width0 a)"
    by (simp add: merge_width_zero)
  have zero1: "isZeroInt (width1 b) \<and> nonneg_width (width1 a) \<longrightarrow>
      same_width (fst (merge_width (width1 a) (width1 b)
        (snd (merge_width (width0 a) (width0 b) n)))) (width1 a)"
    by (simp add: merge_width_zero)
  show ?thesis
    unfolding merge_info
    using zero0 zero1
      merge_width_comm [of env "width0 a" "width0 b" n m]
      merge_width_comm [of env "width1 a" "width1 b"
        "snd (merge_width (width0 a) (width0 b) n)" "snd (merge_width (width0 b) (width0 a) m)"]
    by (simp add: merge_width_const merge_width_max merge_width_ge_cur merge_width_ge_other
        merge_width_max_node max.commute)
qed

theorem AxisHaloInfo_merge_monotone_witness:
  "AxisHaloInfo_merge \<lparr>width0 = Lit 10 (IntV 2), width1 = Sym 11 DInt\<rparr>
      \<lparr>width0 = Lit 12 (IntV 0), width1 = Lit 13 (IntV 0)\<rparr> 20
     = Inr (\<lparr>width0 = Lit 20 (IntV 2), width1 = Sym 11 DInt\<rparr>, 21) \<and>
   AxisHaloInfo_merge \<lparr>width0 = Lit 12 (IntV 0), width1 = Lit 13 (IntV 0)\<rparr>
      \<lparr>width0 = Lit 10 (IntV 2), width1 = Sym 11 DInt\<rparr> 30
     = Inr (\<lparr>width0 = Lit 30 (IntV 2), width1 = Sym 11 DInt\<rparr>, 31) \<and>
   isZeroInt (Lit 12 (IntV 0)) \<and> nonneg_width (Lit 10 (IntV 2)) \<and>
   same_width (Lit 20 (IntV 2)) (Lit 10 (IntV 2)) \<and>
   isZeroInt (Lit 13 (IntV 0)) \<and> nonneg_width (Sym 11 DInt) \<and>
   same_width (Sym 11 DInt) (Sym 11 DInt) \<and>
   int_value (Lit 10 (IntV 2)) = Some 2 \<and> int_value (Lit 12 (IntV 0)) = Some 0 \<and>
   int_value (Lit 20 (IntV 2)) = Some (max 2 0) \<and>
   AxisHaloInfo_merge \<lparr>width0 = Lit 10 (IntV 5), width1 = Sym 11 DInt\<rparr>
      \<lparr>width0 = Sym 12 DInt, width1 = Sym 13 DInt\<rparr> 20
     = Inr (\<lparr>width0 = Res 20 DInt (BinaryOp BMax (Lit 10 (IntV 5)) (Sym 12 DInt)),
             width1 = Res 21 DInt (BinaryOp BMax (Sym 11 DInt) (Sym 13 DInt))\<rparr>, 22) \<and>
   (0::int) \<le> eval (\<lambda>a. if a = 12 then 3 else 4) (Lit 10 (IntV 5)) \<and>
   (0::int) \<le> eval (\<lambda>a. if a = 12 then 3 else 4) (Sym 12 DInt) \<and>
   eval (\<lambda>a. if a = 12 then 3 else 4)
     (Res 20 DInt (BinaryOp BMax (Lit 10 (IntV 5)) (Sym 12 DInt))) = max 5 3 \<and>
   eval (\<lambda>a. if a = 12 then 3 else 4) (Lit 10 (IntV 5))
     \<le> eval (\<lambda>a. if a = 12 then 3 else 4)
         (Res 20 DInt (BinaryOp BMax (Lit 10 (IntV 5)) (Sym 12 DInt))) \<and>
   \<not> isZeroInt (Lit 10 (IntV 5)) \<and> \<not> isZeroInt (Sym 12 DInt) \<and> int_value (Sym 12 DInt) = None \<and>
   definition_of (Res 20 DInt (BinaryOp BMax (Lit 10 (IntV 5)) (Sym 12 DInt)))
     = Some (BinaryOp BMax (Lit 10 (IntV 5)) (Sym 12 DInt))"
  using AxisHaloInfo_merge_monotone [of "\<lparr>width0 = Lit 10 (IntV 2), width1 = Sym 11 DInt\<rparr>"
      "\<lparr>width0 = Lit 12 (IntV 0), width1 = Lit 13 (IntV 0)\<rparr>" 20 30 "\<lambda>a. 0"]
    AxisHaloInfo_merge_monotone [of "\<lparr>width0 = Lit 10 (IntV 5), width1 = Sym 11 DInt\<rparr>"
      "\<lparr>width0 = Sym 12 DInt, width1 = Sym 13 DInt\<rparr>" 20 30 "\<lambda>a. if a = 12 then 3 else 4"]
  by (simp add: merge_info merge_width_def isZeroInt_def nonneg_width_def same_width_def
      create_Int_def IrBuilder_maxExpr_def newArithmeticExpr_def)

section \<open>Properties of the backward propagation\<close>

text \<open>
  Offsets are C++ \<^verbatim>\<open>int\<close>s; \<^verbatim>\<open>std::abs\<close> and the negation are defined on all of them
  but the least.
\<close>

definition int_offset :: "int \<Rightarrow> bool" where
  "int_offset ofs = (- 2147483648 < ofs \<and> ofs \<le> 2147483647)"

text \<open>
  \<open>merged_widths p_info lo hi info'\<close>: if the entry \<open>p_info\<close> carries literal, non-negative
  widths, then the entry \<open>info'\<close> carries their maxima with \<open>lo\<close> on the low side and with
  \<open>hi\<close> on the high side.
\<close>

definition merged_widths :: "AxisHaloInfo \<Rightarrow> int \<Rightarrow> int \<Rightarrow> AxisHaloInfo \<Rightarrow> bool" where
  "merged_widths p_info lo hi info' =
     (case (int_value (width0 p_info), int_value (width1 p_info)) of
        (Some pl, Some ph) \<Rightarrow>
          if 0 \<le> pl \<and> 0 \<le> ph then
            int_value (width0 info') = Some (max pl lo) \<and>
            int_value (width1 info') = Some (max ph hi)
          else True
      | _ \<Rightarrow> True)"

text \<open>
  A small fusion for the concrete runs below: root axis \<open>k\<close> with a symbolic extent, and
  the halo table of a producer axis 10 and a consumer axis 20.
\<close>

definition example_axis :: "nat \<Rightarrow> IterDomain" where
  "example_axis k =
     IterDomain k (Sym (100 + k) DInt) zeroVal (Sym (100 + k) DInt) False False False Serial
       NoDef"

definition example_table :: "AxisHaloInfo \<Rightarrow> AxisHaloInfo \<Rightarrow> HaloInfo" where
  "example_table p_info c_info =
     \<lparr> root_axis_map = [10 \<mapsto> p_info, 20 \<mapsto> c_info],
       kir_root_axis_map = [10 \<mapsto> p_info, 20 \<mapsto> c_info],
       kir_extent_map = Map.empty, halo_width_map = Map.empty \<rparr>"

lemma getRootAxisInfo_Some:
  "is_root_axis d \<Longrightarrow> root_axis_map h (id_of d) = Some info \<Longrightarrow> getRootAxisInfo h d = Inr info"
  by (simp add: getRootAxisInfo_def)

lemma addExpr_scalar_zero:
  "isZeroInt cw \<Longrightarrow> v \<noteq> 0 \<Longrightarrow> addExpr_scalar cw v n = (Lit n (IntV v), Suc n)"
  by (simp add: addExpr_scalar_def isZeroInt_def create_Int_def)

lemma example_axis_simps:
  "is_root_axis (example_axis k)" "id_of (example_axis k) = k"
  "\<not> isBroadcast (example_axis k)"
  by (simp_all add: example_axis_def is_root_axis_def)

lemma example_table_simps:
  "root_axis_map (example_table p c) 10 = Some p"
  "root_axis_map (example_table p c) 20 = Some c"
  by (simp_all add: example_table_def)

subsection \<open>The entries that the other axes of the loop leave alone\<close>

lemma setRootAxisInfo_other:
  "setRootAxisInfo q info h = Inr h1 \<Longrightarrow> id_of q \<noteq> k \<Longrightarrow>
   root_axis_map h1 k = root_axis_map h k"
  by (auto simp add: setRootAxisInfo_def split: if_splits)

lemma propagate_axis_frame:
  assumes run: "propagate_axis c2p expr j c (h, n) = Inr (h1, n1)"
    and other: "\<forall>q. c2p (id_of c) = Some q \<longrightarrow> id_of q \<noteq> k"
  shows "root_axis_map h1 k = root_axis_map h k"
proof (cases "c2p (id_of c)")
  case None
  with run show ?thesis by (simp add: propagate_axis_def)
next
  case (Some q)
  with other have neq: "id_of q \<noteq> k" by simp
  note store = setRootAxisInfo_other [OF _ neq]
  show ?thesis
  proof (cases expr)
    case (ShiftOp offs pd)
    with run Some show ?thesis
      by (auto simp add: propagate_axis_def bind_res_Inr split_def Let_def
          split: if_splits dest: store)
  next
    case (GatherOp ws pads ga)
    with run Some show ?thesis
      by (auto simp add: propagate_axis_def bind_res_Inr split_def Let_def
          split: if_splits dest: store)
  next
    case OtherOp
    with run Some show ?thesis
      by (auto simp add: propagate_axis_def bind_res_Inr split_def Let_def
          split: if_splits dest: store)
  qed
qed

lemma propagate_axes_frame:
  assumes "propagate_axes c2p expr j cs (h, n) = Inr (h1, n1)"
    and "\<forall>c \<in> set cs. \<forall>q. c2p (id_of c) = Some q \<longrightarrow> id_of q \<noteq> k"
  shows "root_axis_map h1 k = root_axis_map h k"
  using assms
proof (induction cs arbitrary: j h n)
  case Nil
  then show ?case by simp
next
  case (Cons c rest)
  from Cons.prems(1) obtain h2 n2 where
    first: "propagate_axis c2p expr j c (h, n) = Inr (h2, n2)" and
    others: "propagate_axes c2p expr (Suc j) rest (h2, n2) = Inr (h1, n1)"
    by (auto simp add: bind_res_Inr)
  have "root_axis_map h2 k = root_axis_map h k"
    using first Cons.prems(2) by (intro propagate_axis_frame [OF first]) simp
  moreover have "root_axis_map h1 k = root_axis_map h2 k"
    using others Cons.prems(2) by (intro Cons.IH [OF others]) simp
  ultimately show ?case by simp
qed

lemma propagate_axes_append:
  "propagate_axes c2p expr j (xs @ ys) s =
     bind_res (propagate_axes c2p expr j xs s) (propagate_axes c2p expr (j + length xs) ys)"
proof (induction xs arbitrary: j s)
  case Nil
  then show ?case by simp
next
  case (Cons x xs)
  show ?case
    by (cases "propagate_axis c2p expr j x s") (simp_all add: Cons.IH)
qed

text \<open>
  The whole loop: when no other consumer root axis is mapped to the producer axis
  \<open>p_id\<close>, and no producer axis is the consumer axis at position \<open>i\<close>, the entry of \<open>p_id\<close>
  after the loop is the one that the step of axis \<open>i\<close> stores, started from the entries
  the two axes have before the loop.
\<close>

lemma propagate_axes_at:
  assumes run: "propagate_axes c2p expr 0 c_root (h, n) = Inr (h', n')"
    and i: "i < length c_root"
    and only: "\<forall>j<length c_root. j \<noteq> i \<longrightarrow>
        (\<forall>q. c2p (id_of (c_root ! j)) = Some q \<longrightarrow> id_of q \<noteq> id_of p_id)"
    and apart: "\<forall>j<length c_root. \<forall>q. c2p (id_of (c_root ! j)) = Some q \<longrightarrow>
        id_of q \<noteq> id_of (c_root ! i)"
  shows "\<exists>h1 n1 h2 n2.
     propagate_axis c2p expr i (c_root ! i) (h1, n1) = Inr (h2, n2) \<and>
     root_axis_map h1 (id_of p_id) = root_axis_map h (id_of p_id) \<and>
     root_axis_map h1 (id_of (c_root ! i)) = root_axis_map h (id_of (c_root ! i)) \<and>
     root_axis_map h' (id_of p_id) = root_axis_map h2 (id_of p_id)"
proof -
  have split: "take i c_root @ (c_root ! i # drop (Suc i) c_root) = c_root"
    using i by (simp add: id_take_nth_drop [symmetric])
  have "propagate_axes c2p expr 0 (take i c_root @ (c_root ! i # drop (Suc i) c_root)) (h, n) =
     bind_res (propagate_axes c2p expr 0 (take i c_root) (h, n))
       (propagate_axes c2p expr (0 + length (take i c_root)) (c_root ! i # drop (Suc i) c_root))"
    by (rule propagate_axes_append)
  moreover have "0 + length (take i c_root) = i" using i by simp
  ultimately have "bind_res (propagate_axes c2p expr 0 (take i c_root) (h, n))
       (propagate_axes c2p expr i (c_root ! i # drop (Suc i) c_root)) = Inr (h', n')"
    using run by (simp only: split)
  then obtain h1 n1 where
    before: "propagate_axes c2p expr 0 (take i c_root) (h, n) = Inr (h1, n1)" and
    rest: "propagate_axes c2p expr i (c_root ! i # drop (Suc i) c_root) (h1, n1) = Inr (h', n')"
    by (auto simp only: bind_res_Inr)
  from rest obtain h2 n2 where
    here: "propagate_axis c2p expr i (c_root ! i) (h1, n1) = Inr (h2, n2)" and
    after: "propagate_axes c2p expr (Suc i) (drop (Suc i) c_root) (h2, n2) = Inr (h', n')"
    by (auto simp add: bind_res_Inr)
  have in_take: "\<exists>j<i. c = c_root ! j" if "c \<in> set (take i c_root)" for c
    using that i by (auto simp add: in_set_conv_nth)
  have in_drop: "\<exists>j. i < j \<and> j < length c_root \<and> c = c_root ! j"
    if "c \<in> set (drop (Suc i) c_root)" for c
  proof -
    from that obtain k where "k < length c_root - Suc i" "c = c_root ! (Suc i + k)"
      by (auto simp add: in_set_conv_nth)
    then show ?thesis by (intro exI [of _ "Suc i + k"]) auto
  qed
  have pre_p: "\<forall>c \<in> set (take i c_root). \<forall>q. c2p (id_of c) = Some q \<longrightarrow> id_of q \<noteq> id_of p_id"
  proof (intro ballI allI impI)
    fix c q assume c: "c \<in> set (take i c_root)" and q: "c2p (id_of c) = Some q"
    from in_take [OF c] obtain j where j: "j < i" "c = c_root ! j" by blast
    then have "j < length c_root" "j \<noteq> i" using i by auto
    with only [rule_format, of j q] q j show "id_of q \<noteq> id_of p_id" by simp
  qed
  have pre_c: "\<forall>c \<in> set (take i c_root). \<forall>q. c2p (id_of c) = Some q \<longrightarrow>
      id_of q \<noteq> id_of (c_root ! i)"
  proof (intro ballI allI impI)
    fix c q assume c: "c \<in> set (take i c_root)" and q: "c2p (id_of c) = Some q"
    from in_take [OF c] obtain j where j: "j < i" "c = c_root ! j" by blast
    then have "j < length c_root" using i by auto
    with apart [rule_format, of j q] q j show "id_of q \<noteq> id_of (c_root ! i)" by simp
  qed
  have post_p: "\<forall>c \<in> set (drop (Suc i) c_root). \<forall>q. c2p (id_of c) = Some q \<longrightarrow>
      id_of q \<noteq> id_of p_id"
  proof (intro ballI allI impI)
    fix c q assume c: "c \<in> set (drop (Suc i) c_root)" and q: "c2p (id_of c) = Some q"
    from in_drop [OF c] obtain j where j: "i < j" "j < length c_root" "c = c_root ! j"
      by blast
    then have "j \<noteq> i" by simp
    with only [rule_format, of j q] q j show "id_of q \<noteq> id_of p_id" by simp
  qed
  have "root_axis_map h1 (id_of p_id) = root_axis_map h (id_of p_id)"
    by (rule propagate_axes_frame [OF before pre_p])
  moreover have "root_axis_map h1 (id_of (c_root ! i)) = root_axis_map h (id_of (c_root ! i))"
    by (rule propagate_axes_frame [OF before pre_c])
  moreover have "root_axis_map h' (id_of p_id) = root_axis_map h2 (id_of p_id)"
    by (rule propagate_axes_frame [OF after post_p])
  ultimately show ?thesis using here by blast
qed


subsection \<open>Shift\<close>

lemma propagate_shift_axis:
  assumes root: "is_root_axis p_id" "is_root_axis c_id"
    and mapped: "c2p (id_of c_id) = Some p_id"
    and p_entry: "root_axis_map h (id_of p_id) = Some p_info"
    and c_entry: "root_axis_map h (id_of c_id) = Some c_info"
    and no_bcast: "\<not> isBroadcast c_id"
    and offset: "i < length offs" "offs ! i = ofs"
  shows "\<exists>h' n' info'.
     propagate_axis c2p (ShiftOp offs pd) i c_id (h, n) = Inr (h', n') \<and>
     root_axis_map h' (id_of p_id) = Some info' \<and>
     kir_root_axis_map h' (id_of p_id) = Some info' \<and>
     (\<not> hasHalo c_info \<longrightarrow> merged_widths p_info (max ofs 0) (max (- ofs) 0) info') \<and>
     (ofs = 0 \<longrightarrow> AxisHaloInfo_merge p_info c_info n = Inr (info', n'))"
proof -
  have gp: "getRootAxisInfo h p_id = Inr p_info" and gc: "getRootAxisInfo h c_id = Inr c_info"
    using root p_entry c_entry by (simp_all add: getRootAxisInfo_Some)
  consider (zero) "ofs = 0" | (pos) "0 < ofs" | (neg) "ofs < 0" by linarith
  then show ?thesis
  proof cases
    case zero
    then show ?thesis
      using offset root no_bcast
      by (auto simp add: propagate_axis_def mapped gp gc at_index_def merge_info
          setRootAxisInfo_def merge_width_def isZeroInt_def create_Int_def hasHalo_def
          merged_widths_def split: option.splits)
  next
    case pos
    then show ?thesis
      using offset root no_bcast
      by (auto simp add: propagate_axis_def mapped gp gc at_index_def merge_pos_0
          setRootAxisInfo_def width_at_def addExpr_scalar_zero merge_width_def create_Int_def
          hasHalo_def split_def Let_def merged_widths_def split: option.splits)
  next
    case neg
    then show ?thesis
      using offset root no_bcast
      by (auto simp add: propagate_axis_def mapped gp gc at_index_def merge_pos_1
          setRootAxisInfo_def width_at_def addExpr_scalar_zero merge_width_def create_Int_def
          hasHalo_def split_def Let_def merged_widths_def split: option.splits)
  qed
qed

text \<open>
  Claim C1, as amended. Take a shift by offset \<open>ofs\<close> on the consumer root axis \<open>c_id\<close> at
  position \<open>i\<close>, which is not a broadcast axis and is mapped to the producer root axis
  \<open>p_id\<close>; no other consumer root axis is mapped to \<open>p_id\<close>, and no producer axis is \<open>c_id\<close>.
  Then the step of the loop for this axis always succeeds and stores a producer entry,
  and after every successful run of \<open>propagateRootAxisInfo\<close> for a producer that is not a
  fusion input, \<open>p_id\<close> has an entry with these properties. When the consumer axis carries
  no halo and the producer axis carries the literal widths \<open>pl\<close> and \<open>ph\<close>, the new low width
  is \<open>max pl (max ofs 0)\<close> and the new high width \<open>max ph (max (- ofs) 0)\<close>: exactly
  \<open>max ofs 0\<close> and \<open>max (- ofs) 0\<close> when the producer axis had no halo either. When the
  offset is zero, the new entry is the plain merge of the consumer's entry into the
  producer's, whatever halo the consumer carries. A producer that is a fusion input is
  left alone.
\<close>

theorem propagate_shift_offset:
  assumes root: "is_root_axis p_id" "is_root_axis c_id"
    and axis: "i < length c_root" "c_root ! i = c_id"
    and mapped: "c2p (id_of c_id) = Some p_id"
    and only: "\<forall>j<length c_root. j \<noteq> i \<longrightarrow>
        (\<forall>q. c2p (id_of (c_root ! j)) = Some q \<longrightarrow> id_of q \<noteq> id_of p_id)"
    and apart: "\<forall>j<length c_root. \<forall>q. c2p (id_of (c_root ! j)) = Some q \<longrightarrow>
        id_of q \<noteq> id_of c_id"
    and p_entry: "root_axis_map h (id_of p_id) = Some p_info"
    and c_entry: "root_axis_map h (id_of c_id) = Some c_info"
    and no_bcast: "\<not> isBroadcast c_id"
    and offset: "i < length offs" "offs ! i = ofs" "int_offset ofs"
  shows "(\<exists>h1 n1 info1.
       propagate_axis c2p (ShiftOp offs pd) i c_id (h, n) = Inr (h1, n1) \<and>
       root_axis_map h1 (id_of p_id) = Some info1 \<and>
       kir_root_axis_map h1 (id_of p_id) = Some info1 \<and>
       (\<not> hasHalo c_info \<longrightarrow> merged_widths p_info (max ofs 0) (max (- ofs) 0) info1) \<and>
       (ofs = 0 \<longrightarrow> AxisHaloInfo_merge p_info c_info n = Inr (info1, n1))) \<and>
     (\<forall>h' n'. propagateRootAxisInfo False c2p c_root (ShiftOp offs pd) (h, n) = Inr (h', n') \<longrightarrow>
       (\<exists>info'. root_axis_map h' (id_of p_id) = Some info' \<and>
          (\<not> hasHalo c_info \<longrightarrow> merged_widths p_info (max ofs 0) (max (- ofs) 0) info') \<and>
          (ofs = 0 \<longrightarrow> (\<exists>m m'. AxisHaloInfo_merge p_info c_info m = Inr (info', m'))))) \<and>
     propagateRootAxisInfo True c2p c_root (ShiftOp offs pd) (h, n) = Inr (h, n)"
proof (intro conjI allI impI)
  show "\<exists>h1 n1 info1.
       propagate_axis c2p (ShiftOp offs pd) i c_id (h, n) = Inr (h1, n1) \<and>
       root_axis_map h1 (id_of p_id) = Some info1 \<and>
       kir_root_axis_map h1 (id_of p_id) = Some info1 \<and>
       (\<not> hasHalo c_info \<longrightarrow> merged_widths p_info (max ofs 0) (max (- ofs) 0) info1) \<and>
       (ofs = 0 \<longrightarrow> AxisHaloInfo_merge p_info c_info n = Inr (info1, n1))"
    using root mapped p_entry c_entry no_bcast offset(1,2) by (rule propagate_shift_axis)
next
  fix h' n'
  assume "propagateRootAxisInfo False c2p c_root (ShiftOp offs pd) (h, n) = Inr (h', n')"
  then have run: "propagate_axes c2p (ShiftOp offs pd) 0 c_root (h, n) = Inr (h', n')"
    by (simp add: propagateRootAxisInfo_def)
  from propagate_axes_at [OF run axis(1) only] apart axis(2)
  obtain h1 n1 h2 n2 where
    here: "propagate_axis c2p (ShiftOp offs pd) i c_id (h1, n1) = Inr (h2, n2)" and
    same: "root_axis_map h1 (id_of p_id) = root_axis_map h (id_of p_id)"
      "root_axis_map h1 (id_of c_id) = root_axis_map h (id_of c_id)" and
    final: "root_axis_map h' (id_of p_id) = root_axis_map h2 (id_of p_id)"
    by auto
  from same p_entry c_entry have entries: "root_axis_map h1 (id_of p_id) = Some p_info"
    "root_axis_map h1 (id_of c_id) = Some c_info"
    by simp_all
  from propagate_shift_axis [where ?c2p = c2p and h = h1 and n = n1 and pd = pd,
      OF root mapped entries no_bcast offset(1,2)] here final
  show "\<exists>info'. root_axis_map h' (id_of p_id) = Some info' \<and>
          (\<not> hasHalo c_info \<longrightarrow> merged_widths p_info (max ofs 0) (max (- ofs) 0) info') \<and>
          (ofs = 0 \<longrightarrow> (\<exists>m m'. AxisHaloInfo_merge p_info c_info m = Inr (info', m')))"
    by auto
next
  show "propagateRootAxisInfo True c2p c_root (ShiftOp offs pd) (h, n) = Inr (h, n)"
    by (simp add: propagateRootAxisInfo_def)
qed

theorem propagate_shift_offset_witness:
  "is_root_axis (example_axis 10) \<and> is_root_axis (example_axis 20) \<and>
   [20 \<mapsto> example_axis 10] (id_of (example_axis 20)) = Some (example_axis 10) \<and>
   root_axis_map (example_table AxisHaloInfo_new AxisHaloInfo_new) (id_of (example_axis 10))
     = Some AxisHaloInfo_new \<and>
   \<not> isBroadcast (example_axis 20) \<and> int_offset 2 \<and> \<not> hasHalo AxisHaloInfo_new \<and>
   (\<exists>h1 n1 info1.
      propagate_axis [20 \<mapsto> example_axis 10] (ShiftOp [2] False) 0 (example_axis 20)
        (example_table AxisHaloInfo_new AxisHaloInfo_new, 100) = Inr (h1, n1) \<and>
      root_axis_map h1 10 = Some info1 \<and>
      int_value (width0 info1) = Some 2 \<and> int_value (width1 info1) = Some 0) \<and>
   (\<exists>h' n' info'.
      propagateRootAxisInfo False [20 \<mapsto> example_axis 10] [example_axis 20] (ShiftOp [2] False)
        (example_table AxisHaloInfo_new AxisHaloInfo_new, 100) = Inr (h', n') \<and>
      root_axis_map h' 10 = Some info' \<and>
      int_value (width0 info') = Some 2 \<and> int_value (width1 info') = Some 0)"
proof -
  have hyps: "is_root_axis (example_axis 10)" "is_root_axis (example_axis 20)"
    "(0::nat) < length [example_axis 20]" "[example_axis 20] ! 0 = example_axis 20"
    "[20 \<mapsto> example_axis 10] (id_of (example_axis 20)) = Some (example_axis 10)"
    "\<forall>j<length [example_axis 20]. j \<noteq> 0 \<longrightarrow>
        (\<forall>q. [20 \<mapsto> example_axis 10] (id_of ([example_axis 20] ! j)) = Some q \<longrightarrow>
           id_of q \<noteq> id_of (example_axis 10))"
    "\<forall>j<length [example_axis 20]. \<forall>q.
        [20 \<mapsto> example_axis 10] (id_of ([example_axis 20] ! j)) = Some q \<longrightarrow>
        id_of q \<noteq> id_of (example_axis 20)"
    "root_axis_map (example_table AxisHaloInfo_new AxisHaloInfo_new) (id_of (example_axis 10))
       = Some AxisHaloInfo_new"
    "root_axis_map (example_table AxisHaloInfo_new AxisHaloInfo_new) (id_of (example_axis 20))
       = Some AxisHaloInfo_new"
    "\<not> isBroadcast (example_axis 20)" "(0::nat) < length [2::int]" "[2::int] ! 0 = 2"
    "int_offset 2"
    by (simp_all add: example_axis_simps example_table_simps int_offset_def)
  have zero: "\<not> hasHalo AxisHaloInfo_new" "int_value (width0 AxisHaloInfo_new) = Some 0"
    "int_value (width1 AxisHaloInfo_new) = Some 0"
    by (simp_all add: hasHalo_def AxisHaloInfo_new_def zeroVal_def isZeroInt_def)
  have run: "\<exists>h' n'. propagateRootAxisInfo False [20 \<mapsto> example_axis 10] [example_axis 20]
      (ShiftOp [2] False) (example_table AxisHaloInfo_new AxisHaloInfo_new, 100) = Inr (h', n')"
    by (simp add: propagateRootAxisInfo_def propagate_axis_def example_axis_simps
        example_table_def getRootAxisInfo_def at_index_def width_at_def AxisHaloInfo_new_def
        zeroVal_def addExpr_scalar_def create_Int_def merge_pos_0 merge_width_def
        setRootAxisInfo_def)
  from propagate_shift_offset [where p_id = "example_axis 10" and c_id = "example_axis 20"
      and ?c2p = "[20 \<mapsto> example_axis 10]" and c_root = "[example_axis 20]"
      and h = "example_table AxisHaloInfo_new AxisHaloInfo_new" and p_info = AxisHaloInfo_new
      and c_info = AxisHaloInfo_new and i = 0 and offs = "[2]" and ofs = 2 and pd = False
      and n = 100, OF hyps] zero hyps run
  show ?thesis
    by (auto simp add: example_axis_simps merged_widths_def)
qed

text \<open>
  The claim as stated fails when the producer axis already carries halo from another
  consumer: with a low width of 5 on the producer, a shift by 2 from a consumer without
  halo leaves the low width at 5, not at 2.
\<close>

theorem propagate_shift_prior_halo_counterexample:
  "\<not> hasHalo AxisHaloInfo_new \<and>
   root_axis_map (example_table \<lparr>width0 = Lit 7 (IntV 5), width1 = zeroVal\<rparr> AxisHaloInfo_new) 20
     = Some AxisHaloInfo_new \<and>
   root_axis_map (fst (projr
     (propagateRootAxisInfo False [20 \<mapsto> example_axis 10] [example_axis 20] (ShiftOp [2] False)
        (example_table \<lparr>width0 = Lit 7 (IntV 5), width1 = zeroVal\<rparr> AxisHaloInfo_new, 100)))) 10
     = Some \<lparr>width0 = Lit 101 (IntV 5), width1 = zeroVal\<rparr> \<and>
   int_value (Lit 101 (IntV 5)) \<noteq> Some (max 2 0)"
  by (simp add: propagateRootAxisInfo_def propagate_axis_def example_axis_simps
      example_table_def getRootAxisInfo_def at_index_def width_at_def AxisHaloInfo_new_def
      zeroVal_def addExpr_scalar_def create_Int_def merge_pos_0 merge_width_def
      setRootAxisInfo_def hasHalo_def isZeroInt_def)

subsection \<open>Gather\<close>

lemma addExpr_zero_left: "isZeroInt a \<Longrightarrow> addExpr a b n = (b, n)"
  by (simp add: addExpr_def)

lemma gather_low_value:
  assumes "isZeroInt cw0" "int_value pad0 = Some p" "int_value pw0 = Some pl"
  shows "int_value (fst (merge_width pw0 (fst (addExpr cw0 pad0 n)) m)) = Some (max pl p)"
  using assms by (simp add: addExpr_zero_left merge_width_const)

lemma gather_high_operand:
  assumes "isZeroInt cw1" "int_value wd = Some w" "int_value pad0 = Some p"
  shows "int_value (fst (subExpr (fst (addExpr cw1 wd n2)) (fst (addExpr_scalar pad0 1 n3)) n4))
     = Some (w - p - 1)"
proof (cases "p + 1 = 0")
  case True
  then show ?thesis
    using assms
    by (simp add: addExpr_zero_left addExpr_scalar_def create_Int_def subExpr_def isZeroInt_def)
next
  case False
  then show ?thesis
    using assms
    by (simp add: addExpr_zero_left addExpr_scalar_def create_Int_def subExpr_def isZeroInt_def)
qed

lemma gather_high_value:
  assumes "isZeroInt cw1" "int_value wd = Some w" "int_value pad0 = Some p"
    "int_value pw1 = Some ph"
  shows "int_value (fst (merge_width pw1
            (fst (subExpr (fst (addExpr cw1 wd n2)) (fst (addExpr_scalar pad0 1 n3)) n4)) n5))
     = Some (max ph (w - p - 1))"
  using assms by (simp add: gather_high_operand merge_width_const)

lemma propagate_gather_step:
  assumes root: "is_root_axis p_id" "is_root_axis c_id"
    and mapped: "c2p (id_of c_id) = Some p_id"
    and p_entry: "root_axis_map h (id_of p_id) = Some p_info"
    and c_entry: "root_axis_map h (id_of c_id) = Some c_info"
    and no_bcast: "\<not> isBroadcast c_id"
    and window: "i < length ws" "\<not> isOneInt (ws ! i)"
    and padding: "i < length pads" "pads ! i \<noteq> []"
  shows "propagate_axis c2p (GatherOp ws pads ga) i c_id (h, n) =
     (let pad0 = pads ! i ! 0;
          lo = addExpr (width0 c_info) pad0 n;
          m0 = merge_width (width0 p_info) (fst lo) (snd lo);
          a = addExpr (width1 c_info) (ws ! i) (snd m0);
          b = addExpr_scalar pad0 1 (snd a);
          hi = subExpr (fst a) (fst b) (snd b);
          m1 = merge_width (width1 p_info) (fst hi) (snd hi);
          info' = p_info\<lparr>width0 := fst m0, width1 := fst m1\<rparr>
      in Inr (h\<lparr> root_axis_map := (root_axis_map h)(id_of p_id \<mapsto> info'),
                  kir_root_axis_map := (kir_root_axis_map h)(id_of p_id \<mapsto> info') \<rparr>,
              snd m1))"
proof -
  have gp: "getRootAxisInfo h p_id = Inr p_info" and gc: "getRootAxisInfo h c_id = Inr c_info"
    using root p_entry c_entry by (simp_all add: getRootAxisInfo_Some)
  show ?thesis
    using window padding root no_bcast
    by (simp add: propagate_axis_def mapped gp gc at_index_def merge_pos_0 merge_pos_1
        setRootAxisInfo_def width_at_def split_def Let_def)
qed

lemma propagate_gather_axis:
  assumes root: "is_root_axis p_id" "is_root_axis c_id"
    and mapped: "c2p (id_of c_id) = Some p_id"
    and p_entry: "root_axis_map h (id_of p_id) = Some p_info"
    and c_entry: "root_axis_map h (id_of c_id) = Some c_info"
    and no_bcast: "\<not> isBroadcast c_id"
    and window: "i < length ws" "int_value (ws ! i) = Some w" "1 < w"
    and padding: "i < length pads" "pads ! i \<noteq> []" "int_value (pads ! i ! 0) = Some p"
  shows "\<exists>h' n' info'.
     propagate_axis c2p (GatherOp ws pads ga) i c_id (h, n) = Inr (h', n') \<and>
     root_axis_map h' (id_of p_id) = Some info' \<and>
     kir_root_axis_map h' (id_of p_id) = Some info' \<and>
     (\<not> hasHalo c_info \<longrightarrow> merged_widths p_info p (w - p - 1) info')"
proof -
  have not_one: "\<not> isOneInt (ws ! i)"
    using window by (simp add: isOneInt_def)
  note step = propagate_gather_step [where ?c2p = c2p and p_id = p_id and c_id = c_id
      and h = h and p_info = p_info and c_info = c_info and ws = ws and pads = pads and i = i
      and ga = ga and n = n,
      OF root mapped p_entry c_entry no_bcast window(1) not_one padding(1,2)]
  show ?thesis
    unfolding step Let_def
    using window(2) padding(3)
    by (auto simp add: hasHalo_def gather_low_value gather_high_value merged_widths_def
        split: option.splits)
qed

text \<open>
  Claim C2, as amended. Take a gather whose window on the axis is the literal \<open>w > 1\<close> and
  whose left padding is the literal \<open>p\<close>, on the consumer root axis \<open>c_id\<close> at position
  \<open>i\<close>, which is not a broadcast axis and is mapped to the producer root axis \<open>p_id\<close>; no
  other consumer root axis is mapped to \<open>p_id\<close>, and no producer axis is \<open>c_id\<close>. Then the
  step of the loop for this axis always succeeds and stores a producer entry, and after
  every successful run of \<open>propagateRootAxisInfo\<close> for a producer that is not a fusion
  input, \<open>p_id\<close> has an entry with this property: when the consumer axis carries no halo
  and the producer axis carries the literal widths \<open>pl\<close> and \<open>ph\<close>, the new low width is
  \<open>max pl p\<close> and the new high width \<open>max ph (w - p - 1)\<close>: exactly \<open>p\<close> and \<open>w - p - 1\<close>
  when the producer axis had no halo and \<open>0 \<le> p \<le> w - 1\<close>. A producer that is a fusion
  input is left alone.
\<close>

theorem propagate_gather_window:
  assumes root: "is_root_axis p_id" "is_root_axis c_id"
    and axis: "i < length c_root" "c_root ! i = c_id"
    and mapped: "c2p (id_of c_id) = Some p_id"
    and only: "\<forall>j<length c_root. j \<noteq> i \<longrightarrow>
        (\<forall>q. c2p (id_of (c_root ! j)) = Some q \<longrightarrow> id_of q \<noteq> id_of p_id)"
    and apart: "\<forall>j<length c_root. \<forall>q. c2p (id_of (c_root ! j)) = Some q \<longrightarrow>
        id_of q \<noteq> id_of c_id"
    and p_entry: "root_axis_map h (id_of p_id) = Some p_info"
    and c_entry: "root_axis_map h (id_of c_id) = Some c_info"
    and no_bcast: "\<not> isBroadcast c_id"
    and window: "i < length ws" "int_value (ws ! i) = Some w" "1 < w"
    and padding: "i < length pads" "pads ! i \<noteq> []" "int_value (pads ! i ! 0) = Some p"
  shows "(\<exists>h1 n1 info1.
       propagate_axis c2p (GatherOp ws pads ga) i c_id (h, n) = Inr (h1, n1) \<and>
       root_axis_map h1 (id_of p_id) = Some info1 \<and>
       kir_root_axis_map h1 (id_of p_id) = Some info1 \<and>
       (\<not> hasHalo c_info \<longrightarrow> merged_widths p_info p (w - p - 1) info1)) \<and>
     (\<forall>h' n'. propagateRootAxisInfo False c2p c_root (GatherOp ws pads ga) (h, n) = Inr (h', n')
        \<longrightarrow>
       (\<exists>info'. root_axis_map h' (id_of p_id) = Some info' \<and>
          (\<not> hasHalo c_info \<longrightarrow> merged_widths p_info p (w - p - 1) info'))) \<and>
     propagateRootAxisInfo True c2p c_root (GatherOp ws pads ga) (h, n) = Inr (h, n)"
proof (intro conjI allI impI)
  show "\<exists>h1 n1 info1.
       propagate_axis c2p (GatherOp ws pads ga) i c_id (h, n) = Inr (h1, n1) \<and>
       root_axis_map h1 (id_of p_id) = Some info1 \<and>
       kir_root_axis_map h1 (id_of p_id) = Some info1 \<and>
       (\<not> hasHalo c_info \<longrightarrow> merged_widths p_info p (w - p - 1) info1)"
    using root mapped p_entry c_entry no_bcast window padding by (rule propagate_gather_axis)
next
  fix h' n'
  assume "propagateRootAxisInfo False c2p c_root (GatherOp ws pads ga) (h, n) = Inr (h', n')"
  then have run: "propagate_axes c2p (GatherOp ws pads ga) 0 c_root (h, n) = Inr (h', n')"
    by (simp add: propagateRootAxisInfo_def)
  from propagate_axes_at [OF run axis(1) only] apart axis(2)
  obtain h1 n1 h2 n2 where
    here: "propagate_axis c2p (GatherOp ws pads ga) i c_id (h1, n1) = Inr (h2, n2)" and
    same: "root_axis_map h1 (id_of p_id) = root_axis_map h (id_of p_id)"
      "root_axis_map h1 (id_of c_id) = root_axis_map h (id_of c_id)" and
    final: "root_axis_map h' (id_of p_id) = root_axis_map h2 (id_of p_id)"
    by auto
  from same p_entry c_entry have entries: "root_axis_map h1 (id_of p_id) = Some p_info"
    "root_axis_map h1 (id_of c_id) = Some c_info"
    by simp_all
  from propagate_gather_axis [where ?c2p = c2p and h = h1 and n = n1 and ga = ga,
      OF root mapped entries no_bcast window padding] here final
  show "\<exists>info'. root_axis_map h' (id_of p_id) = Some info' \<and>
          (\<not> hasHalo c_info \<longrightarrow> merged_widths p_info p (w - p - 1) info')"
    by auto
next
  show "propagateRootAxisInfo True c2p c_root (GatherOp ws pads ga) (h, n) = Inr (h, n)"
    by (simp add: propagateRootAxisInfo_def)
qed

theorem propagate_gather_window_witness:
  "is_root_axis (example_axis 10) \<and> is_root_axis (example_axis 20) \<and>
   [20 \<mapsto> example_axis 10] (id_of (example_axis 20)) = Some (example_axis 10) \<and>
   \<not> isBroadcast (example_axis 20) \<and> \<not> hasHalo AxisHaloInfo_new \<and>
   int_value ([Lit 50 (IntV 3)] ! 0) = Some 3 \<and> (1::int) < 3 \<and>
   int_value ([[Lit 51 (IntV 1), Lit 52 (IntV 1)]] ! 0 ! 0) = Some 1 \<and>
   (\<exists>h1 n1 info1.
      propagate_axis [20 \<mapsto> example_axis 10]
        (GatherOp [Lit 50 (IntV 3)] [[Lit 51 (IntV 1), Lit 52 (IntV 1)]] Suc) 0
        (example_axis 20) (example_table AxisHaloInfo_new AxisHaloInfo_new, 100) = Inr (h1, n1) \<and>
      root_axis_map h1 10 = Some info1 \<and>
      int_value (width0 info1) = Some 1 \<and> int_value (width1 info1) = Some 1) \<and>
   (\<exists>h' n' info'.
      propagateRootAxisInfo False [20 \<mapsto> example_axis 10] [example_axis 20]
        (GatherOp [Lit 50 (IntV 3)] [[Lit 51 (IntV 1), Lit 52 (IntV 1)]] Suc)
        (example_table AxisHaloInfo_new AxisHaloInfo_new, 100) = Inr (h', n') \<and>
      root_axis_map h' 10 = Some info' \<and>
      int_value (width0 info') = Some 1 \<and> int_value (width1 info') = Some 1)"
proof -
  have hyps: "is_root_axis (example_axis 10)" "is_root_axis (example_axis 20)"
    "(0::nat) < length [example_axis 20]" "[example_axis 20] ! 0 = example_axis 20"
    "[20 \<mapsto> example_axis 10] (id_of (example_axis 20)) = Some (example_axis 10)"
    "\<forall>j<length [example_axis 20]. j \<noteq> 0 \<longrightarrow>
        (\<forall>q. [20 \<mapsto> example_axis 10] (id_of ([example_axis 20] ! j)) = Some q \<longrightarrow>
           id_of q \<noteq> id_of (example_axis 10))"
    "\<forall>j<length [example_axis 20]. \<forall>q.
        [20 \<mapsto> example_axis 10] (id_of ([example_axis 20] ! j)) = Some q \<longrightarrow>
        id_of q \<noteq> id_of (example_axis 20)"
    "root_axis_map (example_table AxisHaloInfo_new AxisHaloInfo_new) (id_of (example_axis 10))
       = Some AxisHaloInfo_new"
    "root_axis_map (example_table AxisHaloInfo_new AxisHaloInfo_new) (id_of (example_axis 20))
       = Some AxisHaloInfo_new"
    "\<not> isBroadcast (example_axis 20)"
    "(0::nat) < length [Lit 50 (IntV 3)]" "int_value ([Lit 50 (IntV 3)] ! 0) = Some 3"
    "(1::int) < 3"
    "(0::nat) < length [[Lit 51 (IntV 1), Lit 52 (IntV 1)]]"
    "[[Lit 51 (IntV 1), Lit 52 (IntV 1)]] ! 0 \<noteq> []"
    "int_value ([[Lit 51 (IntV 1), Lit 52 (IntV 1)]] ! 0 ! 0) = Some 1"
    by (simp_all add: example_axis_simps example_table_simps)
  have zero: "\<not> hasHalo AxisHaloInfo_new" "int_value (width0 AxisHaloInfo_new) = Some 0"
    "int_value (width1 AxisHaloInfo_new) = Some 0"
    by (simp_all add: hasHalo_def AxisHaloInfo_new_def zeroVal_def isZeroInt_def)
  have run: "\<exists>h' n'. propagateRootAxisInfo False [20 \<mapsto> example_axis 10] [example_axis 20]
      (GatherOp [Lit 50 (IntV 3)] [[Lit 51 (IntV 1), Lit 52 (IntV 1)]] Suc)
      (example_table AxisHaloInfo_new AxisHaloInfo_new, 100) = Inr (h', n')"
    by (simp add: propagateRootAxisInfo_def propagate_axis_def example_axis_simps
        example_table_def getRootAxisInfo_def at_index_def width_at_def AxisHaloInfo_new_def
        zeroVal_def addExpr_scalar_def addExpr_def subExpr_def create_Int_def merge_pos_0
        merge_pos_1 merge_width_def setRootAxisInfo_def isZeroInt_def isOneInt_def)
  from propagate_gather_window [where p_id = "example_axis 10" and c_id = "example_axis 20"
      and ?c2p = "[20 \<mapsto> example_axis 10]" and c_root = "[example_axis 20]"
      and h = "example_table AxisHaloInfo_new AxisHaloInfo_new" and p_info = AxisHaloInfo_new
      and c_info = AxisHaloInfo_new and i = 0 and ws = "[Lit 50 (IntV 3)]" and w = 3
      and pads = "[[Lit 51 (IntV 1), Lit 52 (IntV 1)]]" and p = 1 and ga = Suc
      and n = 100, OF hyps] zero hyps run
  show ?thesis
    by (auto simp add: example_axis_simps merged_widths_def)
qed

text \<open>
  The claim as stated fails when the producer axis already carries halo from another
  consumer: with a low width of 4 on the producer, a gather of window 3 and left padding 1
  from a consumer without halo leaves the low width at 4, not at 1.
\<close>

theorem propagate_gather_prior_halo_counterexample:
  "\<not> hasHalo AxisHaloInfo_new \<and>
   root_axis_map (example_table \<lparr>width0 = Lit 7 (IntV 4), width1 = zeroVal\<rparr> AxisHaloInfo_new) 20
     = Some AxisHaloInfo_new \<and>
   root_axis_map (fst (projr
     (propagateRootAxisInfo False [20 \<mapsto> example_axis 10] [example_axis 20]
        (GatherOp [Lit 50 (IntV 3)] [[Lit 51 (IntV 1), Lit 52 (IntV 1)]] Suc)
        (example_table \<lparr>width0 = Lit 7 (IntV 4), width1 = zeroVal\<rparr> AxisHaloInfo_new, 100)))) 10
     = Some \<lparr>width0 = Lit 100 (IntV 4), width1 = Lit 103 (IntV 1)\<rparr> \<and>
   int_value (Lit 100 (IntV 4)) \<noteq> Some 1"
  by (simp add: propagateRootAxisInfo_def propagate_axis_def example_axis_simps
      example_table_def getRootAxisInfo_def at_index_def width_at_def AxisHaloInfo_new_def
      zeroVal_def addExpr_scalar_def addExpr_def subExpr_def create_Int_def merge_pos_0
      merge_pos_1 merge_width_def setRootAxisInfo_def hasHalo_def isZeroInt_def isOneInt_def)

text \<open>
  The branch of a gather with a window of one: the merge goes into the local copy and the
  step leaves before the store, so the table is unchanged, whatever halo the consumer
  axis carries. The other plain merges of the function (a shift by zero, any other
  operation) store their result.
\<close>

lemma propagate_gather_unit_window:
  assumes "is_root_axis p_id" "is_root_axis c_id" "c2p (id_of c_id) = Some p_id"
    "root_axis_map h (id_of p_id) = Some p_info" "root_axis_map h (id_of c_id) = Some c_info"
    "\<not> isBroadcast c_id" "i < length ws" "isOneInt (ws ! i)"
  shows "\<exists>n'. propagate_axis c2p (GatherOp ws pads ga) i c_id (h, n) = Inr (h, n')"
  using assms
  by (simp add: propagate_axis_def getRootAxisInfo_Some at_index_def merge_info)

lemma propagate_gather_unit_window_example:
  "root_axis_map (fst (projr
     (propagateRootAxisInfo False [20 \<mapsto> example_axis 10] [example_axis 20]
        (GatherOp [Lit 50 (IntV 1)] [[zeroVal, zeroVal]] Suc)
        (example_table AxisHaloInfo_new \<lparr>width0 = Lit 7 (IntV 3), width1 = zeroVal\<rparr>, 100)))) 10
     = Some AxisHaloInfo_new \<and>
   root_axis_map (fst (projr
     (propagateRootAxisInfo False [20 \<mapsto> example_axis 10] [example_axis 20] OtherOp
        (example_table AxisHaloInfo_new \<lparr>width0 = Lit 7 (IntV 3), width1 = zeroVal\<rparr>, 100)))) 10
     = Some \<lparr>width0 = Lit 100 (IntV 3), width1 = Lit 101 (IntV 0)\<rparr>"
  by (simp add: propagateRootAxisInfo_def propagate_axis_def example_axis_simps
      example_table_def getRootAxisInfo_def at_index_def AxisHaloInfo_new_def
      zeroVal_def create_Int_def merge_info merge_width_def setRootAxisInfo_def isOneInt_def)

section \<open>Properties of the forward propagation\<close>

text \<open>A table of the leaf maps for the concrete runs: axis 10 has the halo width \<open>hw\<close>.\<close>

definition example_widths :: "Val \<Rightarrow> HaloInfo" where
  "example_widths hw =
     \<lparr> root_axis_map = Map.empty, kir_root_axis_map = Map.empty,
       kir_extent_map = (if isZeroInt hw then Map.empty else [10 \<mapsto> Sym 60 DInt]),
       halo_width_map = [10 \<mapsto> hw] \<rparr>"

lemma map_insert_fresh: "m k = None \<Longrightarrow> map_insert m k v = m(k \<mapsto> v)"
  by (simp add: map_insert_def)

text \<open>
  Claim C3. One step of the forward propagation on a split of \<open>in_id\<close> into \<open>outer\<close> and
  \<open>inner\<close>, two distinct axes that have no entries yet (they are the outputs of this
  split). If the recorded halo width of \<open>in_id\<close> is a known zero, both outputs get that
  zero width and the table of extended extents is unchanged. If it is not a known zero,
  \<open>outer\<close> gets the zero width and no extended extent, and \<open>inner\<close> gets the width of
  \<open>in_id\<close> and an extended extent that is the sum node of its own extent and that width.
  If \<open>in_id\<close> is among the outputs of merges of halo-extended axes, the step fails; in
  particular, a merge with a halo-extended input followed by a split of its output fails.
\<close>

theorem build_split_halo:
  assumes fresh: "halo_width_map h (id_of outer) = None" "halo_width_map h (id_of inner) = None"
      "kir_extent_map h (id_of inner) = None" "id_of outer \<noteq> id_of inner"
  shows
    "(id_of in_id \<notin> merged \<and> halo_width_map h (id_of in_id) = Some hw \<and> isZeroInt hw \<longrightarrow>
        (\<exists>h'. build_expr (Split in_id outer inner) (h, merged, n) = Inr (h', merged, n) \<and>
           halo_width_map h' (id_of outer) = Some hw \<and>
           halo_width_map h' (id_of inner) = Some hw \<and>
           kir_extent_map h' = kir_extent_map h)) \<and>
     (id_of in_id \<notin> merged \<and> halo_width_map h (id_of in_id) = Some hw \<and> \<not> isZeroInt hw \<longrightarrow>
        (\<exists>h' e. build_expr (Split in_id outer inner) (h, merged, n) = Inr (h', merged, Suc n) \<and>
           halo_width_map h' (id_of outer) = Some zeroVal \<and>
           halo_width_map h' (id_of inner) = Some hw \<and>
           kir_extent_map h' (id_of outer) = kir_extent_map h (id_of outer) \<and>
           kir_extent_map h' (id_of inner) = Some e \<and>
           definition_of e = Some (BinaryOp BAdd (extent inner) hw) \<and>
           eval env e = eval env (extent inner) + eval env hw)) \<and>
     (id_of in_id \<in> merged \<longrightarrow>
        build_expr (Split in_id outer inner) (h, merged, n) = Inl SplitOfHaloMerge) \<and>
     (getExtent h m_outer \<noteq> None \<or> getExtent h m_inner \<noteq> None \<longrightarrow>
        build_exprs [Merge m_outer m_inner in_id, Split in_id outer inner] (h, merged, n)
          = Inl SplitOfHaloMerge)"
proof -
  have zero_case: "id_of in_id \<notin> merged \<and> halo_width_map h (id_of in_id) = Some hw \<and> isZeroInt hw \<longrightarrow>
        (\<exists>h'. build_expr (Split in_id outer inner) (h, merged, n) = Inr (h', merged, n) \<and>
           halo_width_map h' (id_of outer) = Some hw \<and>
           halo_width_map h' (id_of inner) = Some hw \<and>
           kir_extent_map h' = kir_extent_map h)"
    using fresh by (simp add: build_expr_def map_insert_fresh)
  have halo_case: "id_of in_id \<notin> merged \<and> halo_width_map h (id_of in_id) = Some hw \<and> \<not> isZeroInt hw \<longrightarrow>
        (\<exists>h' e. build_expr (Split in_id outer inner) (h, merged, n) = Inr (h', merged, Suc n) \<and>
           halo_width_map h' (id_of outer) = Some zeroVal \<and>
           halo_width_map h' (id_of inner) = Some hw \<and>
           kir_extent_map h' (id_of outer) = kir_extent_map h (id_of outer) \<and>
           kir_extent_map h' (id_of inner) = Some e \<and>
           definition_of e = Some (BinaryOp BAdd (extent inner) hw) \<and>
           eval env e = eval env (extent inner) + eval env hw)"
    using fresh
    by (simp add: build_expr_def map_insert_fresh IrBuilder_addExpr_def newArithmeticExpr_def)
  have merged_case: "id_of in_id \<in> merged \<longrightarrow>
        build_expr (Split in_id outer inner) (h, merged, n) = Inl SplitOfHaloMerge"
    by (simp add: build_expr_def)
  have merge_then_split: "getExtent h m_outer \<noteq> None \<or> getExtent h m_inner \<noteq> None \<longrightarrow>
        build_exprs [Merge m_outer m_inner in_id, Split in_id outer inner] (h, merged, n)
          = Inl SplitOfHaloMerge"
    by (auto simp add: build_expr_def Let_def split_def)
  show ?thesis
    using zero_case halo_case merged_case merge_then_split by blast
qed

theorem build_split_halo_witness:
  "(\<exists>h'. build_expr (Split (example_axis 10) (example_axis 11) (example_axis 12))
          (example_widths zeroVal, {}, 100) = Inr (h', {}, 100) \<and>
        halo_width_map h' 11 = Some zeroVal \<and> halo_width_map h' 12 = Some zeroVal \<and>
        kir_extent_map h' = kir_extent_map (example_widths zeroVal)) \<and>
   (\<exists>h' e. build_expr (Split (example_axis 10) (example_axis 11) (example_axis 12))
          (example_widths (Lit 7 (IntV 3)), {}, 100) = Inr (h', {}, 101) \<and>
        halo_width_map h' 11 = Some zeroVal \<and> halo_width_map h' 12 = Some (Lit 7 (IntV 3)) \<and>
        kir_extent_map h' 11 = None \<and> kir_extent_map h' 12 = Some e \<and>
        definition_of e = Some (BinaryOp BAdd (Sym 112 DInt) (Lit 7 (IntV 3)))) \<and>
   build_expr (Split (example_axis 10) (example_axis 11) (example_axis 12))
          (example_widths zeroVal, {10}, 100) = Inl SplitOfHaloMerge \<and>
   getExtent (example_widths (Lit 7 (IntV 3))) (example_axis 10) \<noteq> None \<and>
   build_exprs [Merge (example_axis 10) (example_axis 9) (example_axis 13),
                Split (example_axis 13) (example_axis 11) (example_axis 12)]
          (example_widths (Lit 7 (IntV 3)), {}, 100) = Inl SplitOfHaloMerge"
  using
    build_split_halo [where h = "example_widths zeroVal" and in_id = "example_axis 10"
      and outer = "example_axis 11" and inner = "example_axis 12" and merged = "{}"
      and hw = zeroVal and n = 100 and m_outer = "example_axis 10" and m_inner = "example_axis 9"]
    build_split_halo [where h = "example_widths (Lit 7 (IntV 3))" and in_id = "example_axis 10"
      and outer = "example_axis 11" and inner = "example_axis 12" and merged = "{}"
      and hw = "Lit 7 (IntV 3)" and n = 100 and env = "\<lambda>a. 0"
      and m_outer = "example_axis 10" and m_inner = "example_axis 9"]
    build_split_halo [where h = "example_widths zeroVal" and in_id = "example_axis 10"
      and outer = "example_axis 11" and inner = "example_axis 12" and merged = "{10}"
      and n = 100 and m_outer = "example_axis 10" and m_inner = "example_axis 9"]
    build_split_halo [where h = "example_widths (Lit 7 (IntV 3))" and in_id = "example_axis 13"
      and outer = "example_axis 11" and inner = "example_axis 12" and merged = "{}"
      and n = 100 and m_outer = "example_axis 10" and m_inner = "example_axis 9"]
  apply (simp add: example_widths_def example_axis_simps zeroVal_def isZeroInt_def getExtent_def
      example_axis_def)
  apply blast
  done

section \<open>Properties of the extent comparison\<close>

text \<open>
  For the concrete runs: a table of halo widths for the axes 10 (literal 2), 20 (another
  literal 2), 30 (literal 3) and 40 (a runtime scalar), and the output \<open>k\<close> of a merge.
\<close>

definition example_width_table :: HaloInfo where
  "example_width_table =
     \<lparr> root_axis_map = Map.empty, kir_root_axis_map = Map.empty, kir_extent_map = Map.empty,
       halo_width_map = [10 \<mapsto> Lit 7 (IntV 2), 20 \<mapsto> Lit 8 (IntV 2), 30 \<mapsto> Lit 9 (IntV 3),
                         40 \<mapsto> Sym 41 DInt] \<rparr>"

definition example_merge :: "nat \<Rightarrow> IterDomain \<Rightarrow> IterDomain \<Rightarrow> IterDomain" where
  "example_merge k outer inner =
     IterDomain k (Sym (100 + k) DInt) zeroVal (Sym (100 + k) DInt) False False False Serial
       (MergeOf outer inner)"

lemma extentCompare_widths:
  "areMapped (id_of id1) (id_of id2) \<Longrightarrow> halo_width_map h (id_of id1) = Some w1 \<Longrightarrow>
   halo_width_map h (id_of id2) = Some w2 \<Longrightarrow>
   extentCompare areMapped h cmp id1 id2 = cmp w1 w2"
  by (simp add: extentCompare.simps [of areMapped h cmp id1 id2] hasHaloWidth_def
      getHaloWidth_def)

lemma extentCompare_not_mapped:
  "\<not> areMapped (id_of id1) (id_of id2) \<Longrightarrow>
   extentCompare areMapped h cmp id1 id2 = Inl NotLoopMapped"
  by (simp add: extentCompare.simps [of areMapped h cmp id1 id2])

lemma extentCompare_merge:
  "areMapped (id_of id1) (id_of id2) \<Longrightarrow> halo_width_map h (id_of id1) = None \<Longrightarrow>
   halo_width_map h (id_of id2) = None \<Longrightarrow> iter_definition id1 = MergeOf o1 i1 \<Longrightarrow>
   iter_definition id2 = MergeOf o2 i2 \<Longrightarrow>
   extentCompare areMapped h cmp id1 id2 =
     bind_res (extentCompare areMapped h cmp i1 i2) (\<lambda>inner_le.
     bind_res (extentCompare areMapped h cmp o1 o2) (\<lambda>outer_le. Inr (inner_le \<and> outer_le)))"
  by (simp add: extentCompare.simps [of areMapped h cmp id1 id2] hasHaloWidth_def)

lemma cmp_equal_literals:
  "int_value x = Some v \<Longrightarrow> int_value y = Some v \<Longrightarrow> cmp_equal x y = Inr True"
  by (simp add: cmp_equal.simps [of x y])

lemma cmp_equal_same_node: "addr_of x = addr_of y \<Longrightarrow> cmp_equal x y = Inr True"
  by (simp add: cmp_equal.simps [of x y])

lemma int_value_no_definition: "int_value x = Some v \<Longrightarrow> definition_of x = None"
  by (cases x rule: int_value.cases) simp_all

lemma cmp_equal_differing_literals:
  "int_value x = Some v1 \<Longrightarrow> int_value y = Some v2 \<Longrightarrow> v1 \<noteq> v2 \<Longrightarrow>
   addr_of x \<noteq> addr_of y \<Longrightarrow> cmp_equal x y = Inr False"
  by (simp add: cmp_equal.simps [of x y] int_value_no_definition)

lemma cmp_less_equal_unresolved:
  "addr_of x \<noteq> addr_of y \<Longrightarrow> int_value x = None \<or> int_value y = None \<Longrightarrow>
   cmp_less_equal x y = Inr False"
  by (auto simp add: cmp_less_equal_def split: option.splits)

text \<open>
  Claim C4. For two loop-mapped axes whose recorded halo widths are literals of one value,
  or one and the same node, \<open>extentEqual\<close> returns true. For two loop-mapped axes without
  recorded widths that are outputs of merges, it returns true when it returns true on the
  two inner operands and on the two outer operands. For two axes whose recorded widths
  are literals of different values (two different nodes), it does not return true. And
  \<open>extentLessEqual\<close> does not return true on two recorded widths that are different nodes
  and not both literals.
\<close>

theorem extent_comparator_sound:
  "(areMapped (id_of id1) (id_of id2) \<and> halo_width_map h (id_of id1) = Some w1 \<and>
      halo_width_map h (id_of id2) = Some w2 \<and>
      ((\<exists>v. int_value w1 = Some v \<and> int_value w2 = Some v) \<or> addr_of w1 = addr_of w2) \<longrightarrow>
      extentEqual areMapped h id1 id2 = Inr True) \<and>
   (areMapped (id_of id1) (id_of id2) \<and> halo_width_map h (id_of id1) = None \<and>
      halo_width_map h (id_of id2) = None \<and> iter_definition id1 = MergeOf o1 i1 \<and>
      iter_definition id2 = MergeOf o2 i2 \<and> extentEqual areMapped h i1 i2 = Inr True \<and>
      extentEqual areMapped h o1 o2 = Inr True \<longrightarrow>
      extentEqual areMapped h id1 id2 = Inr True) \<and>
   (halo_width_map h (id_of id1) = Some w1 \<and> halo_width_map h (id_of id2) = Some w2 \<and>
      int_value w1 = Some v1 \<and> int_value w2 = Some v2 \<and> v1 \<noteq> v2 \<and>
      addr_of w1 \<noteq> addr_of w2 \<longrightarrow>
      extentEqual areMapped h id1 id2 \<noteq> Inr True) \<and>
   (halo_width_map h (id_of id1) = Some w1 \<and> halo_width_map h (id_of id2) = Some w2 \<and>
      addr_of w1 \<noteq> addr_of w2 \<and> (int_value w1 = None \<or> int_value w2 = None) \<longrightarrow>
      extentLessEqual areMapped h id1 id2 \<noteq> Inr True)"
proof (intro conjI impI)
  assume "areMapped (id_of id1) (id_of id2) \<and> halo_width_map h (id_of id1) = Some w1 \<and>
      halo_width_map h (id_of id2) = Some w2 \<and>
      ((\<exists>v. int_value w1 = Some v \<and> int_value w2 = Some v) \<or> addr_of w1 = addr_of w2)"
  then show "extentEqual areMapped h id1 id2 = Inr True"
    by (auto simp add: extentEqual_def extentCompare_widths cmp_equal_literals
        cmp_equal_same_node)
next
  assume "areMapped (id_of id1) (id_of id2) \<and> halo_width_map h (id_of id1) = None \<and>
      halo_width_map h (id_of id2) = None \<and> iter_definition id1 = MergeOf o1 i1 \<and>
      iter_definition id2 = MergeOf o2 i2 \<and> extentEqual areMapped h i1 i2 = Inr True \<and>
      extentEqual areMapped h o1 o2 = Inr True"
  then show "extentEqual areMapped h id1 id2 = Inr True"
    by (simp add: extentEqual_def extentCompare_merge [of areMapped id1 id2 h o1 i1 o2 i2])
next
  assume a: "halo_width_map h (id_of id1) = Some w1 \<and> halo_width_map h (id_of id2) = Some w2 \<and>
      int_value w1 = Some v1 \<and> int_value w2 = Some v2 \<and> v1 \<noteq> v2 \<and>
      addr_of w1 \<noteq> addr_of w2"
  show "extentEqual areMapped h id1 id2 \<noteq> Inr True"
  proof (cases "areMapped (id_of id1) (id_of id2)")
    case True
    with a show ?thesis
      by (simp add: extentEqual_def extentCompare_widths cmp_equal_differing_literals)
  next
    case False
    then show ?thesis
      by (simp add: extentEqual_def extentCompare_not_mapped)
  qed
next
  assume a: "halo_width_map h (id_of id1) = Some w1 \<and> halo_width_map h (id_of id2) = Some w2 \<and>
      addr_of w1 \<noteq> addr_of w2 \<and> (int_value w1 = None \<or> int_value w2 = None)"
  show "extentLessEqual areMapped h id1 id2 \<noteq> Inr True"
  proof (cases "areMapped (id_of id1) (id_of id2)")
    case True
    with a show ?thesis
      by (simp add: extentLessEqual_def extentCompare_widths cmp_less_equal_unresolved)
  next
    case False
    then show ?thesis
      by (simp add: extentLessEqual_def extentCompare_not_mapped)
  qed
qed

theorem extent_comparator_sound_witness:
  "extentEqual (\<lambda>a b. True) example_width_table (example_axis 10) (example_axis 20) = Inr True \<and>
   extentEqual (\<lambda>a b. True) example_width_table (example_axis 30) (example_axis 30) = Inr True \<and>
   extentEqual (\<lambda>a b. True) example_width_table
     (example_merge 50 (example_axis 10) (example_axis 30))
     (example_merge 51 (example_axis 20) (example_axis 30)) = Inr True \<and>
   extentEqual (\<lambda>a b. True) example_width_table (example_axis 10) (example_axis 30)
     \<noteq> Inr True \<and>
   extentLessEqual (\<lambda>a b. True) example_width_table (example_axis 10) (example_axis 40)
     \<noteq> Inr True"
proof -
  have w: "halo_width_map example_width_table 10 = Some (Lit 7 (IntV 2))"
    "halo_width_map example_width_table 20 = Some (Lit 8 (IntV 2))"
    "halo_width_map example_width_table 30 = Some (Lit 9 (IntV 3))"
    "halo_width_map example_width_table 40 = Some (Sym 41 DInt)"
    "halo_width_map example_width_table 50 = None"
    "halo_width_map example_width_table 51 = None"
    by (simp_all add: example_width_table_def)
  have m: "id_of (example_merge k a b) = k" "iter_definition (example_merge k a b) = MergeOf a b"
    for k a b
    by (simp_all add: example_merge_def)
  have equal_literals:
    "extentEqual (\<lambda>a b. True) example_width_table (example_axis 10) (example_axis 20) = Inr True"
    using extent_comparator_sound [where areMapped = "\<lambda>a b. True" and h = example_width_table
        and ?id1.0 = "example_axis 10" and ?id2.0 = "example_axis 20"
        and ?w1.0 = "Lit 7 (IntV 2)" and ?w2.0 = "Lit 8 (IntV 2)"]
    by (simp add: w example_axis_simps)
  have same_node:
    "extentEqual (\<lambda>a b. True) example_width_table (example_axis 30) (example_axis 30) = Inr True"
    using extent_comparator_sound [where areMapped = "\<lambda>a b. True" and h = example_width_table
        and ?id1.0 = "example_axis 30" and ?id2.0 = "example_axis 30"
        and ?w1.0 = "Lit 9 (IntV 3)" and ?w2.0 = "Lit 9 (IntV 3)"]
    by (simp add: w example_axis_simps)
  have merged:
    "extentEqual (\<lambda>a b. True) example_width_table
       (example_merge 50 (example_axis 10) (example_axis 30))
       (example_merge 51 (example_axis 20) (example_axis 30)) = Inr True"
    using extent_comparator_sound [where areMapped = "\<lambda>a b. True" and h = example_width_table
        and ?id1.0 = "example_merge 50 (example_axis 10) (example_axis 30)"
        and ?id2.0 = "example_merge 51 (example_axis 20) (example_axis 30)"
        and ?o1.0 = "example_axis 10" and ?i1.0 = "example_axis 30"
        and ?o2.0 = "example_axis 20" and ?i2.0 = "example_axis 30"]
      equal_literals same_node
    by (simp add: w m)
  have differing:
    "extentEqual (\<lambda>a b. True) example_width_table (example_axis 10) (example_axis 30)
       \<noteq> Inr True"
    using extent_comparator_sound [where areMapped = "\<lambda>a b. True" and h = example_width_table
        and ?id1.0 = "example_axis 10" and ?id2.0 = "example_axis 30"
        and ?w1.0 = "Lit 7 (IntV 2)" and ?w2.0 = "Lit 9 (IntV 3)" and ?v1.0 = 2 and ?v2.0 = 3]
    by (simp add: w example_axis_simps)
  have unresolved:
    "extentLessEqual (\<lambda>a b. True) example_width_table (example_axis 10) (example_axis 40)
       \<noteq> Inr True"
    using extent_comparator_sound [where areMapped = "\<lambda>a b. True" and h = example_width_table
        and ?id1.0 = "example_axis 10" and ?id2.0 = "example_axis 40"
        and ?w1.0 = "Lit 7 (IntV 2)" and ?w2.0 = "Sym 41 DInt"]
    by (simp add: w example_axis_simps)
  show ?thesis
    using equal_literals same_node merged differing unresolved by simp
qed

section \<open>Properties of the validation\<close>

text \<open>For the concrete runs: root axis \<open>k\<close> parallelised on \<^verbatim>\<open>BIDx\<close>.\<close>

definition example_block_axis :: "nat \<Rightarrow> IterDomain" where
  "example_block_axis k =
     IterDomain k (Sym (100 + k) DInt) zeroVal (Sym (100 + k) DInt) False False False BIDx NoDef"

lemma block_dim_facts:
  "isParallelTypeBlockDim p \<Longrightarrow> p \<noteq> Serial \<and> isParallelTypeThread p \<and> \<not> isParallelTypeThreadDim p"
  by (auto simp add: isParallelTypeBlockDim_def isParallelTypeThread_def
      isParallelTypeThreadDim_def)

lemma validate_axis_block_fails:
  assumes "getExtent h axis \<noteq> None"
    "isParallelTypeBlockDim (getParallelType (getConcreteMappedID axis))"
    "shared_mem_needed areMapped h axis (uses tv) \<noteq> Inr False"
  shows "\<exists>e. validate_axis areMapped getConcreteMappedID h tv axis = Inl e"
proof (cases "extentEqual areMapped h axis (getConcreteMappedID axis)")
  case (Inl e)
  then show ?thesis by (simp add: validate_axis_def)
next
  case (Inr eq)
  show ?thesis
  proof (cases "shared_mem_needed areMapped h axis (uses tv)")
    case (Inl e)
    then show ?thesis
      using Inr assms block_dim_facts [OF assms(2)]
      by (auto simp add: validate_axis_def)
  next
    case needed: (Inr b)
    then have "b" using assms(3) by simp
    then show ?thesis
      using Inr needed assms block_dim_facts [OF assms(2)]
      by (auto simp add: validate_axis_def)
  qed
qed

lemma validate_axis_block_error:
  assumes "getExtent h axis \<noteq> None"
    "isParallelTypeBlockDim (getParallelType (getConcreteMappedID axis))"
    "shared_mem_needed areMapped h axis (uses tv) = Inr True"
    "extentEqual areMapped h axis (getConcreteMappedID axis) = Inr True"
  shows "validate_axis areMapped getConcreteMappedID h tv axis = Inl BlockParallelHalo"
  using assms block_dim_facts [OF assms(2)]
  by (auto simp add: validate_axis_def)

lemma validate_axes_fails:
  "axis \<in> set axes \<Longrightarrow> validate_axis areMapped getConcreteMappedID h tv axis = Inl e \<Longrightarrow>
   \<exists>e'. validate_axes areMapped getConcreteMappedID h tv axes = Inl e'"
proof (induction axes)
  case Nil
  then show ?case by simp
next
  case (Cons a rest)
  show ?case
  proof (cases "validate_axis areMapped getConcreteMappedID h tv a")
    case (Inl e0)
    then show ?thesis by simp
  next
    case (Inr u)
    with Cons have "axis \<in> set rest" by auto
    with Cons Inr show ?thesis by simp
  qed
qed

text \<open>
  A use of the tensor needs shared visibility of \<open>axis\<close> when it is a tensor operation
  that is a shift or a gather, or whose output has a loop-mapped axis that is not proven
  to have the same extent as \<open>axis\<close> (the first such axis is the one looked at).
\<close>

definition use_needs_shared_memory ::
  "(nat \<Rightarrow> nat \<Rightarrow> bool) \<Rightarrow> HaloInfo \<Rightarrow> IterDomain \<Rightarrow> TvUse \<Rightarrow> bool" where
  "use_needs_shared_memory areMapped h axis u =
     (isTVOp u \<and>
      (is_shift_or_gather (use_expr u) \<or>
       (case find (\<lambda>consumer_axis. areMapped (id_of axis) (id_of consumer_axis))
               (use_consumer_axes u) of
          None \<Rightarrow> False
        | Some consumer_axis \<Rightarrow> extentEqual areMapped h axis consumer_axis \<noteq> Inr True)))"

lemma shared_mem_needed_none:
  "shared_mem_needed areMapped h axis us = Inr False \<longleftrightarrow>
   (\<forall>u \<in> set us. \<not> use_needs_shared_memory areMapped h axis u)"
proof (induction us)
  case Nil
  then show ?case by simp
next
  case (Cons u us)
  show ?case
  proof (cases "find (\<lambda>consumer_axis. areMapped (id_of axis) (id_of consumer_axis))
               (use_consumer_axes u)")
    case None
    then show ?thesis
      using Cons.IH by (simp add: use_needs_shared_memory_def)
  next
    case (Some c)
    show ?thesis
    proof (cases "extentEqual areMapped h axis c")
      case (Inl e)
      then show ?thesis
        using Some Cons.IH by (simp add: use_needs_shared_memory_def)
    next
      case (Inr eq)
      then show ?thesis
        using Some Cons.IH by (simp add: use_needs_shared_memory_def)
    qed
  qed
qed

lemma validate_axes_accepts:
  "validate_axes areMapped getConcreteMappedID h tv axes = Inr () \<longleftrightarrow>
   (\<forall>a \<in> set axes. validate_axis areMapped getConcreteMappedID h tv a = Inr ())"
proof (induction axes)
  case Nil
  then show ?case by simp
next
  case (Cons a rest)
  then show ?case
    by (cases "validate_axis areMapped getConcreteMappedID h tv a") simp_all
qed

lemma validate_axis_block_accepts:
  assumes "isParallelTypeBlockDim (getParallelType (getConcreteMappedID axis))"
    "shared_mem_needed areMapped h axis (uses tv) = Inr False"
    "extentEqual areMapped h axis (getConcreteMappedID axis) = Inr True"
  shows "validate_axis areMapped getConcreteMappedID h tv axis = Inr ()"
  using assms block_dim_facts [OF assms(1)]
  by (auto simp add: validate_axis_def split: option.splits)

text \<open>
  Claim C5, as amended. Take an axis of a tensor with a recorded extended extent whose
  concrete axis is parallelised on a block dimension. If the uses of the tensor need
  shared visibility of the axis (the loop over the uses does not end with the answer
  no), then \<open>validate\<close> fails, whatever the memory type of the tensor; when the extent
  check of the axis passes and shared visibility is needed, the failure of the axis is
  the one for block-parallel halo axes. The loop over the uses ends with the answer no
  exactly when no use needs shared visibility; then, the extent check passing, the axis
  is accepted, whatever the memory type; and \<open>validate\<close> succeeds exactly when every axis
  of the tensor is accepted.
\<close>

theorem validate_block_parallel_halo:
  assumes "axis \<in> set (tv_axes tv)" "getExtent h axis \<noteq> None"
    "isParallelTypeBlockDim (getParallelType (getConcreteMappedID axis))"
  shows "(shared_mem_needed areMapped h axis (uses tv) \<noteq> Inr False \<longrightarrow>
      (\<exists>e. validate areMapped getConcreteMappedID h (tv\<lparr>getMemoryType := mem\<rparr>) = Inl e)) \<and>
    (shared_mem_needed areMapped h axis (uses tv) = Inr True \<and>
     extentEqual areMapped h axis (getConcreteMappedID axis) = Inr True \<longrightarrow>
       validate_axis areMapped getConcreteMappedID h (tv\<lparr>getMemoryType := mem\<rparr>) axis
         = Inl BlockParallelHalo) \<and>
    (shared_mem_needed areMapped h axis (uses tv) = Inr False \<longleftrightarrow>
       (\<forall>u \<in> set (uses tv). \<not> use_needs_shared_memory areMapped h axis u)) \<and>
    (shared_mem_needed areMapped h axis (uses tv) = Inr False \<and>
     extentEqual areMapped h axis (getConcreteMappedID axis) = Inr True \<longrightarrow>
       validate_axis areMapped getConcreteMappedID h (tv\<lparr>getMemoryType := mem\<rparr>) axis
         = Inr ()) \<and>
    (validate areMapped getConcreteMappedID h (tv\<lparr>getMemoryType := mem\<rparr>) = Inr () \<longleftrightarrow>
       (\<forall>a \<in> set (tv_axes tv).
          validate_axis areMapped getConcreteMappedID h (tv\<lparr>getMemoryType := mem\<rparr>) a = Inr ()))"
proof -
  have rejected: "\<exists>e. validate areMapped getConcreteMappedID h (tv\<lparr>getMemoryType := mem\<rparr>) = Inl e"
    if needed: "shared_mem_needed areMapped h axis (uses tv) \<noteq> Inr False"
  proof -
    obtain e where
      "validate_axis areMapped getConcreteMappedID h (tv\<lparr>getMemoryType := mem\<rparr>) axis = Inl e"
      using validate_axis_block_fails [of h axis getConcreteMappedID areMapped
          "tv\<lparr>getMemoryType := mem\<rparr>"] assms needed
      by auto
    then show ?thesis
      using validate_axes_fails [of axis "tv_axes tv" areMapped getConcreteMappedID h
          "tv\<lparr>getMemoryType := mem\<rparr>" e] assms(1)
      by (simp add: validate_def)
  qed
  have block: "shared_mem_needed areMapped h axis (uses tv) = Inr True \<and>
     extentEqual areMapped h axis (getConcreteMappedID axis) = Inr True \<longrightarrow>
       validate_axis areMapped getConcreteMappedID h (tv\<lparr>getMemoryType := mem\<rparr>) axis
         = Inl BlockParallelHalo"
    using validate_axis_block_error [of h axis getConcreteMappedID areMapped
        "tv\<lparr>getMemoryType := mem\<rparr>"] assms
    by auto
  have accepted: "shared_mem_needed areMapped h axis (uses tv) = Inr False \<and>
     extentEqual areMapped h axis (getConcreteMappedID axis) = Inr True \<longrightarrow>
       validate_axis areMapped getConcreteMappedID h (tv\<lparr>getMemoryType := mem\<rparr>) axis
         = Inr ()"
    using validate_axis_block_accepts [of getConcreteMappedID axis areMapped h
        "tv\<lparr>getMemoryType := mem\<rparr>"] assms(3)
    by auto
  have whole: "validate areMapped getConcreteMappedID h (tv\<lparr>getMemoryType := mem\<rparr>) = Inr () \<longleftrightarrow>
       (\<forall>a \<in> set (tv_axes tv).
          validate_axis areMapped getConcreteMappedID h (tv\<lparr>getMemoryType := mem\<rparr>) a = Inr ())"
    by (simp add: validate_def validate_axes_accepts)
  from rejected block accepted whole shared_mem_needed_none [of areMapped h axis "uses tv"]
  show ?thesis by blast
qed

text \<open>
  For the concrete runs: the fusion \<open>T1 = op(T0)\<close>, \<open>T2 = shift(T1, 3)\<close> on one-dimensional
  tensors whose root axes 10, 11 and 12 are parallelised on \<^verbatim>\<open>BIDx\<close>; \<open>T0\<close> is not a
  fusion input. \<open>example_chain_build\<close> runs the steps of \<^verbatim>\<open>HaloInfo::build(Fusion*)\<close> on
  it: all root axes start without halo, the halo is propagated backward through the
  shift and then through the pointwise operation, and the tables of the leaf axes are
  built for each tensor. Axes 10 and 11 are loop-mapped.
\<close>

definition example_loop_map :: "nat \<Rightarrow> nat \<Rightarrow> bool" where
  "example_loop_map a b = (a = b \<or> (a = 10 \<and> b = 11) \<or> (a = 11 \<and> b = 10))"

definition example_chain_start :: HaloInfo where
  "example_chain_start =
     \<lparr> root_axis_map =
         [10 \<mapsto> AxisHaloInfo_new, 11 \<mapsto> AxisHaloInfo_new, 12 \<mapsto> AxisHaloInfo_new],
       kir_root_axis_map =
         [10 \<mapsto> AxisHaloInfo_new, 11 \<mapsto> AxisHaloInfo_new, 12 \<mapsto> AxisHaloInfo_new],
       kir_extent_map = Map.empty, halo_width_map = Map.empty \<rparr>"

definition example_domain :: "nat \<Rightarrow> TensorDomain" where
  "example_domain k =
     \<lparr>getRootDomain = [example_block_axis k], td_domain = [example_block_axis k], td_exprs = []\<rparr>"

definition example_chain_build :: "error + (HaloInfo \<times> addr)" where
  "example_chain_build =
     bind_res (propagateRootAxisInfo False [12 \<mapsto> example_block_axis 11]
        [example_block_axis 12] (ShiftOp [3] False) (example_chain_start, 200)) (\<lambda>s1.
     bind_res (propagateRootAxisInfo False [11 \<mapsto> example_block_axis 10]
        [example_block_axis 11] OtherOp s1) (\<lambda>s2.
     bind_res (build_td (example_domain 10) s2) (\<lambda>s3.
     bind_res (build_td (example_domain 11) s3) (\<lambda>s4.
     build_td (example_domain 12) s4))))"

definition example_chain_widths :: HaloInfo where
  "example_chain_widths =
     (case example_chain_build of Inr (h, n) \<Rightarrow> h | Inl e \<Rightarrow> example_chain_start)"

definition example_pointwise_use :: TvUse where
  "example_pointwise_use =
     \<lparr>isTVOp = True, use_expr = OtherOp, use_consumer_axes = [example_block_axis 11]\<rparr>"

lemma example_chain_build_value:
  "example_chain_build = Inr (example_chain_widths, 206)"
  by (simp add: example_chain_widths_def example_chain_build_def example_chain_start_def
      example_domain_def propagateRootAxisInfo_def propagate_axis_def getRootAxisInfo_def
      setRootAxisInfo_def is_root_axis_def example_block_axis_def at_index_def width_at_def
      addExpr_scalar_def create_Int_def merge_pos_0 merge_info merge_width_def build_td_def
      build_root_def width_sum_def addExpr_def hasHalo_def map_insert_def IrBuilder_addExpr_def
      newArithmeticExpr_def isZeroInt_def zeroVal_def AxisHaloInfo_new_def split_def Let_def)

lemma example_chain_widths_simps:
  "kir_extent_map example_chain_widths 10
     = Some (Res 204 DInt (BinaryOp BAdd (Sym 110 DInt) (Lit 202 (IntV 3))))"
  "halo_width_map example_chain_widths 10 = Some (Lit 202 (IntV 3))"
  "halo_width_map example_chain_widths 11 = Some (Lit 201 (IntV 3))"
  by (simp_all add: example_chain_widths_def example_chain_build_def example_chain_start_def
      example_domain_def propagateRootAxisInfo_def propagate_axis_def getRootAxisInfo_def
      setRootAxisInfo_def is_root_axis_def example_block_axis_def at_index_def width_at_def
      addExpr_scalar_def create_Int_def merge_pos_0 merge_info merge_width_def build_td_def
      build_root_def width_sum_def addExpr_def hasHalo_def map_insert_def IrBuilder_addExpr_def
      newArithmeticExpr_def isZeroInt_def zeroVal_def AxisHaloInfo_new_def split_def Let_def)

lemma example_chain_extents:
  "extentEqual example_loop_map example_chain_widths (example_block_axis 10)
      (example_block_axis 11) = Inr True"
  "extentEqual example_loop_map example_chain_widths (example_block_axis 10)
      (example_block_axis 10) = Inr True"
  by (simp_all add: extentEqual_def extentCompare.simps example_loop_map_def
      example_chain_widths_simps example_block_axis_def hasHaloWidth_def getHaloWidth_def
      cmp_equal.simps)

text \<open>
  A rejected tensor (its use is a shift) and an accepted one (\<open>T0\<close> above, whose only
  use is the pointwise operation with an output axis of the same extent).
\<close>

theorem validate_block_parallel_halo_witness:
  "example_block_axis 10 \<in> set [example_block_axis 10] \<and>
   getExtent (example_widths (Lit 7 (IntV 3))) (example_block_axis 10) \<noteq> None \<and>
   isParallelTypeBlockDim (getParallelType (example_block_axis 10)) \<and>
   shared_mem_needed (=) (example_widths (Lit 7 (IntV 3))) (example_block_axis 10)
     [\<lparr>isTVOp = True, use_expr = ShiftOp [1] False, use_consumer_axes = []\<rparr>] = Inr True \<and>
   validate (=) (\<lambda>d. d) (example_widths (Lit 7 (IntV 3)))
     \<lparr>getMemoryType = Shared, tv_axes = [example_block_axis 10],
      uses = [\<lparr>isTVOp = True, use_expr = ShiftOp [1] False, use_consumer_axes = []\<rparr>]\<rparr>
     = Inl BlockParallelHalo \<and>
   validate (=) (\<lambda>d. d) (example_widths (Lit 7 (IntV 3)))
     \<lparr>getMemoryType = Global, tv_axes = [example_block_axis 10],
      uses = [\<lparr>isTVOp = True, use_expr = ShiftOp [1] False, use_consumer_axes = []\<rparr>]\<rparr>
     = Inl BlockParallelHalo \<and>
   getExtent example_chain_widths (example_block_axis 10) \<noteq> None \<and>
   \<not> use_needs_shared_memory example_loop_map example_chain_widths (example_block_axis 10)
     example_pointwise_use \<and>
   shared_mem_needed example_loop_map example_chain_widths (example_block_axis 10)
     [example_pointwise_use] = Inr False \<and>
   extentEqual example_loop_map example_chain_widths (example_block_axis 10)
     (example_block_axis 10) = Inr True \<and>
   validate_axis example_loop_map (\<lambda>d. d) example_chain_widths
     \<lparr>getMemoryType = Global, tv_axes = [example_block_axis 10],
      uses = [example_pointwise_use]\<rparr> (example_block_axis 10) = Inr () \<and>
   validate example_loop_map (\<lambda>d. d) example_chain_widths
     \<lparr>getMemoryType = Global, tv_axes = [example_block_axis 10],
      uses = [example_pointwise_use]\<rparr> = Inr ()"
proof -
  have quiet: "\<not> use_needs_shared_memory example_loop_map example_chain_widths
      (example_block_axis 10) example_pointwise_use"
    using example_chain_extents(1)
    by (simp add: use_needs_shared_memory_def example_pointwise_use_def is_shift_or_gather_def
        example_loop_map_def example_block_axis_def)
  have facts: "getExtent example_chain_widths (example_block_axis 10) \<noteq> None"
    "isParallelTypeBlockDim (getParallelType (example_block_axis 10))"
    by (simp_all add: getExtent_def example_chain_widths_simps example_block_axis_def
        isParallelTypeBlockDim_def)
  note rejected =
    validate_block_parallel_halo [where axis = "example_block_axis 10"
      and tv = "\<lparr>getMemoryType = Shared, tv_axes = [example_block_axis 10],
        uses = [\<lparr>isTVOp = True, use_expr = ShiftOp [1] False, use_consumer_axes = []\<rparr>]\<rparr>"
      and h = "example_widths (Lit 7 (IntV 3))" and getConcreteMappedID = "\<lambda>d. d"
      and areMapped = "(=)" and mem = Shared]
    validate_block_parallel_halo [where axis = "example_block_axis 10"
      and tv = "\<lparr>getMemoryType = Shared, tv_axes = [example_block_axis 10],
        uses = [\<lparr>isTVOp = True, use_expr = ShiftOp [1] False, use_consumer_axes = []\<rparr>]\<rparr>"
      and h = "example_widths (Lit 7 (IntV 3))" and getConcreteMappedID = "\<lambda>d. d"
      and areMapped = "(=)" and mem = Global]
  have first: "example_block_axis 10 \<in> set [example_block_axis 10] \<and>
   getExtent (example_widths (Lit 7 (IntV 3))) (example_block_axis 10) \<noteq> None \<and>
   isParallelTypeBlockDim (getParallelType (example_block_axis 10)) \<and>
   shared_mem_needed (=) (example_widths (Lit 7 (IntV 3))) (example_block_axis 10)
     [\<lparr>isTVOp = True, use_expr = ShiftOp [1] False, use_consumer_axes = []\<rparr>] = Inr True \<and>
   validate (=) (\<lambda>d. d) (example_widths (Lit 7 (IntV 3)))
     \<lparr>getMemoryType = Shared, tv_axes = [example_block_axis 10],
      uses = [\<lparr>isTVOp = True, use_expr = ShiftOp [1] False, use_consumer_axes = []\<rparr>]\<rparr>
     = Inl BlockParallelHalo \<and>
   validate (=) (\<lambda>d. d) (example_widths (Lit 7 (IntV 3)))
     \<lparr>getMemoryType = Global, tv_axes = [example_block_axis 10],
      uses = [\<lparr>isTVOp = True, use_expr = ShiftOp [1] False, use_consumer_axes = []\<rparr>]\<rparr>
     = Inl BlockParallelHalo"
    using rejected
    by (simp add: example_widths_def example_block_axis_def getExtent_def isZeroInt_def
        isParallelTypeBlockDim_def is_shift_or_gather_def validate_def extentEqual_def
        extentCompare.simps hasHaloWidth_def getHaloWidth_def cmp_equal.simps)
  note accepted =
    validate_block_parallel_halo [where axis = "example_block_axis 10"
      and tv = "\<lparr>getMemoryType = Global, tv_axes = [example_block_axis 10],
        uses = [example_pointwise_use]\<rparr>"
      and h = example_chain_widths and getConcreteMappedID = "\<lambda>d. d"
      and areMapped = example_loop_map and mem = Global]
  have second: "shared_mem_needed example_loop_map example_chain_widths (example_block_axis 10)
     [example_pointwise_use] = Inr False \<and>
   validate_axis example_loop_map (\<lambda>d. d) example_chain_widths
     \<lparr>getMemoryType = Global, tv_axes = [example_block_axis 10],
      uses = [example_pointwise_use]\<rparr> (example_block_axis 10) = Inr () \<and>
   validate example_loop_map (\<lambda>d. d) example_chain_widths
     \<lparr>getMemoryType = Global, tv_axes = [example_block_axis 10],
      uses = [example_pointwise_use]\<rparr> = Inr ()"
    using accepted facts quiet example_chain_extents(2) by simp
  from first second facts quiet example_chain_extents(2) show ?thesis by simp
qed

text \<open>
  The claim as stated fails for a tensor whose uses do not need shared visibility. In
  the fusion above, the axis of \<open>T0\<close> is parallelised on \<^verbatim>\<open>BIDx\<close> and carries the halo
  width 3 that reached it from the shift, so it has a recorded extended extent; its only
  use is the pointwise operation, whose output axis has the halo width 3 as well. The
  validation of \<open>T0\<close> passes.
\<close>

theorem validate_block_parallel_halo_counterexample:
  "example_chain_build = Inr (example_chain_widths, 206) \<and>
   halo_width_map example_chain_widths 10 = Some (Lit 202 (IntV 3)) \<and>
   halo_width_map example_chain_widths 11 = Some (Lit 201 (IntV 3)) \<and>
   getExtent example_chain_widths (example_block_axis 10)
     = Some (Res 204 DInt (BinaryOp BAdd (Sym 110 DInt) (Lit 202 (IntV 3)))) \<and>
   getParallelType (example_block_axis 10) = BIDx \<and>
   isParallelTypeBlockDim BIDx \<and>
   validate example_loop_map (\<lambda>d. d) example_chain_widths
     \<lparr>getMemoryType = Global, tv_axes = [example_block_axis 10],
      uses = [\<lparr>isTVOp = True, use_expr = OtherOp,
               use_consumer_axes = [example_block_axis 11]\<rparr>]\<rparr> = Inr ()"
  using example_chain_build_value example_chain_extents
  by (simp add: example_chain_widths_simps getExtent_def isParallelTypeBlockDim_def
      isParallelTypeThread_def validate_def validate_axis_def is_shift_or_gather_def
      example_loop_map_def example_block_axis_def)

section \<open>Properties of the predicate necessity test\<close>

text \<open>
  The condition of the claim for the root axis \<open>d\<close> at position \<open>i\<close>: the axis carries
  halo, or it is not a broadcast axis and the operation shifts it by a nonzero offset or
  gathers it with a window that is not a known one. \<open>covers_axes expr m\<close> says that the
  operation has an offset, or a window size, for each of the first \<open>m\<close> root axes.
\<close>

definition root_has_halo :: "HaloInfo \<Rightarrow> IterDomain \<Rightarrow> bool" where
  "root_has_halo h d =
     (case root_axis_map h (id_of d) of Some info \<Rightarrow> hasHalo info | None \<Rightarrow> False)"

definition shifted_or_gathered :: "FusionExpr \<Rightarrow> nat \<Rightarrow> bool" where
  "shifted_or_gathered expr i =
     (case expr of
        ShiftOp offs pd \<Rightarrow> offs ! i \<noteq> 0
      | GatherOp ws pads ga \<Rightarrow> \<not> isOneInt (ws ! i)
      | OtherOp \<Rightarrow> False)"

definition axis_condition :: "HaloInfo \<Rightarrow> FusionExpr \<Rightarrow> nat \<Rightarrow> IterDomain \<Rightarrow> bool" where
  "axis_condition h expr i d =
     (root_has_halo h d \<or> (\<not> isBroadcast d \<and> shifted_or_gathered expr i))"

definition covers_axes :: "FusionExpr \<Rightarrow> nat \<Rightarrow> bool" where
  "covers_axes expr m =
     (case expr of
        ShiftOp offs pd \<Rightarrow> m \<le> length offs
      | GatherOp ws pads ga \<Rightarrow> m \<le> length ws
      | OtherOp \<Rightarrow> True)"

text \<open>
  Where the operation has an offset or a window size for every root axis of the
  consumer, \<open>needsShiftPredicate\<close> returns whether some root axis meets the condition; for
  an operation that is neither a shift nor a gather, on axes without halo, it returns
  false.
\<close>

lemma axis_needs_predicate_value:
  assumes "is_root_axis d" "root_axis_map h (id_of d) = Some info" "covers_axes expr (Suc i)"
  shows "axis_needs_predicate h expr i d = Inr (axis_condition h expr i d)"
  using assms
  by (cases expr)
    (auto simp add: axis_needs_predicate_def getRootAxisInfo_def axis_condition_def
      root_has_halo_def shifted_or_gathered_def covers_axes_def at_index_def)

lemma needs_predicate_axes_value:
  assumes "\<forall>d \<in> set rd. is_root_axis d \<and> root_axis_map h (id_of d) \<noteq> None"
    "covers_axes expr (k + length rd)"
  shows "needs_predicate_axes h expr k rd =
     Inr (\<exists>j<length rd. axis_condition h expr (k + j) (rd ! j))"
  using assms
proof (induction rd arbitrary: k)
  case Nil
  then show ?case by simp
next
  case (Cons d rest)
  from Cons.prems obtain info where info: "is_root_axis d" "root_axis_map h (id_of d) = Some info"
    by auto
  have cov: "covers_axes expr (Suc k)"
    using Cons.prems(2) by (cases expr) (auto simp add: covers_axes_def)
  have step: "axis_needs_predicate h expr k d = Inr (axis_condition h expr k d)"
    using info cov by (rule axis_needs_predicate_value)
  have rest: "needs_predicate_axes h expr (Suc k) rest =
     Inr (\<exists>j<length rest. axis_condition h expr (Suc k + j) (rest ! j))"
    using Cons.prems by (intro Cons.IH) auto
  show ?case
    by (simp add: step rest Ex_less_Suc2)
qed

lemma needsShiftPredicate_value:
  assumes "\<forall>d \<in> set rd. is_root_axis d \<and> root_axis_map h (id_of d) \<noteq> None"
    "covers_axes expr (length rd)"
  shows "needsShiftPredicate h expr rd = Inr (\<exists>j<length rd. axis_condition h expr j (rd ! j))"
  using needs_predicate_axes_value [of rd h expr 0] assms
  by (simp add: needsShiftPredicate_def)

lemma needsShiftPredicate_no_shift_gather:
  assumes "\<forall>d \<in> set rd. is_root_axis d \<and> root_axis_map h (id_of d) \<noteq> None
      \<and> \<not> root_has_halo h d"
  shows "needsShiftPredicate h OtherOp rd = Inr False"
proof -
  have "needs_predicate_axes h OtherOp 0 rd =
     Inr (\<exists>j<length rd. axis_condition h OtherOp (0 + j) (rd ! j))"
    using assms by (intro needs_predicate_axes_value) (auto simp add: covers_axes_def)
  then show ?thesis
    using assms
    by (auto simp add: needsShiftPredicate_def axis_condition_def shifted_or_gathered_def)
qed

text \<open>
  A table of root-axis entries without halo for the axes \<open>ks\<close>.
\<close>

definition example_roots :: "nat list \<Rightarrow> HaloInfo" where
  "example_roots ks =
     \<lparr> root_axis_map = map_of (map (\<lambda>k. (k, AxisHaloInfo_new)) ks),
       kir_root_axis_map = map_of (map (\<lambda>k. (k, AxisHaloInfo_new)) ks),
       kir_extent_map = Map.empty, halo_width_map = Map.empty \<rparr>"

text \<open>
  Claim C6 on a gather. The root domain of the output of a gather has the gathered axes
  followed by their window axes (\<^verbatim>\<open>getGatherProducerIndex\<close> guards
  \<^verbatim>\<open>consumer_root_axis >= windowShape().size()\<close> and reads the index of the window axis
  \<^verbatim>\<open>gatherAxis(consumer_root_axis)\<close> among the root indices), while \<^verbatim>\<open>windowShape()\<close> has
  one entry per gathered axis. \<open>needsShiftPredicate\<close> has no such guard: for a gather of a
  one-dimensional tensor with a window of one and no halo, axis 0 does not meet the
  condition, and at the window axis the read of \<^verbatim>\<open>windowShape()[1]\<close> is out of range. The
  claim asks for the answer false there.
\<close>

theorem needsShiftPredicate_gather_unit_window:
  "\<not> axis_condition (example_roots [20, 21]) (GatherOp [Lit 50 (IntV 1)] [[zeroVal, zeroVal]] Suc)
       0 (example_axis 20) \<and>
   \<not> root_has_halo (example_roots [20, 21]) (example_axis 21) \<and>
   needsShiftPredicate (example_roots [20, 21])
     (GatherOp [Lit 50 (IntV 1)] [[zeroVal, zeroVal]] Suc) [example_axis 20, example_axis 21]
     = Inl OutOfRange"
  by (simp add: needsShiftPredicate_def axis_needs_predicate_def getRootAxisInfo_def
      example_roots_def example_axis_simps at_index_def hasHalo_def AxisHaloInfo_new_def
      zeroVal_def isZeroInt_def isOneInt_def axis_condition_def root_has_halo_def
      shifted_or_gathered_def)

section \<open>Properties of the predicates\<close>

text \<open>
  A predicate holds under an assignment of the runtime scalars when it is null or
  evaluates to a nonzero value.
\<close>

definition holds :: "(addr \<Rightarrow> int) \<Rightarrow> Val option \<Rightarrow> bool" where
  "holds env p = (case p of None \<Rightarrow> True | Some v \<Rightarrow> eval env v \<noteq> 0)"

lemma eval_bool_value: "bool_value x = Some b \<Longrightarrow> eval env x = (if b then 1 else 0)"
  by (cases x rule: bool_value.cases) simp_all

lemma eval_addExpr: "eval env (fst (addExpr a b n)) = eval env a + eval env b"
  by (auto simp add: addExpr_def isZeroInt_def create_Int_def IrBuilder_addExpr_def
      newArithmeticExpr_def eval_int_value split: option.splits)

lemma eval_addExpr_scalar: "eval env (fst (addExpr_scalar a v n)) = eval env a + v"
  by (auto simp add: addExpr_scalar_def create_Int_def IrBuilder_addExpr_def
      IrBuilder_subExpr_def newArithmeticExpr_def eval_int_value split: option.splits)

lemma eval_ltExpr: "eval env (fst (ltExpr a b n)) \<noteq> 0 \<longleftrightarrow> eval env a < eval env b"
  by (auto simp add: ltExpr_def create_Bool_def newLogicExpr_def eval_int_value
      split: option.splits)

lemma eval_geExpr: "eval env (fst (geExpr a b n)) \<noteq> 0 \<longleftrightarrow> eval env b \<le> eval env a"
  by (auto simp add: geExpr_def create_Bool_def newLogicExpr_def eval_int_value
      split: option.splits)

lemma holds_andExpr:
  "holds env (Some (fst (andExpr p c n))) \<longleftrightarrow> holds env p \<and> eval env c \<noteq> 0"
  by (auto simp add: andExpr_def holds_def trueVal_def falseVal_def newLogicExpr_def
      eval_bool_value split: option.splits)

lemma alloc_mono:
  "n \<le> snd (addExpr a b n)" "n \<le> snd (addExpr_scalar a v n)" "n \<le> snd (ltExpr a b n)"
  "n \<le> snd (geExpr a b n)" "n \<le> snd (andExpr p c n)" "n \<le> snd (subExpr a b n)"
  by (auto simp add: addExpr_def addExpr_scalar_def ltExpr_def geExpr_def andExpr_def
      subExpr_def create_Int_def create_Bool_def IrBuilder_addExpr_def IrBuilder_subExpr_def
      newArithmeticExpr_def newLogicExpr_def split: option.splits)


text \<open>
  What the two parts of the shift predicate of one axis check, given the consumer index,
  the producer index and the limit: the comparisons of lines 239 to 304, read as
  conditions on the values.
\<close>

definition upper_checks ::
  "(addr \<Rightarrow> int) \<Rightarrow> FusionExpr \<Rightarrow> nat \<Rightarrow> Val \<Rightarrow> Val \<Rightarrow> Val \<Rightarrow> bool" where
  "upper_checks env expr i consumer_index producer_index right_limit =
     (case expr of
        ShiftOp offs pd \<Rightarrow>
          (if offs ! i < 0 \<and> pd then eval env producer_index < eval env right_limit
           else eval env consumer_index < eval env right_limit)
      | GatherOp ws pads ga \<Rightarrow>
          eval env consumer_index < eval env right_limit \<and>
          (addr_of consumer_index = addr_of producer_index \<or>
           eval env producer_index < eval env right_limit)
      | OtherOp \<Rightarrow> eval env consumer_index < eval env right_limit)"

definition lower_checks ::
  "(addr \<Rightarrow> int) \<Rightarrow> FusionExpr \<Rightarrow> nat \<Rightarrow> Val \<Rightarrow> Val \<Rightarrow> Val \<Rightarrow> bool" where
  "lower_checks env expr i consumer_index producer_index left_limit =
     (case expr of
        ShiftOp offs pd \<Rightarrow>
          (if 0 < offs ! i then
             eval env left_limit \<le> eval env (if pd then producer_index else consumer_index)
           else isZeroInt left_limit \<or> eval env left_limit \<le> eval env consumer_index)
      | GatherOp ws pads ga \<Rightarrow>
          eval env left_limit \<le> eval env consumer_index \<and>
          (addr_of consumer_index = addr_of producer_index \<or>
           eval env left_limit \<le> eval env producer_index)
      | OtherOp \<Rightarrow> isZeroInt left_limit \<or> eval env left_limit \<le> eval env consumer_index)"

lemma upper_limit_predicate_mono:
  "upper_limit_predicate expr i c p r (acc, m) = Inr (acc', m') \<Longrightarrow> m \<le> m'"
  by (cases expr)
    (auto simp add: upper_limit_predicate_def at_index_def split_def Let_def
      intro: order_trans [OF alloc_mono(3) alloc_mono(5)]
        order_trans [OF order_trans [OF alloc_mono(3) alloc_mono(5)]
          order_trans [OF alloc_mono(3) alloc_mono(5)]]
      split: if_splits)

lemma upper_limit_predicate_holds:
  "upper_limit_predicate expr i c p r (acc, m) = Inr (acc', m') \<Longrightarrow>
   holds env acc' \<longleftrightarrow> holds env acc \<and> upper_checks env expr i c p r"
  by (cases expr)
    (auto simp add: upper_limit_predicate_def upper_checks_def at_index_def split_def Let_def
      holds_andExpr eval_ltExpr split: if_splits)

lemma lower_limit_predicate_mono:
  "lower_limit_predicate expr i c p l (acc, m) = Inr (acc', m') \<Longrightarrow> m \<le> m'"
  by (cases expr)
    (auto simp add: lower_limit_predicate_def at_index_def split_def Let_def
      intro: order_trans [OF alloc_mono(4) alloc_mono(5)]
        order_trans [OF order_trans [OF alloc_mono(4) alloc_mono(5)]
          order_trans [OF alloc_mono(4) alloc_mono(5)]]
      split: if_splits)

lemma lower_limit_predicate_holds:
  "lower_limit_predicate expr i c p l (acc, m) = Inr (acc', m') \<Longrightarrow>
   holds env acc' \<longleftrightarrow> holds env acc \<and> lower_checks env expr i c p l"
  by (cases expr)
    (auto simp add: lower_limit_predicate_def lower_checks_def at_index_def split_def Let_def
      holds_andExpr eval_geExpr split: if_splits)


text \<open>
  The offsets of a shift are \<^verbatim>\<open>int\<close>s other than the least one, so that the negation of
  an offset is its negative.
\<close>

definition int_offsets :: "FusionExpr \<Rightarrow> bool" where
  "int_offsets expr =
     (case expr of ShiftOp offs pd \<Rightarrow> list_all int_offset offs | _ \<Rightarrow> True)"

lemma negate_int_offset: "int_offset x \<Longrightarrow> negate_int x = - x"
  by (simp add: negate_int_def int_offset_def)

lemma getShiftProducerIndex_negated:
  "getShiftProducerIndex i c (ShiftOp offs pd) n = Inr (p, n') \<Longrightarrow>
   i < length offs \<and> n \<le> n' \<and> eval env p = eval env c + negate_int (offs ! i)"
  using alloc_mono(2) [of n c "negate_int (offs ! i)"]
    eval_addExpr_scalar [of env c "negate_int (offs ! i)" n]
  by (auto simp add: getShiftProducerIndex_def at_index_def bind_res_Inr negate_int_def
      split: if_splits)

lemma getShiftProducerIndex_eval:
  assumes "getShiftProducerIndex i c (ShiftOp offs pd) n = Inr (p, n')"
    and "int_offsets (ShiftOp offs pd)"
  shows "n \<le> n' \<and> eval env p = eval env c - offs ! i"
proof -
  note run = getShiftProducerIndex_negated [OF assms(1), of env]
  then have "int_offset (offs ! i)"
    using assms(2) by (simp add: int_offsets_def list_all_length)
  with run show ?thesis by (simp add: negate_int_offset)
qed

text \<open>At the least offset the index built is the consumer index minus \<open>2^31\<close>.\<close>

lemma getShiftProducerIndex_least_offset:
  "getShiftProducerIndex 0 (Sym 50 DInt) (ShiftOp [- 2147483648] True) 200
     = Inr (Res 201 DInt (BinaryOp BSub (Sym 50 DInt) (Lit 200 (IntV 2147483648))), 202)"
  by (simp add: getShiftProducerIndex_def at_index_def negate_int_def addExpr_scalar_def
      create_Int_def IrBuilder_subExpr_def newArithmeticExpr_def)

lemma create_Int_of_eval:
  "int_value node = Some v \<Longrightarrow> eval env (fst (create_Int_of node n)) = v"
  by (simp add: create_Int_of_def)

lemma getGatherProducerIndex_eval:
  assumes "getGatherProducerIndex i c (GatherOp ws pads ga) indices n = Inr (p, n')"
  shows "n \<le> n' \<and>
     (if i < length ws \<and> \<not> isOneInt (ws ! i) then
        n \<le> addr_of p \<and>
        (\<forall>pv. int_value (pads ! i ! 0) = Some pv \<longrightarrow>
           eval env p = eval env c + eval env (indices ! ga i) - pv)
      else p = c)"
  using assms
  by (auto simp add: getGatherProducerIndex_def at_index_def bind_res_Inr split_def Let_def
      IrBuilder_addExpr_def IrBuilder_subExpr_def newArithmeticExpr_def create_Int_of_def
      split: if_splits option.splits)

text \<open>
  The upper bound of the root axis at position \<open>i\<close>, on values: the limit is the stop of
  the axis plus its low-side halo width \<^verbatim>\<open>width(0)\<close>. For a padded shift by a negative
  offset the producer index, which is the consumer index minus the offset, is below the
  limit; otherwise the consumer index is below it; for a gather with a window other than
  a known one and a literal left padding \<open>pv\<close>, the producer index, which is the consumer
  index plus the window index minus \<open>pv\<close>, is below it as well.
\<close>

definition axis_upper_bound ::
  "(addr \<Rightarrow> int) \<Rightarrow> FusionExpr \<Rightarrow> Val list \<Rightarrow> nat \<Rightarrow> IterDomain \<Rightarrow> AxisHaloInfo \<Rightarrow> bool" where
  "axis_upper_bound env expr indices i root_id info =
     (let high_limit = eval env (stop root_id) + eval env (width0 info);
          consumer = eval env (indices ! i) in
      case expr of
        ShiftOp offs pd \<Rightarrow>
          (if offs ! i < 0 \<and> pd then consumer - offs ! i < high_limit
           else consumer < high_limit)
      | GatherOp ws pads ga \<Rightarrow>
          consumer < high_limit \<and>
          (if i < length ws \<and> \<not> isOneInt (ws ! i) then
             (case int_value (pads ! i ! 0) of
                Some pv \<Rightarrow> consumer + eval env (indices ! ga i) - pv < high_limit
              | None \<Rightarrow> True)
           else True)
      | OtherOp \<Rightarrow> consumer < high_limit)"

lemma shift_axis_predicate_upper:
  assumes run: "shift_axis_predicate expr indices i root_id info (indices ! i) (acc, m)
      = Inr (acc', m')"
    and fresh: "addr_of (indices ! i) < m"
    and offsets: "int_offsets expr"
  shows "m \<le> m' \<and>
    (holds env acc' \<longrightarrow> holds env acc \<and> axis_upper_bound env expr indices i root_id info)"
proof -
  define left where "left = addExpr (width0 info) (start root_id) m"
  define right where "right = addExpr (stop root_id) (width0 info) (snd left)"
  have m_right: "m \<le> snd right"
    unfolding right_def left_def using alloc_mono(1) order_trans by blast
  have right_eval: "eval env (fst right) = eval env (stop root_id) + eval env (width0 info)"
    by (simp add: right_def eval_addExpr)
  from run obtain P n3 acc1 m1 where
    prod: "(case expr of
              ShiftOp offs pd \<Rightarrow> getShiftProducerIndex i (indices ! i) expr (snd right)
            | GatherOp ws pads ga \<Rightarrow>
                getGatherProducerIndex i (indices ! i) expr indices (snd right)
            | OtherOp \<Rightarrow> bind_res (at_index indices i) (\<lambda>v. Inr (v, snd right))) = Inr (P, n3)"
    and low: "lower_limit_predicate expr i (indices ! i) P (fst left) (acc, n3) = Inr (acc1, m1)"
    and up: "upper_limit_predicate expr i (indices ! i) P (fst right) (acc1, m1) = Inr (acc', m')"
    by (auto simp add: shift_axis_predicate_def width_at_def split_def Let_def bind_res_Inr
        left_def right_def cong: FusionExpr.case_cong)
  note lm = lower_limit_predicate_mono [OF low] and um = upper_limit_predicate_mono [OF up]
  note lh = lower_limit_predicate_holds [OF low, of env]
    and uh = upper_limit_predicate_holds [OF up, of env]
  show ?thesis
  proof (cases expr)
    case (ShiftOp offs pd)
    with prod offsets
    have p: "snd right \<le> n3 \<and> eval env P = eval env (indices ! i) - offs ! i"
      by (simp add: getShiftProducerIndex_eval)
    then show ?thesis
      using m_right lm um lh uh ShiftOp right_eval
      by (auto simp add: upper_checks_def axis_upper_bound_def)
  next
    case (GatherOp ws pads ga)
    with prod have p: "snd right \<le> n3 \<and>
     (if i < length ws \<and> \<not> isOneInt (ws ! i) then
        snd right \<le> addr_of P \<and>
        (\<forall>pv. int_value (pads ! i ! 0) = Some pv \<longrightarrow>
           eval env P = eval env (indices ! i) + eval env (indices ! ga i) - pv)
      else P = indices ! i)"
      using getGatherProducerIndex_eval [of i "indices ! i" ws pads ga indices "snd right" P n3 env]
      by simp
    then show ?thesis
      using m_right lm um lh uh GatherOp right_eval fresh
      by (auto simp add: upper_checks_def axis_upper_bound_def split: option.splits)
  next
    case OtherOp
    with prod have p: "snd right \<le> n3 \<and> P = indices ! i"
      by (auto simp add: bind_res_Inr at_index_def split: if_splits)
    then show ?thesis
      using m_right lm um lh uh OtherOp right_eval
      by (auto simp add: upper_checks_def axis_upper_bound_def)
  qed
qed


lemma predicate_axis_upper:
  assumes run: "predicate_axis isDerived h expr indices buffer_init True i d (acc, m)
      = Inr (acc', m')"
    and fresh: "\<forall>v \<in> set indices. addr_of v < m"
    and offsets: "int_offsets expr"
  shows "m \<le> m' \<and>
    (holds env acc' \<longrightarrow>
       holds env acc \<and>
       (skipped_axis isDerived buffer_init d \<or>
        (\<forall>info. root_axis_map h (id_of d) = Some info \<longrightarrow>
           axis_upper_bound env expr indices i d info)))"
proof (cases "skipped_axis isDerived buffer_init d")
  case True
  with run show ?thesis by (simp add: predicate_axis_def)
next
  case False
  with run obtain info' where
    info': "root_axis_map h (id_of d) = Some info'" and
    i: "i < length indices" and
    axis: "shift_axis_predicate expr indices i d info' (indices ! i) (acc, m) = Inr (acc', m')"
    by (auto simp add: predicate_axis_def bind_res_Inr getRootAxisInfo_def at_index_def
        split: if_splits option.splits)
  from i fresh have "addr_of (indices ! i) < m" by simp
  from shift_axis_predicate_upper [OF axis this offsets, of env] info' False
  show ?thesis by auto
qed

lemma predicate_axes_upper:
  assumes "predicate_axes isDerived h expr indices buffer_init True k rd (acc, m)
      = Inr (acc', m')"
    and "\<forall>v \<in> set indices. addr_of v < m"
    and "int_offsets expr"
    and "holds env acc'"
  shows "holds env acc \<and>
    (\<forall>j<length rd. skipped_axis isDerived buffer_init (rd ! j) \<or>
       (\<forall>info. root_axis_map h (id_of (rd ! j)) = Some info \<longrightarrow>
          axis_upper_bound env expr indices (k + j) (rd ! j) info))"
  using assms
proof (induction rd arbitrary: k acc m)
  case Nil
  then show ?case by simp
next
  case (Cons d rest)
  from Cons.prems(1) obtain acc1 m1 where
    first: "predicate_axis isDerived h expr indices buffer_init True k d (acc, m)
      = Inr (acc1, m1)" and
    others: "predicate_axes isDerived h expr indices buffer_init True (Suc k) rest (acc1, m1)
      = Inr (acc', m')"
    by (auto simp add: bind_res_Inr)
  note step = predicate_axis_upper [OF first Cons.prems(2,3), of env]
  then have "\<forall>v \<in> set indices. addr_of v < m1"
    using Cons.prems(2) by fastforce
  from Cons.IH [OF others this Cons.prems(3,4)]
  have ih: "holds env acc1" "\<forall>j<length rest. skipped_axis isDerived buffer_init (rest ! j) \<or>
       (\<forall>info. root_axis_map h (id_of (rest ! j)) = Some info \<longrightarrow>
          axis_upper_bound env expr indices (Suc k + j) (rest ! j) info)"
    by simp_all
  from step ih(1) have here: "holds env acc"
    "skipped_axis isDerived buffer_init d \<or>
        (\<forall>info. root_axis_map h (id_of d) = Some info \<longrightarrow>
           axis_upper_bound env expr indices k d info)"
    by simp_all
  show ?case
  proof (intro conjI allI impI)
    show "holds env acc" by (rule here(1))
  next
    fix j assume "j < length (d # rest)"
    then show "skipped_axis isDerived buffer_init ((d # rest) ! j) \<or>
       (\<forall>info. root_axis_map h (id_of ((d # rest) ! j)) = Some info \<longrightarrow>
          axis_upper_bound env expr indices (k + j) ((d # rest) ! j) info)"
      using here(2) ih(2) by (cases j) auto
  qed
qed

lemma holds_merge_thread_predicate:
  "holds env (fst (merge_thread_predicate p tp n)) \<longleftrightarrow> holds env p \<and> eval env tp \<noteq> 0"
  using holds_andExpr [of env p tp n]
  by (auto simp add: merge_thread_predicate_def create_Bool_def split_def Let_def holds_def
      eval_bool_value split: option.splits if_splits)


text \<open>
  The lower bound of the root axis at position \<open>i\<close>, on values: the limit is the low-side
  halo width \<^verbatim>\<open>width(0)\<close> plus the start of the axis. For a shift by a positive offset
  the producer index (with padding) or the consumer index (without) is at least the
  limit; for a gather the consumer index is, and so is the producer index when the
  window is not a known one; on any other axis the check is left out when the limit is
  known to be zero.
\<close>

definition zero_sum :: "Val \<Rightarrow> Val \<Rightarrow> bool" where
  "zero_sum a b =
     (case (int_value a, int_value b) of (Some x, Some y) \<Rightarrow> x + y = 0 | _ \<Rightarrow> False)"

lemma isZeroInt_addExpr: "isZeroInt (fst (addExpr a b m)) = zero_sum a b"
  by (auto simp add: addExpr_def isZeroInt_def zero_sum_def create_Int_def IrBuilder_addExpr_def
      newArithmeticExpr_def split: option.splits)

definition axis_lower_bound ::
  "(addr \<Rightarrow> int) \<Rightarrow> FusionExpr \<Rightarrow> Val list \<Rightarrow> nat \<Rightarrow> IterDomain \<Rightarrow> AxisHaloInfo \<Rightarrow> bool" where
  "axis_lower_bound env expr indices i root_id info =
     (let low_limit = eval env (width0 info) + eval env (start root_id);
          consumer = eval env (indices ! i);
          other_axis = (zero_sum (width0 info) (start root_id) \<or> low_limit \<le> consumer) in
      case expr of
        ShiftOp offs pd \<Rightarrow>
          (if 0 < offs ! i then low_limit \<le> (if pd then consumer - offs ! i else consumer)
           else other_axis)
      | GatherOp ws pads ga \<Rightarrow>
          low_limit \<le> consumer \<and>
          (if i < length ws \<and> \<not> isOneInt (ws ! i) then
             (case int_value (pads ! i ! 0) of
                Some pv \<Rightarrow> low_limit \<le> consumer + eval env (indices ! ga i) - pv
              | None \<Rightarrow> True)
           else True)
      | OtherOp \<Rightarrow> other_axis)"

text \<open>
  The left padding of a gathered axis is a literal of the fusion; the producer index of a
  gather is then the consumer index plus the window index minus that literal.
\<close>

definition literal_pad :: "FusionExpr \<Rightarrow> nat \<Rightarrow> bool" where
  "literal_pad expr i =
     (case expr of
        GatherOp ws pads ga \<Rightarrow>
          i \<ge> length ws \<or> isOneInt (ws ! i) \<or> int_value (pads ! i ! 0) \<noteq> None
      | _ \<Rightarrow> True)"

text \<open>
  What one axis contributes to the shift predicate is the lower and the upper bound of
  the axis, and nothing else.
\<close>

lemma shift_axis_predicate_meaning:
  assumes run: "shift_axis_predicate expr indices i root_id info (indices ! i) (acc, m)
      = Inr (acc', m')"
    and fresh: "addr_of (indices ! i) < m"
    and offsets: "int_offsets expr"
    and pad: "literal_pad expr i"
  shows "m \<le> m' \<and>
    (holds env acc' \<longleftrightarrow>
       holds env acc \<and> axis_lower_bound env expr indices i root_id info \<and>
       axis_upper_bound env expr indices i root_id info)"
proof -
  define left where "left = addExpr (width0 info) (start root_id) m"
  define right where "right = addExpr (stop root_id) (width0 info) (snd left)"
  have m_right: "m \<le> snd right"
    unfolding right_def left_def using alloc_mono(1) order_trans by blast
  have right_eval: "eval env (fst right) = eval env (stop root_id) + eval env (width0 info)"
    by (simp add: right_def eval_addExpr)
  have left_eval: "eval env (fst left) = eval env (width0 info) + eval env (start root_id)"
    by (simp add: left_def eval_addExpr)
  have left_zero: "isZeroInt (fst left) = zero_sum (width0 info) (start root_id)"
    by (simp add: left_def isZeroInt_addExpr)
  from run obtain P n3 acc1 m1 where
    prod: "(case expr of
              ShiftOp offs pd \<Rightarrow> getShiftProducerIndex i (indices ! i) expr (snd right)
            | GatherOp ws pads ga \<Rightarrow>
                getGatherProducerIndex i (indices ! i) expr indices (snd right)
            | OtherOp \<Rightarrow> bind_res (at_index indices i) (\<lambda>v. Inr (v, snd right))) = Inr (P, n3)"
    and low: "lower_limit_predicate expr i (indices ! i) P (fst left) (acc, n3) = Inr (acc1, m1)"
    and up: "upper_limit_predicate expr i (indices ! i) P (fst right) (acc1, m1) = Inr (acc', m')"
    by (auto simp add: shift_axis_predicate_def width_at_def split_def Let_def bind_res_Inr
        left_def right_def cong: FusionExpr.case_cong)
  note lm = lower_limit_predicate_mono [OF low] and um = upper_limit_predicate_mono [OF up]
  note lh = lower_limit_predicate_holds [OF low, of env]
    and uh = upper_limit_predicate_holds [OF up, of env]
  have checks: "snd right \<le> n3 \<and>
      (lower_checks env expr i (indices ! i) P (fst left) \<longleftrightarrow>
         axis_lower_bound env expr indices i root_id info) \<and>
      (upper_checks env expr i (indices ! i) P (fst right) \<longleftrightarrow>
         axis_upper_bound env expr indices i root_id info)"
  proof (cases expr)
    case (ShiftOp offs pd)
    with prod offsets
    have "snd right \<le> n3 \<and> eval env P = eval env (indices ! i) - offs ! i"
      by (simp add: getShiftProducerIndex_eval)
    then show ?thesis
      using ShiftOp right_eval left_eval left_zero
      by (auto simp add: upper_checks_def axis_upper_bound_def lower_checks_def
          axis_lower_bound_def Let_def)
  next
    case (GatherOp ws pads ga)
    with prod have p: "snd right \<le> n3 \<and>
      (if i < length ws \<and> \<not> isOneInt (ws ! i) then
        snd right \<le> addr_of P \<and>
        (\<forall>pv. int_value (pads ! i ! 0) = Some pv \<longrightarrow>
           eval env P = eval env (indices ! i) + eval env (indices ! ga i) - pv)
      else P = indices ! i)"
      using getGatherProducerIndex_eval [of i "indices ! i" ws pads ga indices "snd right" P n3 env]
      by simp
    show ?thesis
    proof (cases "i < length ws \<and> \<not> isOneInt (ws ! i)")
      case True
      with pad GatherOp obtain pv where pv: "int_value (pads ! i ! 0) = Some pv"
        by (auto simp add: literal_pad_def)
      from True p have "snd right \<le> addr_of P"
        "eval env P = eval env (indices ! i) + eval env (indices ! ga i) - pv"
        using pv by simp_all
      moreover from this fresh m_right have "addr_of (indices ! i) \<noteq> addr_of P" by simp
      ultimately show ?thesis
        using GatherOp True pv right_eval left_eval p
        by (simp add: upper_checks_def axis_upper_bound_def lower_checks_def
            axis_lower_bound_def Let_def)
    next
      case False
      with p have "P = indices ! i" by simp
      then show ?thesis
        using GatherOp False right_eval left_eval p
        by (auto simp add: upper_checks_def axis_upper_bound_def lower_checks_def
            axis_lower_bound_def Let_def)
    qed
  next
    case OtherOp
    with prod have "snd right \<le> n3 \<and> P = indices ! i"
      by (auto simp add: bind_res_Inr at_index_def split: if_splits)
    then show ?thesis
      using OtherOp right_eval left_eval left_zero
      by (auto simp add: upper_checks_def axis_upper_bound_def lower_checks_def
          axis_lower_bound_def Let_def)
  qed
  have "m \<le> m'" using m_right checks lm um by linarith
  moreover have "holds env acc' \<longleftrightarrow>
       holds env acc \<and> axis_lower_bound env expr indices i root_id info \<and>
       axis_upper_bound env expr indices i root_id info"
    using lh uh checks by blast
  ultimately show ?thesis by simp
qed

text \<open>The two bounds of a root axis, with the widths that the table has for it.\<close>

definition axis_bounds ::
  "(addr \<Rightarrow> int) \<Rightarrow> HaloInfo \<Rightarrow> FusionExpr \<Rightarrow> Val list \<Rightarrow> nat \<Rightarrow> IterDomain \<Rightarrow> bool" where
  "axis_bounds env h expr indices i d =
     (case root_axis_map h (id_of d) of
        Some info \<Rightarrow>
          axis_lower_bound env expr indices i d info \<and> axis_upper_bound env expr indices i d info
      | None \<Rightarrow> True)"

lemma predicate_axis_meaning:
  assumes run: "predicate_axis isDerived h expr indices buffer_init True i d (acc, m)
      = Inr (acc', m')"
    and fresh: "\<forall>v \<in> set indices. addr_of v < m"
    and offsets: "int_offsets expr"
    and pad: "literal_pad expr i"
  shows "m \<le> m' \<and>
    (holds env acc' \<longleftrightarrow>
       holds env acc \<and>
       (skipped_axis isDerived buffer_init d \<or> axis_bounds env h expr indices i d))"
proof (cases "skipped_axis isDerived buffer_init d")
  case True
  with run show ?thesis by (simp add: predicate_axis_def)
next
  case False
  with run obtain info' where
    info': "root_axis_map h (id_of d) = Some info'" and
    i: "i < length indices" and
    axis: "shift_axis_predicate expr indices i d info' (indices ! i) (acc, m) = Inr (acc', m')"
    by (auto simp add: predicate_axis_def bind_res_Inr getRootAxisInfo_def at_index_def
        split: if_splits option.splits)
  from i fresh have "addr_of (indices ! i) < m" by simp
  from shift_axis_predicate_meaning [OF axis this offsets pad, of env] info' False
  show ?thesis by (simp add: axis_bounds_def)
qed

lemma predicate_axes_meaning:
  assumes "predicate_axes isDerived h expr indices buffer_init True k rd (acc, m)
      = Inr (acc', m')"
    and "\<forall>v \<in> set indices. addr_of v < m"
    and "int_offsets expr"
    and "\<forall>j<length rd. literal_pad expr (k + j)"
  shows "holds env acc' \<longleftrightarrow>
    holds env acc \<and>
    (\<forall>j<length rd. skipped_axis isDerived buffer_init (rd ! j) \<or>
       axis_bounds env h expr indices (k + j) (rd ! j))"
  using assms
proof (induction rd arbitrary: k acc m)
  case Nil
  then show ?case by simp
next
  case (Cons d rest)
  from Cons.prems(1) obtain acc1 m1 where
    first: "predicate_axis isDerived h expr indices buffer_init True k d (acc, m)
      = Inr (acc1, m1)" and
    others: "predicate_axes isDerived h expr indices buffer_init True (Suc k) rest (acc1, m1)
      = Inr (acc', m')"
    by (auto simp add: bind_res_Inr)
  from Cons.prems(4) have pad: "literal_pad expr k"
    and pads: "\<forall>j<length rest. literal_pad expr (Suc k + j)"
    by auto
  note step = predicate_axis_meaning [OF first Cons.prems(2,3) pad, of env]
  then have "\<forall>v \<in> set indices. addr_of v < m1"
    using Cons.prems(2) by fastforce
  note ih = Cons.IH [OF others this Cons.prems(3) pads]
  have split: "(\<forall>j<length (d # rest). skipped_axis isDerived buffer_init ((d # rest) ! j) \<or>
       axis_bounds env h expr indices (k + j) ((d # rest) ! j)) \<longleftrightarrow>
     (skipped_axis isDerived buffer_init d \<or> axis_bounds env h expr indices k d) \<and>
     (\<forall>j<length rest. skipped_axis isDerived buffer_init (rest ! j) \<or>
       axis_bounds env h expr indices (Suc k + j) (rest ! j))"
    by (simp add: All_less_Suc2)
  show ?case
    unfolding split using step ih by blast
qed


text \<open>
  Claim C7, as amended. \<open>getPredicate\<close> builds a shift predicate through the loop over the
  root axes (the output is not a reduction buffer being initialised in local memory);
  the indices are nodes that exist before the call, and the offsets of a shift are
  \<^verbatim>\<open>int\<close>s other than the least one. When the predicate holds under an
  assignment, then for every root axis that the loop does not skip, the upper bound of
  that axis holds with the limit \<open>stop + width(0)\<close>, the low-side width. When the left
  paddings of a gather are literals, the predicate holds exactly when every axis that is
  not skipped satisfies its lower bound and this upper bound, and the thread predicate
  holds: the upper-bound conjunct of an axis is the comparison with \<open>stop + width(0)\<close>.
\<close>

theorem shift_predicate_upper_bound:
  assumes run: "getPredicate isDerived h expr root_domain indices buffer_init mem thread_pred
      True n = Inr (p, n')"
    and no_exit: "\<not> (mem = Local \<and> buffer_init)"
    and fresh: "\<forall>v \<in> set indices. addr_of v < n"
    and offsets: "int_offsets expr"
  shows "(holds env p \<longrightarrow>
      (\<forall>j<length root_domain. skipped_axis isDerived buffer_init (root_domain ! j) \<or>
         (\<forall>info. root_axis_map h (id_of (root_domain ! j)) = Some info \<longrightarrow>
            axis_upper_bound env expr indices j (root_domain ! j) info))) \<and>
    ((\<forall>j<length root_domain. literal_pad expr j) \<longrightarrow>
      (holds env p \<longleftrightarrow>
         (\<forall>j<length root_domain. skipped_axis isDerived buffer_init (root_domain ! j) \<or>
            axis_bounds env h expr indices j (root_domain ! j)) \<and>
         eval env thread_pred \<noteq> 0))"
proof -
  from run no_exit obtain p0 n0 where
    loop: "predicate_axes isDerived h expr indices buffer_init True 0 root_domain (None, n)
      = Inr (p0, n0)" and
    merged: "merge_thread_predicate p0 thread_pred n0 = (p, n')"
    by (auto simp add: getPredicate_def bind_res_Inr split: if_splits)
  from merged have thread: "holds env p \<longleftrightarrow> holds env p0 \<and> eval env thread_pred \<noteq> 0"
    using holds_merge_thread_predicate [of env p0 thread_pred n0] by simp
  have upper: "\<forall>j<length root_domain. skipped_axis isDerived buffer_init (root_domain ! j) \<or>
         (\<forall>info. root_axis_map h (id_of (root_domain ! j)) = Some info \<longrightarrow>
            axis_upper_bound env expr indices j (root_domain ! j) info)"
    if "holds env p"
  proof -
    from that thread have "holds env p0" by simp
    from predicate_axes_upper [OF loop fresh offsets this] show ?thesis by simp
  qed
  have exact: "holds env p \<longleftrightarrow>
         (\<forall>j<length root_domain. skipped_axis isDerived buffer_init (root_domain ! j) \<or>
            axis_bounds env h expr indices j (root_domain ! j)) \<and>
         eval env thread_pred \<noteq> 0"
    if pads: "\<forall>j<length root_domain. literal_pad expr j"
  proof -
    from pads have "\<forall>j<length root_domain. literal_pad expr (0 + j)" by simp
    from predicate_axes_meaning [OF loop fresh offsets this, of env]
    have "holds env p0 \<longleftrightarrow>
      (\<forall>j<length root_domain. skipped_axis isDerived buffer_init (root_domain ! j) \<or>
         axis_bounds env h expr indices j (root_domain ! j))"
      by (simp add: holds_def)
    with thread show ?thesis by simp
  qed
  from upper exact show ?thesis by blast
qed

text \<open>For the concrete runs: root axis \<open>k\<close> with the literal extent and stop \<open>e\<close>.\<close>

definition example_fixed_axis :: "nat \<Rightarrow> int \<Rightarrow> IterDomain" where
  "example_fixed_axis k e =
     IterDomain k (Lit (100 + k) (IntV e)) zeroVal (Lit (100 + k) (IntV e)) False False False
       Serial NoDef"

theorem shift_predicate_upper_bound_witness:
  "getPredicate (\<lambda>d. False) (example_roots [20]) (ShiftOp [- 2] True) [example_axis 20]
     [Sym 50 DInt] False Global trueVal True 200
     = Inr (Some (Res 202 DBool (BinaryOp BLT
          (Res 201 DInt (BinaryOp BAdd (Sym 50 DInt) (Lit 200 (IntV 2)))) (Sym 120 DInt))), 203) \<and>
   addr_of (Sym 50 DInt) < 200 \<and>
   int_offsets (ShiftOp [- 2] True) \<and>
   literal_pad (ShiftOp [- 2] True) 0 \<and>
   holds (\<lambda>a. if a = 50 then 3 else 10) (Some (Res 202 DBool (BinaryOp BLT
          (Res 201 DInt (BinaryOp BAdd (Sym 50 DInt) (Lit 200 (IntV 2)))) (Sym 120 DInt)))) \<and>
   \<not> skipped_axis (\<lambda>d. False) False (example_axis 20) \<and>
   root_axis_map (example_roots [20]) (id_of (example_axis 20)) = Some AxisHaloInfo_new \<and>
   axis_upper_bound (\<lambda>a. if a = 50 then 3 else 10) (ShiftOp [- 2] True) [Sym 50 DInt] 0
     (example_axis 20) AxisHaloInfo_new \<and>
   axis_bounds (\<lambda>a. if a = 50 then 3 else 10) (example_roots [20]) (ShiftOp [- 2] True)
     [Sym 50 DInt] 0 (example_axis 20) \<and>
   eval (\<lambda>a. if a = 50 then 3 else 10) trueVal \<noteq> 0"
proof -
  have run: "getPredicate (\<lambda>d. False) (example_roots [20]) (ShiftOp [- 2] True)
     [example_axis 20] [Sym 50 DInt] False Global trueVal True 200
     = Inr (Some (Res 202 DBool (BinaryOp BLT
          (Res 201 DInt (BinaryOp BAdd (Sym 50 DInt) (Lit 200 (IntV 2)))) (Sym 120 DInt))), 203)"
    by (simp add: getPredicate_def needsShiftPredicate_def axis_needs_predicate_def
        getRootAxisInfo_def example_roots_def example_axis_def is_root_axis_def at_index_def
        hasHalo_def AxisHaloInfo_new_def zeroVal_def isZeroInt_def padding_not_needed_def
        predicate_axis_def skipped_axis_def shift_axis_predicate_def width_at_def addExpr_def
        getShiftProducerIndex_def negate_int_def addExpr_scalar_def create_Int_def
        IrBuilder_addExpr_def newArithmeticExpr_def lower_limit_predicate_def
        upper_limit_predicate_def ltExpr_def newLogicExpr_def andExpr_def
        merge_thread_predicate_def trueVal_def)
  have hyps: "\<not> (Global = Local \<and> False)" "\<forall>v \<in> set [Sym 50 DInt]. addr_of v < 200"
    "int_offsets (ShiftOp [- 2] True)"
    by (simp_all add: int_offsets_def int_offset_def)
  have facts: "holds (\<lambda>a. if a = 50 then 3 else 10) (Some (Res 202 DBool (BinaryOp BLT
          (Res 201 DInt (BinaryOp BAdd (Sym 50 DInt) (Lit 200 (IntV 2)))) (Sym 120 DInt))))"
    "\<not> skipped_axis (\<lambda>d. False) False (example_axis 20)"
    "root_axis_map (example_roots [20]) (id_of (example_axis 20)) = Some AxisHaloInfo_new"
    "literal_pad (ShiftOp [- 2] True) 0"
    by (simp_all add: holds_def skipped_axis_def example_axis_simps example_roots_def
        literal_pad_def)
  from shift_predicate_upper_bound [OF run hyps, of "\<lambda>a. if a = 50 then 3 else 10"]
    run facts hyps(3)
  show ?thesis by simp
qed

text \<open>
  The claim as stated fails on an axis whose two halo widths differ. With a low width of
  2, a high width of 0 and a stop of 10, the upper-bound conjunct compares the consumer
  index with 12, the stop plus the low width; the predicate holds at the consumer index
  11, which is not below 10, the stop plus the high width.
\<close>

theorem shift_predicate_high_limit_counterexample:
  "getPredicate (\<lambda>d. False)
     (example_table AxisHaloInfo_new \<lparr>width0 = Lit 7 (IntV 2), width1 = zeroVal\<rparr>)
     OtherOp [example_fixed_axis 20 10] [Sym 50 DInt] False Global trueVal True 200
     = Inr (Some (Res 203 DBool (BinaryOp BAnd
          (Res 201 DBool (BinaryOp BGE (Sym 50 DInt) (Lit 7 (IntV 2))))
          (Res 202 DBool (BinaryOp BLT (Sym 50 DInt) (Lit 200 (IntV 12)))))), 204) \<and>
   eval (\<lambda>a. 11) (Res 203 DBool (BinaryOp BAnd
          (Res 201 DBool (BinaryOp BGE (Sym 50 DInt) (Lit 7 (IntV 2))))
          (Res 202 DBool (BinaryOp BLT (Sym 50 DInt) (Lit 200 (IntV 12)))))) = 1 \<and>
   eval (\<lambda>a. 11) (Sym 50 DInt) = 11 \<and>
   eval (\<lambda>a. 11) (stop (example_fixed_axis 20 10)) + eval (\<lambda>a. 11) zeroVal = 10 \<and>
   \<not> ((11::int) < 10)"
  by (simp add: getPredicate_def needsShiftPredicate_def axis_needs_predicate_def
      getRootAxisInfo_def example_table_def example_fixed_axis_def is_root_axis_def at_index_def
      hasHalo_def AxisHaloInfo_new_def zeroVal_def isZeroInt_def padding_not_needed_def
      predicate_axis_def skipped_axis_def shift_axis_predicate_def width_at_def addExpr_def
      create_Int_def lower_limit_predicate_def upper_limit_predicate_def ltExpr_def geExpr_def
      newLogicExpr_def andExpr_def merge_thread_predicate_def trueVal_def)

lemma example_needs_shift_predicate:
  "needsShiftPredicate (example_roots [20]) (ShiftOp [2] pd) [example_axis 20] = Inr True"
  by (simp add: needsShiftPredicate_def axis_needs_predicate_def getRootAxisInfo_def
      example_roots_def example_axis_simps at_index_def)

text \<open>
  Claim C9, as amended. For an access that passes the necessity assertion, whose output
  tensor is in local memory and which initialises a reduction buffer, the shift predicate
  is the kernel's true node: it holds under every assignment, no node is built for it
  (the builder state is unchanged), and it is returned as it is. The thread predicate is
  not merged into it: where the thread predicate evaluates to false, the merge of the
  thread predicate would not hold.
\<close>

theorem shift_predicate_buffer_init:
  assumes "needsShiftPredicate h expr root_domain = Inr True"
  shows "getPredicate isDerived h expr root_domain indices True Local thread_pred True n
       = Inr (Some trueVal, n) \<and>
     holds env (Some trueVal) \<and>
     (eval env thread_pred = 0 \<longrightarrow>
        \<not> holds env (fst (merge_thread_predicate None thread_pred n)))"
proof -
  have exit: "getPredicate isDerived h expr root_domain indices True Local thread_pred True n
       = Inr (Some trueVal, n)"
    using assms by (simp add: getPredicate_def)
  have true: "holds env (Some trueVal)"
    by (simp add: holds_def trueVal_def)
  have merged: "eval env thread_pred = 0 \<longrightarrow>
        \<not> holds env (fst (merge_thread_predicate None thread_pred n))"
    by (auto simp add: merge_thread_predicate_def andExpr_def create_Bool_def holds_def
        eval_bool_value split: option.splits)
  from exit true merged show ?thesis by simp
qed

theorem shift_predicate_buffer_init_witness:
  "needsShiftPredicate (example_roots [20]) (ShiftOp [2] False) [example_axis 20] = Inr True \<and>
   getPredicate (\<lambda>d. False) (example_roots [20]) (ShiftOp [2] False) [example_axis 20]
     [Sym 50 DInt] True Local (Sym 60 DBool) True 200 = Inr (Some trueVal, 200) \<and>
   holds (\<lambda>a. 0) (Some trueVal) \<and>
   eval (\<lambda>a. 0) (Sym 60 DBool) = 0 \<and>
   \<not> holds (\<lambda>a. 0) (fst (merge_thread_predicate None (Sym 60 DBool) 200))"
  using shift_predicate_buffer_init [OF example_needs_shift_predicate [of False],
      of "\<lambda>d. False" "[Sym 50 DInt]" "Sym 60 DBool" 200 "\<lambda>a. 0"]
    example_needs_shift_predicate [of False]
  by simp

text \<open>
  The claim as stated has the result go on to the merge with the thread predicate. With a
  thread predicate that is known to be false, that merge is a false node; the result of
  \<open>getPredicate\<close> is the true node.
\<close>

theorem shift_predicate_buffer_init_counterexample:
  "getPredicate (\<lambda>d. False) (example_roots [20]) (ShiftOp [2] False) [example_axis 20]
     [Sym 50 DInt] True Local falseVal True 200 = Inr (Some trueVal, 200) \<and>
   merge_thread_predicate None falseVal 200 = (Some (Lit 200 (BoolV False)), 201) \<and>
   eval (\<lambda>a. 0) trueVal = 1 \<and>
   eval (\<lambda>a. 0) (Lit 200 (BoolV False)) = 0"
  by (simp add: getPredicate_def example_needs_shift_predicate merge_thread_predicate_def
      falseVal_def trueVal_def create_Bool_def)

text \<open>
  Claim C10. For an access that passes the necessity assertion, whose output tensor is
  in local memory and which initialises a reduction buffer: the shift flavour, and the
  padding flavour when the definition is a padded shift or a gather, return the kernel's
  true node itself, whatever the thread predicate is, with no node built; the padding
  flavour of any other definition returns the false node, since that test comes first.
  The padding test lets through exactly the padded shifts and the gathers.
\<close>

theorem getPredicate_buffer_init_exit:
  assumes "needsShiftPredicate h expr root_domain = Inr True"
  shows "(isShiftPredicate \<or> \<not> padding_not_needed expr \<longrightarrow>
        getPredicate isDerived h expr root_domain indices True Local thread_pred
          isShiftPredicate n = Inr (Some trueVal, n)) \<and>
     (\<not> isShiftPredicate \<and> padding_not_needed expr \<longrightarrow>
        getPredicate isDerived h expr root_domain indices True Local thread_pred
          isShiftPredicate n = Inr (Some falseVal, n)) \<and>
     (\<not> padding_not_needed expr \<longleftrightarrow>
        (\<exists>offs. expr = ShiftOp offs True) \<or> (\<exists>ws pads ga. expr = GatherOp ws pads ga))"
  using assms
  by (cases expr) (auto simp add: getPredicate_def padding_not_needed_def)

theorem getPredicate_buffer_init_exit_witness:
  "needsShiftPredicate (example_roots [20]) (ShiftOp [2] True) [example_axis 20] = Inr True \<and>
   \<not> padding_not_needed (ShiftOp [2] True) \<and>
   getPredicate (\<lambda>d. False) (example_roots [20]) (ShiftOp [2] True) [example_axis 20]
     [Sym 50 DInt] True Local falseVal False 200 = Inr (Some trueVal, 200) \<and>
   getPredicate (\<lambda>d. False) (example_roots [20]) (ShiftOp [2] True) [example_axis 20]
     [Sym 50 DInt] True Local (Sym 60 DBool) True 200 = Inr (Some trueVal, 200) \<and>
   padding_not_needed (ShiftOp [2] False) \<and>
   getPredicate (\<lambda>d. False) (example_roots [20]) (ShiftOp [2] False) [example_axis 20]
     [Sym 50 DInt] True Local (Sym 60 DBool) False 200 = Inr (Some falseVal, 200)"
  using
    getPredicate_buffer_init_exit [OF example_needs_shift_predicate [of True],
      of False "\<lambda>d. False" "[Sym 50 DInt]" falseVal 200]
    getPredicate_buffer_init_exit [OF example_needs_shift_predicate [of True],
      of True "\<lambda>d. False" "[Sym 50 DInt]" "Sym 60 DBool" 200]
    getPredicate_buffer_init_exit [OF example_needs_shift_predicate [of False],
      of False "\<lambda>d. False" "[Sym 50 DInt]" "Sym 60 DBool" 200]
    example_needs_shift_predicate [of True]
  by (simp add: padding_not_needed_def)

end
